theory Spec2Isabelle
  imports Complex_Main
begin

section \<open>Anomaly detection of the solar backend (anomaly-detection.ts)\<close>

text \<open>
  A shallow embedding of the detection module: the daylight window, the four detectors
  and the orchestrator \<open>runAnomalyDetection\<close> with its persistence step
  \<open>createAnomalyIfNotExists\<close>.

  Conventions of the embedding.
  \<^item> Numbers. The detectors are embedded twice. In the first embedding a JavaScript
    \<open>number\<close> is a \<open>real\<close> and the arithmetic is exact, without the rounding of IEEE
    doubles and without NaN or the infinities; where the source can divide by zero the
    quotient is written out as a case of its own. It carries the orchestrator and the
    properties that do not depend on rounding: which detectors are called and which
    records are written, the checks on the sign and on the equality of readings, the
    cap of the weather severity. In the second embedding, the definitions with the suffix
    \<open>_f64\<close>, every operation and every decimal literal is rounded to binary64 as the
    program rounds it. It carries the properties that compare a computed value with a
    threshold, where the two embeddings decide differently for some inputs.
  \<^item> A \<open>Date\<close> is an \<open>int\<close>, the milliseconds since the epoch (UTC). The local time zone of
    the process is a parameter \<open>tz\<close>, the offset of local time from UTC in milliseconds
    (local = UTC + tz), constant over the instants considered. In the second embedding a
    \<open>Date\<close> is an \<open>int option\<close>, \<open>None\<close> the Invalid Date.
  \<^item> A parameter with a default value (\<open>cloudCoverage = 50\<close>) is an \<open>option\<close>: \<open>None\<close> is
    the omitted argument.
  \<^item> A property that is \<open>undefined\<close> in an object is \<open>None\<close>.
  \<^item> The texts \<open>description\<close> and \<open>recommendation\<close> of a result are left out: they are
    messages built with \<open>toFixed\<close>, and nothing decides on them.
  \<^item> A run of the orchestrator is embedded as a function on the store: nothing else works
    on the store while it runs. Two calls of the persistence step that overlap are
    embedded apart, step by step.
\<close>

subsection \<open>Constants of the Anomaly entity (entities/Anomaly.ts)\<close>

datatype AnomalyType = COMPLETE_FAILURE | DEGRADATION | WEATHER_RELATED | SENSOR_MALFUNCTION

datatype Severity = CRITICAL | HIGH | MEDIUM | LOW

datatype AnomalyStatus = ACTIVE | ACKNOWLEDGED | RESOLVED

subsection \<open>Dates\<close>

definition msPerDay :: int where
  "msPerDay = 86400000"

text \<open>\<open>d.setHours(h, m, s, ms)\<close>: the instant of the local calendar day of \<open>d\<close> at the
  given local time of day.\<close>

definition localMidnight :: "int \<Rightarrow> int \<Rightarrow> int" where
  "localMidnight tz d = ((d + tz) div msPerDay) * msPerDay - tz"

definition setHours :: "int \<Rightarrow> int \<Rightarrow> int \<Rightarrow> int \<Rightarrow> int \<Rightarrow> int \<Rightarrow> int" where
  "setHours tz d h m s ms = localMidnight tz d + h * 3600000 + m * 60000 + s * 1000 + ms"

definition getSunTimes :: "int \<Rightarrow> int \<Rightarrow> int \<times> int" where
  "getSunTimes tz date =
     (let d = date;
          sunrise = setHours tz d 6 0 0 0;
          sunset = setHours tz d 18 0 0 0
      in (sunrise, sunset))"

definition isDaytime :: "int \<Rightarrow> int \<Rightarrow> bool" where
  "isDaytime tz timestamp =
     (case getSunTimes tz timestamp of
        (sunrise, sunset) \<Rightarrow> timestamp \<ge> sunrise \<and> timestamp \<le> sunset)"

subsection \<open>Detection results\<close>

record Issue =
  issue :: string
  i_severity :: Severity
  i_confidence :: real

datatype Details =
    FailureDetails "real option" real bool
  | DegradationDetails real real real real
  | WeatherDetails real real real real real bool
  | SensorDetails "Issue list" real real bool

text \<open>The fields of the \<open>details\<close> objects, in the order of the source:
  \<open>FailureDetails generationPercent cloudCoverage isDaytime\<close>,
  \<open>DegradationDetails currentGeneration historicalAverage performanceRatio degradationPercent\<close>,
  \<open>WeatherDetails weatherSeverity expectedReduction actualReduction cloudCoverage precipitation isPanelIssue\<close>,
  \<open>SensorDetails issues currentReading panelCapacity isNight\<close>.\<close>

fun detailIssues :: "Details \<Rightarrow> Issue list" where
  "detailIssues (SensorDetails is cr pc n) = is"
| "detailIssues _ = []"

record DetectionResult =
  anomalyDetected :: bool
  anomalyType :: "AnomalyType option"
  severity :: "Severity option"
  confidence :: "real option"
  details :: "Details option"

text \<open>\<open>{ anomalyDetected: false } as DetectionResult\<close>: every other field is undefined.\<close>

definition noDetection :: DetectionResult where
  "noDetection =
     \<lparr>anomalyDetected = False, anomalyType = None, severity = None, confidence = None,
      details = None\<rparr>"

subsection \<open>Anomaly type 1: complete panel failure\<close>

text \<open>\<open>generationPercent\<close> is \<open>None\<close> when \<open>panelCapacity = 0\<close>: the quotient of the source
  is then Infinity, -Infinity or NaN, and \<open>generationPercent < 0.5\<close> holds only for
  -Infinity, that is for a negative \<open>energyGenerated\<close>.\<close>

definition detectCompleteFailure ::
  "int \<Rightarrow> real \<Rightarrow> real \<Rightarrow> int \<Rightarrow> real option \<Rightarrow> DetectionResult" where
  "detectCompleteFailure tz energyGenerated panelCapacity timestamp cloudCoverageArg =
     (let cloudCoverage = (case cloudCoverageArg of None \<Rightarrow> 50 | Some c \<Rightarrow> c);
          isDay = isDaytime tz timestamp;
          generationPercent =
            (if panelCapacity = 0 then None else Some ((energyGenerated / panelCapacity) * 100));
          zeroGeneration =
            (case generationPercent of None \<Rightarrow> energyGenerated < 0 | Some g \<Rightarrow> g < 0.5);
          notHeavilyClouded = cloudCoverage < 90
      in if isDay \<and> zeroGeneration \<and> notHeavilyClouded
         then \<lparr>anomalyDetected = True,
               anomalyType = Some COMPLETE_FAILURE,
               severity = Some CRITICAL,
               confidence = Some 0.95,
               details = Some (FailureDetails generationPercent cloudCoverage isDay)\<rparr>
         else noDetection)"

subsection \<open>Anomaly type 2: panel degradation\<close>

definition detectPanelDegradation :: "real \<Rightarrow> real \<Rightarrow> real option \<Rightarrow> DetectionResult" where
  "detectPanelDegradation currentGeneration historicalAverage degradationThresholdArg =
     (let degradationThreshold = (case degradationThresholdArg of None \<Rightarrow> 15 | Some t \<Rightarrow> t)
      in if historicalAverage \<le> 0 then noDetection
         else
           let performanceRatio = (currentGeneration / historicalAverage) * 100;
               degradation = 100 - performanceRatio
           in if degradation > degradationThreshold
              then
                let sev = (if degradation > 25 then HIGH else MEDIUM);
                    conf = min 0.85 (0.6 + (degradation * 0.01))
                in \<lparr>anomalyDetected = True,
                    anomalyType = Some DEGRADATION,
                    severity = Some sev,
                    confidence = Some conf,
                    details = Some (DegradationDetails currentGeneration historicalAverage
                                      performanceRatio degradation)\<rparr>
              else noDetection)"

subsection \<open>Anomaly type 3: weather-related low generation\<close>

text \<open>The local constants \<open>cloudImpact\<close>, \<open>rainImpact\<close>, \<open>weatherSeverity\<close>,
  \<open>expectedReduction\<close> and \<open>actualReduction\<close> of \<open>classifyWeatherImpact\<close>.\<close>

definition cloudImpact :: "real \<Rightarrow> real" where
  "cloudImpact cloudCoverage = cloudCoverage / 100 * 0.7"

definition rainImpact :: "real \<Rightarrow> real" where
  "rainImpact precipitation = min 0.8 (precipitation * 0.2)"

definition weatherSeverity :: "real \<Rightarrow> real \<Rightarrow> real" where
  "weatherSeverity cloudCoverage precipitation =
     min 0.9 (cloudImpact cloudCoverage + rainImpact precipitation)"

definition expectedReduction :: "real \<Rightarrow> real \<Rightarrow> real" where
  "expectedReduction cloudCoverage precipitation = weatherSeverity cloudCoverage precipitation * 100"

definition actualReduction :: "real \<Rightarrow> real \<Rightarrow> real" where
  "actualReduction energyGenerated expectedGeneration =
     (if expectedGeneration > 0
      then ((expectedGeneration - energyGenerated) / expectedGeneration) * 100
      else 0)"

definition classifyWeatherImpact ::
  "real \<Rightarrow> real \<Rightarrow> real \<Rightarrow> real option \<Rightarrow> DetectionResult" where
  "classifyWeatherImpact energyGenerated expectedGeneration cloudCoverage precipitationArg =
     (let precipitation = (case precipitationArg of None \<Rightarrow> 0 | Some p \<Rightarrow> p);
          ws = weatherSeverity cloudCoverage precipitation;
          er = expectedReduction cloudCoverage precipitation;
          ar = actualReduction energyGenerated expectedGeneration;
          reductionMatch = \<bar>ar - er\<bar> < 20
      in if ws > 0.4 \<and> reductionMatch
         then \<lparr>anomalyDetected = True,
               anomalyType = Some WEATHER_RELATED,
               severity = Some LOW,
               confidence = Some 0.8,
               details = Some (WeatherDetails ws er ar cloudCoverage precipitation False)\<rparr>
         else if ws > 0.4 \<and> \<not> reductionMatch \<and> ar > er + 20
         then \<lparr>anomalyDetected = True,
               anomalyType = Some WEATHER_RELATED,
               severity = Some MEDIUM,
               confidence = Some 0.7,
               details = Some (WeatherDetails ws er ar cloudCoverage precipitation True)\<rparr>
         else noDetection)"

subsection \<open>Anomaly type 4: sensor malfunction\<close>

text \<open>\<open>Array.prototype.slice(-n)\<close>: the last \<open>n\<close> entries, all of them when there are fewer.\<close>

definition sliceLast :: "nat \<Rightarrow> 'a list \<Rightarrow> 'a list" where
  "sliceLast n xs = drop (length xs - n) xs"

text \<open>\<open>Array.prototype.indexOf\<close>: the first index of a value, -1 when it is absent.\<close>

fun indexOfFrom :: "'a list \<Rightarrow> 'a \<Rightarrow> int \<Rightarrow> int" where
  "indexOfFrom [] x i = - 1"
| "indexOfFrom (y # ys) x i = (if y = x then i else indexOfFrom ys x (i + 1))"

definition indexOf :: "'a list \<Rightarrow> 'a \<Rightarrow> int" where
  "indexOf xs x = indexOfFrom xs x 0"

definition severityOrder :: "Severity list" where
  "severityOrder = [LOW, MEDIUM, HIGH, CRITICAL]"

text \<open>Check 1: night-time generation.\<close>

definition nightIssue :: "bool \<Rightarrow> real \<Rightarrow> Issue list" where
  "nightIssue isDay energyGenerated =
     (if \<not> isDay \<and> energyGenerated > 0.01
      then [\<lparr>issue = ''Night-time generation detected'', i_severity = CRITICAL,
             i_confidence = 0.98\<rparr>]
      else [])"

text \<open>Check 2: the physical capacity is exceeded (5% tolerance).\<close>

definition capacityIssue :: "real \<Rightarrow> real \<Rightarrow> Issue list" where
  "capacityIssue energyGenerated panelCapacity =
     (if energyGenerated > panelCapacity * 1.05
      then [\<lparr>issue = ''Generation exceeds panel capacity'', i_severity = CRITICAL,
             i_confidence = 0.99\<rparr>]
      else [])"

text \<open>Check 3: stuck value. \<open>uniqueValues\<close> is the set of the last six readings; the
  value compared with zero is \<open>recentReadings[0]\<close>, the first entry of the whole array.\<close>

definition stuckIssue :: "real list \<Rightarrow> Issue list" where
  "stuckIssue recentReadings =
     (if length recentReadings \<ge> 6
      then
        let uniqueValues = remdups (sliceLast 6 recentReadings)
        in if length uniqueValues = 1 \<and> recentReadings ! 0 \<noteq> 0
           then [\<lparr>issue = ''Sensor reading stuck at same value'', i_severity = HIGH,
                  i_confidence = 0.9\<rparr>]
           else []
      else [])"

text \<open>Check 4: erratic fluctuations of the last four readings.\<close>

definition erraticIssue :: "real list \<Rightarrow> Issue list" where
  "erraticIssue recentReadings =
     (if length recentReadings \<ge> 4
      then
        let recent = sliceLast 4 recentReadings;
            mean = foldl (\<lambda>a b. a + b) 0 recent / real (length recent)
        in if mean > 0
           then
             let variance = foldl (\<lambda>sum val. sum + (val - mean) ^ 2) 0 recent / real (length recent);
                 stdDev = sqrt variance;
                 coefficientOfVariation = stdDev / mean
             in if coefficientOfVariation > 1.5
                then [\<lparr>issue = ''Erratic sensor readings detected'', i_severity = MEDIUM,
                       i_confidence = 0.75\<rparr>]
                else []
           else []
      else [])"

text \<open>Check 5: negative values.\<close>

definition negativeIssue :: "real \<Rightarrow> Issue list" where
  "negativeIssue energyGenerated =
     (if energyGenerated < 0
      then [\<lparr>issue = ''Negative generation reading'', i_severity = CRITICAL,
             i_confidence = 1.0\<rparr>]
      else [])"

text \<open>The five checks push their issue, if any, in this order. With at least one issue,
  \<open>issues.reduce\<close> (without initial value) keeps the first issue of the highest
  severity and \<open>Math.max(...)\<close> takes the largest confidence.\<close>

definition detectSensorMalfunction ::
  "int \<Rightarrow> real \<Rightarrow> real \<Rightarrow> int \<Rightarrow> real list option \<Rightarrow> DetectionResult" where
  "detectSensorMalfunction tz energyGenerated panelCapacity timestamp recentReadingsArg =
     (let recentReadings = (case recentReadingsArg of None \<Rightarrow> [] | Some rs \<Rightarrow> rs);
          isDay = isDaytime tz timestamp;
          issues = nightIssue isDay energyGenerated
                   @ capacityIssue energyGenerated panelCapacity
                   @ stuckIssue recentReadings
                   @ erraticIssue recentReadings
                   @ negativeIssue energyGenerated
      in if length issues > 0
         then
           let highestSeverity =
                 foldl (\<lambda>highest current.
                          if indexOf severityOrder (i_severity current)
                               > indexOf severityOrder (i_severity highest)
                          then current else highest)
                       (hd issues) (tl issues)
           in \<lparr>anomalyDetected = True,
               anomalyType = Some SENSOR_MALFUNCTION,
               severity = Some (i_severity highestSeverity),
               confidence = Some (foldl max (hd (map i_confidence issues))
                                            (tl (map i_confidence issues))),
               details = Some (SensorDetails issues energyGenerated panelCapacity (\<not> isDay))\<rparr>
         else noDetection)"

text \<open>The issues a result reports: \<open>details.issues\<close>, none when there is no such field.\<close>

definition reportedIssues :: "DetectionResult \<Rightarrow> Issue list" where
  "reportedIssues r = (case details r of None \<Rightarrow> [] | Some d \<Rightarrow> detailIssues d)"

subsection \<open>IEEE 754 binary64 arithmetic\<close>

text \<open>
  The detectors compute in JavaScript numbers, IEEE 754 doubles. Where a property depends
  on how a comparison falls at a threshold, the exact embedding above is not the program;
  the detectors are therefore embedded a second time, below, with every operation and
  every decimal literal rounded as the program rounds it.

  \<open>f64 x\<close> is the double nearest to the real \<open>x\<close>, ties to the even significand: \<open>x\<close> is
  scaled by the unit in the last place of its binade (53 significant bits, the exponent
  not below -1022, so that subnormal numbers are included) and rounded to an integer.
  A double is a real \<open>x\<close> with \<open>f64 x = x\<close>. The program's \<open>a * b\<close> is \<open>f64 (a * b)\<close>,
  and likewise for \<open>+\<close>, \<open>-\<close>, \<open>/\<close> and \<open>Math.sqrt\<close>, which IEEE 754 rounds
  correctly; a literal \<open>0.7\<close> is \<open>f64 0.7\<close>, and a literal that is a double (\<open>100\<close>,
  \<open>0.5\<close>, \<open>20\<close>) is written as it is. A result beyond the largest double is
  Infinity in the program and stays a finite real here; every comparison of the detectors
  with a threshold decides the same for both. NaN does not arise from finite arguments
  but in the quotient by a zero capacity, which is a case of its own.
\<close>

definition roundEven :: "real \<Rightarrow> int" where
  "roundEven y =
     (let f = \<lfloor>y\<rfloor>; d = y - of_int f
      in if d < 1 / 2 then f else if d > 1 / 2 then f + 1 else if even f then f else f + 1)"

definition minExpo :: int where
  "minExpo = - 1022"

definition expo :: "real \<Rightarrow> int" where
  "expo x = max \<lfloor>log 2 \<bar>x\<bar>\<rfloor> minExpo"

definition f64 :: "real \<Rightarrow> real" where
  "f64 x = (if x = 0 then 0
            else of_int (roundEven (x / 2 powi (expo x - 52))) * 2 powi (expo x - 52))"

subsection \<open>Dates that may be invalid\<close>

text \<open>A \<open>Date\<close> holds a time value of at most 8.64e15 milliseconds in absolute value, or
  NaN (an Invalid Date), here \<open>None\<close>. \<open>setHours\<close> on an Invalid Date leaves it invalid,
  a result out of range is invalid, and every comparison with an Invalid Date is false.\<close>

definition timeClip :: "int \<Rightarrow> int option" where
  "timeClip v = (if \<bar>v\<bar> \<le> 8640000000000000 then Some v else None)"

definition setHoursDate :: "int \<Rightarrow> int option \<Rightarrow> int \<Rightarrow> int \<Rightarrow> int \<Rightarrow> int \<Rightarrow> int option" where
  "setHoursDate tz d h m s ms =
     (case d of None \<Rightarrow> None | Some t \<Rightarrow> timeClip (setHours tz t h m s ms))"

definition dateGe :: "int option \<Rightarrow> int option \<Rightarrow> bool" where
  "dateGe a b = (case (a, b) of (Some x, Some y) \<Rightarrow> x \<ge> y | _ \<Rightarrow> False)"

definition dateLe :: "int option \<Rightarrow> int option \<Rightarrow> bool" where
  "dateLe a b = (case (a, b) of (Some x, Some y) \<Rightarrow> x \<le> y | _ \<Rightarrow> False)"

definition getSunTimesDate :: "int \<Rightarrow> int option \<Rightarrow> int option \<times> int option" where
  "getSunTimesDate tz date =
     (let d = date;
          sunrise = setHoursDate tz d 6 0 0 0;
          sunset = setHoursDate tz d 18 0 0 0
      in (sunrise, sunset))"

definition isDaytimeDate :: "int \<Rightarrow> int option \<Rightarrow> bool" where
  "isDaytimeDate tz timestamp =
     (case getSunTimesDate tz timestamp of
        (sunrise, sunset) \<Rightarrow> dateGe timestamp sunrise \<and> dateLe timestamp sunset)"

subsection \<open>The detectors in binary64 arithmetic\<close>

text \<open>\<open>detectCompleteFailure\<close> (part 1 of the module), with the quotient and the product
  rounded.\<close>

definition detectCompleteFailure_f64 ::
  "int \<Rightarrow> real \<Rightarrow> real \<Rightarrow> int option \<Rightarrow> real option \<Rightarrow> DetectionResult" where
  "detectCompleteFailure_f64 tz energyGenerated panelCapacity timestamp cloudCoverageArg =
     (let cloudCoverage = (case cloudCoverageArg of None \<Rightarrow> 50 | Some c \<Rightarrow> c);
          isDay = isDaytimeDate tz timestamp;
          generationPercent =
            (if panelCapacity = 0 then None
             else Some (f64 (f64 (energyGenerated / panelCapacity) * 100)));
          zeroGeneration =
            (case generationPercent of None \<Rightarrow> energyGenerated < 0 | Some g \<Rightarrow> g < 0.5);
          notHeavilyClouded = cloudCoverage < 90
      in if isDay \<and> zeroGeneration \<and> notHeavilyClouded
         then \<lparr>anomalyDetected = True,
               anomalyType = Some COMPLETE_FAILURE,
               severity = Some CRITICAL,
               confidence = Some (f64 0.95),
               details = Some (FailureDetails generationPercent cloudCoverage isDay)\<rparr>
         else noDetection)"

text \<open>\<open>classifyWeatherImpact\<close> and its local constants.\<close>

definition cloudImpact_f64 :: "real \<Rightarrow> real" where
  "cloudImpact_f64 cloudCoverage = f64 (f64 (cloudCoverage / 100) * f64 0.7)"

definition rainImpact_f64 :: "real \<Rightarrow> real" where
  "rainImpact_f64 precipitation = min (f64 0.8) (f64 (precipitation * f64 0.2))"

definition weatherSeverity_f64 :: "real \<Rightarrow> real \<Rightarrow> real" where
  "weatherSeverity_f64 cloudCoverage precipitation =
     min (f64 0.9) (f64 (cloudImpact_f64 cloudCoverage + rainImpact_f64 precipitation))"

definition expectedReduction_f64 :: "real \<Rightarrow> real \<Rightarrow> real" where
  "expectedReduction_f64 cloudCoverage precipitation =
     f64 (weatherSeverity_f64 cloudCoverage precipitation * 100)"

definition actualReduction_f64 :: "real \<Rightarrow> real \<Rightarrow> real" where
  "actualReduction_f64 energyGenerated expectedGeneration =
     (if expectedGeneration > 0
      then f64 (f64 (f64 (expectedGeneration - energyGenerated) / expectedGeneration) * 100)
      else 0)"

definition classifyWeatherImpact_f64 ::
  "real \<Rightarrow> real \<Rightarrow> real \<Rightarrow> real option \<Rightarrow> DetectionResult" where
  "classifyWeatherImpact_f64 energyGenerated expectedGeneration cloudCoverage precipitationArg =
     (let precipitation = (case precipitationArg of None \<Rightarrow> 0 | Some p \<Rightarrow> p);
          ws = weatherSeverity_f64 cloudCoverage precipitation;
          er = expectedReduction_f64 cloudCoverage precipitation;
          ar = actualReduction_f64 energyGenerated expectedGeneration;
          reductionMatch = \<bar>f64 (ar - er)\<bar> < 20
      in if ws > f64 0.4 \<and> reductionMatch
         then \<lparr>anomalyDetected = True,
               anomalyType = Some WEATHER_RELATED,
               severity = Some LOW,
               confidence = Some (f64 0.8),
               details = Some (WeatherDetails ws er ar cloudCoverage precipitation False)\<rparr>
         else if ws > f64 0.4 \<and> \<not> reductionMatch \<and> ar > f64 (er + 20)
         then \<lparr>anomalyDetected = True,
               anomalyType = Some WEATHER_RELATED,
               severity = Some MEDIUM,
               confidence = Some (f64 0.7),
               details = Some (WeatherDetails ws er ar cloudCoverage precipitation True)\<rparr>
         else noDetection)"

text \<open>\<open>detectSensorMalfunction\<close> and its five checks. \<open>Math.pow(v, 2)\<close> is taken as the
  correctly rounded square.\<close>

definition nightIssue_f64 :: "bool \<Rightarrow> real \<Rightarrow> Issue list" where
  "nightIssue_f64 isDay energyGenerated =
     (if \<not> isDay \<and> energyGenerated > f64 0.01
      then [\<lparr>issue = ''Night-time generation detected'', i_severity = CRITICAL,
             i_confidence = f64 0.98\<rparr>]
      else [])"

definition capacityIssue_f64 :: "real \<Rightarrow> real \<Rightarrow> Issue list" where
  "capacityIssue_f64 energyGenerated panelCapacity =
     (if energyGenerated > f64 (panelCapacity * f64 1.05)
      then [\<lparr>issue = ''Generation exceeds panel capacity'', i_severity = CRITICAL,
             i_confidence = f64 0.99\<rparr>]
      else [])"

definition stuckIssue_f64 :: "real list \<Rightarrow> Issue list" where
  "stuckIssue_f64 recentReadings =
     (if length recentReadings \<ge> 6
      then
        let uniqueValues = remdups (sliceLast 6 recentReadings)
        in if length uniqueValues = 1 \<and> recentReadings ! 0 \<noteq> 0
           then [\<lparr>issue = ''Sensor reading stuck at same value'', i_severity = HIGH,
                  i_confidence = f64 0.9\<rparr>]
           else []
      else [])"

definition erraticIssue_f64 :: "real list \<Rightarrow> Issue list" where
  "erraticIssue_f64 recentReadings =
     (if length recentReadings \<ge> 4
      then
        let recent = sliceLast 4 recentReadings;
            mean = f64 (foldl (\<lambda>a b. f64 (a + b)) 0 recent / real (length recent))
        in if mean > 0
           then
             let variance =
                   f64 (foldl (\<lambda>sum val. f64 (sum + f64 ((f64 (val - mean)) ^ 2))) 0 recent
                          / real (length recent));
                 stdDev = f64 (sqrt variance);
                 coefficientOfVariation = f64 (stdDev / mean)
             in if coefficientOfVariation > 1.5
                then [\<lparr>issue = ''Erratic sensor readings detected'', i_severity = MEDIUM,
                       i_confidence = 0.75\<rparr>]
                else []
           else []
      else [])"

definition negativeIssue_f64 :: "real \<Rightarrow> Issue list" where
  "negativeIssue_f64 energyGenerated =
     (if energyGenerated < 0
      then [\<lparr>issue = ''Negative generation reading'', i_severity = CRITICAL,
             i_confidence = 1.0\<rparr>]
      else [])"

definition detectSensorMalfunction_f64 ::
  "int \<Rightarrow> real \<Rightarrow> real \<Rightarrow> int option \<Rightarrow> real list option \<Rightarrow> DetectionResult" where
  "detectSensorMalfunction_f64 tz energyGenerated panelCapacity timestamp recentReadingsArg =
     (let recentReadings = (case recentReadingsArg of None \<Rightarrow> [] | Some rs \<Rightarrow> rs);
          isDay = isDaytimeDate tz timestamp;
          issues = nightIssue_f64 isDay energyGenerated
                   @ capacityIssue_f64 energyGenerated panelCapacity
                   @ stuckIssue_f64 recentReadings
                   @ erraticIssue_f64 recentReadings
                   @ negativeIssue_f64 energyGenerated
      in if length issues > 0
         then
           let highestSeverity =
                 foldl (\<lambda>highest current.
                          if indexOf severityOrder (i_severity current)
                               > indexOf severityOrder (i_severity highest)
                          then current else highest)
                       (hd issues) (tl issues)
           in \<lparr>anomalyDetected = True,
               anomalyType = Some SENSOR_MALFUNCTION,
               severity = Some (i_severity highestSeverity),
               confidence = Some (foldl max (hd (map i_confidence issues))
                                            (tl (map i_confidence issues))),
               details = Some (SensorDetails issues energyGenerated panelCapacity (\<not> isDay))\<rparr>
         else noDetection)"


subsection \<open>The store and its failures\<close>

text \<open>
  The collections are reached through Mongoose. A query or a write is one operation of the
  store; the \<open>n\<close>-th operation of a run fails (the promise is rejected) when \<open>e_fails env n\<close>.
  What the queries on solar units and generation records return is given by the
  environment, as a function of the arguments of the query. \<open>e_now\<close> is the clock,
  \<open>e_tz\<close> the time zone offset.
\<close>

datatype Error = DbError | ValidationError

record SolarUnit =
  u_id :: nat
  u_capacity :: "real option"

record EnergyGenerationRecord =
  r_energyGenerated :: real
  r_timestamp :: int
  r_cloudCoverage :: "real option"
  r_precipitation :: "real option"

record AffectedPeriod =
  p_start :: int
  p_end :: int

record Anomaly =
  a_solarUnitId :: nat
  a_anomalyType :: AnomalyType
  a_severity :: Severity
  a_status :: AnomalyStatus
  a_detectedAt :: int
  a_affectedPeriod :: AffectedPeriod
  a_confidence :: real
  a_details :: "Details option"

datatype Detector = SensorIntegrity | CompleteFailure | WeatherImpact | Degradation

text \<open>The state a run works on: the Anomaly collection in insertion order, the number of
  store operations made so far, what \<open>console.error\<close> has logged, and a ghost trace
  \<open>calls\<close> of the detector functions the orchestrator has called, with the solar unit and
  the date of the bucket.\<close>

record Store =
  anomalies :: "Anomaly list"
  opCount :: nat
  errorLog :: "Error list"
  calls :: "(nat \<times> int \<times> Detector) list"

record Env =
  e_tz :: int
  e_now :: int
  e_fails :: "nat \<Rightarrow> bool"
  e_activeUnits :: "SolarUnit list"
  e_records :: "nat \<Rightarrow> int \<Rightarrow> EnergyGenerationRecord list"
  e_historical :: "nat \<Rightarrow> int \<Rightarrow> int \<Rightarrow> EnergyGenerationRecord list"

definition dbOp :: "Env \<Rightarrow> 'a \<Rightarrow> Store \<Rightarrow> (Error + 'a) \<times> Store" where
  "dbOp env result s =
     (if e_fails env (opCount s) then Inl DbError else Inr result,
      s\<lparr>opCount := opCount s + 1\<rparr>)"

definition noteCall :: "nat \<Rightarrow> int \<Rightarrow> Detector \<Rightarrow> Store \<Rightarrow> Store" where
  "noteCall solarUnitId date detector s = s\<lparr>calls := calls s @ [(solarUnitId, date, detector)]\<rparr>"

text \<open>\<open>for (const x of xs) { await body(x) }\<close>: an exception of the body leaves the loop.\<close>

fun forEach ::
  "('a \<Rightarrow> Store \<Rightarrow> (Error + unit) \<times> Store) \<Rightarrow> 'a list \<Rightarrow> Store \<Rightarrow> (Error + unit) \<times> Store" where
  "forEach body [] s = (Inr (), s)"
| "forEach body (x # xs) s =
     (case body x s of
        (Inl e, s') \<Rightarrow> (Inl e, s')
      | (Inr u, s') \<Rightarrow> forEach body xs s')"

subsection \<open>Persistence: createAnomalyIfNotExists\<close>

text \<open>The date of a bucket is the string \<open>YYYY-MM-DD\<close> cut from \<open>toISOString()\<close>, the UTC
  calendar day of the record; it is modelled by the number of that day since the epoch.
  \<open>new Date("YYYY-MM-DD")\<close> is midnight UTC of that day.\<close>

definition isoDate :: "int \<Rightarrow> int" where
  "isoDate timestamp = timestamp div msPerDay"

definition newDate :: "int \<Rightarrow> int" where
  "newDate date = date * msPerDay"

text \<open>\<open>Anomaly.findOne\<close> with the filter on unit, type and start of the affected period.\<close>

definition anomalyFindOne ::
  "Env \<Rightarrow> nat \<Rightarrow> AnomalyType option \<Rightarrow> int \<Rightarrow> int \<Rightarrow> Store \<Rightarrow> (Error + Anomaly option) \<times> Store" where
  "anomalyFindOne env solarUnitId ty startOfDay endOfDay s =
     dbOp env
       (find (\<lambda>a. a_solarUnitId a = solarUnitId
                 \<and> Some (a_anomalyType a) = ty
                 \<and> p_start (a_affectedPeriod a) \<ge> startOfDay
                 \<and> p_start (a_affectedPeriod a) \<le> endOfDay)
             (anomalies s))
       s"

text \<open>\<open>new Anomaly({...}).save()\<close>: the schema requires type, severity and confidence, the
  confidence between 0 and 1; a document that fails the validation is not written.\<close>

definition anomalySave ::
  "Env \<Rightarrow> nat \<Rightarrow> DetectionResult \<Rightarrow> int \<Rightarrow> int \<Rightarrow> Store \<Rightarrow> (Error + unit) \<times> Store" where
  "anomalySave env solarUnitId detection startOfDay endOfDay s =
     (case (anomalyType detection, severity detection, confidence detection) of
        (Some ty, Some sev, Some conf) \<Rightarrow>
          if 0 \<le> conf \<and> conf \<le> 1
          then (case dbOp env () s of
                  (Inl e, s') \<Rightarrow> (Inl e, s')
                | (Inr u, s') \<Rightarrow>
                    (Inr (),
                     s'\<lparr>anomalies := anomalies s' @
                          [\<lparr>a_solarUnitId = solarUnitId,
                            a_anomalyType = ty,
                            a_severity = sev,
                            a_status = ACTIVE,
                            a_detectedAt = e_now env,
                            a_affectedPeriod = \<lparr>p_start = startOfDay, p_end = endOfDay\<rparr>,
                            a_confidence = conf,
                            a_details = details detection\<rparr>]\<rparr>))
          else (Inl ValidationError, s)
      | _ \<Rightarrow> (Inl ValidationError, s))"

definition createAnomalyIfNotExists ::
  "Env \<Rightarrow> nat \<Rightarrow> DetectionResult \<Rightarrow> int \<Rightarrow> Store \<Rightarrow> (Error + unit) \<times> Store" where
  "createAnomalyIfNotExists env solarUnitId detection date s =
     (let startOfDay = setHours (e_tz env) (newDate date) 0 0 0 0;
          endOfDay = setHours (e_tz env) (newDate date) 23 59 59 999
      in case anomalyFindOne env solarUnitId (anomalyType detection) startOfDay endOfDay s of
           (Inl e, s1) \<Rightarrow> (Inl e, s1)
         | (Inr existingAnomaly, s1) \<Rightarrow>
             if existingAnomaly = None
             then anomalySave env solarUnitId detection startOfDay endOfDay s1
             else (Inr (), s1))"

subsection \<open>Persistence with overlapping runs\<close>

text \<open>\<open>createAnomalyIfNotExists\<close> awaits \<open>findOne\<close> and then \<open>save\<close>, and no index of the
  Anomaly collection is unique on unit, type and day. \<open>runAnomalyDetection\<close> is called by
  the scheduled job and by the manual trigger; when two runs overlap, a store operation
  of one can fall between the lookup and the insert of the other. A call is before its
  lookup, between a lookup that found nothing and the insert, or finished;
  \<open>createStep\<close> takes it to its next \<open>await\<close>. The definition
  \<open>createAnomalyIfNotExists\<close> above is the call with nothing in between.\<close>

datatype Progress = BeforeLookup | BeforeSave | Finished "Error + unit"

definition createStep ::
  "Env \<Rightarrow> nat \<Rightarrow> DetectionResult \<Rightarrow> int \<Rightarrow> Progress \<Rightarrow> Store \<Rightarrow> Progress \<times> Store" where
  "createStep env solarUnitId detection date p s =
     (let startOfDay = setHours (e_tz env) (newDate date) 0 0 0 0;
          endOfDay = setHours (e_tz env) (newDate date) 23 59 59 999
      in case p of
           BeforeLookup \<Rightarrow>
             (case anomalyFindOne env solarUnitId (anomalyType detection) startOfDay endOfDay s of
                (Inl e, s1) \<Rightarrow> (Finished (Inl e), s1)
              | (Inr existingAnomaly, s1) \<Rightarrow>
                  if existingAnomaly = None then (BeforeSave, s1) else (Finished (Inr ()), s1))
         | BeforeSave \<Rightarrow>
             (case anomalySave env solarUnitId detection startOfDay endOfDay s of
                (r, s1) \<Rightarrow> (Finished r, s1))
         | Finished r \<Rightarrow> (Finished r, s))"

text \<open>Two calls in progress on one store, and a schedule that says which of them takes
  its next step.\<close>

datatype Turn = FirstCall | SecondCall

fun overlapped ::
  "Env \<Rightarrow> nat \<times> DetectionResult \<times> int \<Rightarrow> nat \<times> DetectionResult \<times> int \<Rightarrow> Turn list
     \<Rightarrow> Progress \<times> Progress \<times> Store \<Rightarrow> Progress \<times> Progress \<times> Store" where
  "overlapped env a b [] st = st"
| "overlapped env a b (FirstCall # turns) (pa, pb, s) =
     (case a of (solarUnitId, detection, date) \<Rightarrow>
        case createStep env solarUnitId detection date pa s of
          (pa', s') \<Rightarrow> overlapped env a b turns (pa', pb, s'))"
| "overlapped env a b (SecondCall # turns) (pa, pb, s) =
     (case b of (solarUnitId, detection, date) \<Rightarrow>
        case createStep env solarUnitId detection date pb s of
          (pb', s') \<Rightarrow> overlapped env a b turns (pa, pb', s'))"

subsection \<open>Daily buckets\<close>

record DayData =
  d_total :: real
  d_records :: "EnergyGenerationRecord list"
  d_avgCloud :: real
  d_avgPrecip :: real

text \<open>\<open>Map.prototype.set\<close> on a map kept in insertion order: a present key keeps its place.\<close>

fun mapSet :: "('k \<times> 'v) list \<Rightarrow> 'k \<Rightarrow> 'v \<Rightarrow> ('k \<times> 'v) list" where
  "mapSet [] k v = [(k, v)]"
| "mapSet ((k', v') # m) k v = (if k' = k then (k, v) # m else (k', v') # mapSet m k v)"

text \<open>One step of the aggregation loop. The source sets a fresh entry when the date is
  absent and then updates the entry it gets; here the entry read is the fresh one when the
  date is absent, and \<open>mapSet\<close> appends it.\<close>

definition addRecord :: "(int \<times> DayData) list \<Rightarrow> EnergyGenerationRecord \<Rightarrow> (int \<times> DayData) list" where
  "addRecord dailyTotals record =
     (let date = isoDate (r_timestamp record);
          dayData = (case map_of dailyTotals date of
                       None \<Rightarrow> \<lparr>d_total = 0, d_records = [], d_avgCloud = 0, d_avgPrecip = 0\<rparr>
                     | Some d \<Rightarrow> d)
      in mapSet dailyTotals date
           (dayData\<lparr>d_total := d_total dayData + r_energyGenerated record,
                    d_records := d_records dayData @ [record]\<rparr>))"

text \<open>\<open>r.cloudCoverage || 50\<close> and \<open>r.precipitation || 0\<close>: an undefined or zero value gives
  the default.\<close>

definition cloudOrDefault :: "EnergyGenerationRecord \<Rightarrow> real" where
  "cloudOrDefault r = (case r_cloudCoverage r of None \<Rightarrow> 50 | Some c \<Rightarrow> if c = 0 then 50 else c)"

definition precipOrDefault :: "EnergyGenerationRecord \<Rightarrow> real" where
  "precipOrDefault r = (case r_precipitation r of None \<Rightarrow> 0 | Some p \<Rightarrow> if p = 0 then 0 else p)"

definition withAverages :: "DayData \<Rightarrow> DayData" where
  "withAverages dayData =
     (let recordCount = length (d_records dayData)
      in if recordCount > 0
         then dayData\<lparr>d_avgCloud :=
                        foldl (\<lambda>sum r. sum + cloudOrDefault r) 0 (d_records dayData)
                          / real recordCount,
                      d_avgPrecip :=
                        foldl (\<lambda>sum r. sum + precipOrDefault r) 0 (d_records dayData)
                          / real recordCount\<rparr>
         else dayData)"

text \<open>\<open>Math.round\<close>: to the nearest integer, a half upwards.\<close>

definition mathRound :: "real \<Rightarrow> real" where
  "mathRound x = of_int \<lfloor>x + 1 / 2\<rfloor>"

text \<open>\<open>solarUnit.capacity || 5\<close>.\<close>

definition capacityOrDefault :: "SolarUnit \<Rightarrow> real" where
  "capacityOrDefault solarUnit =
     (case u_capacity solarUnit of None \<Rightarrow> 5 | Some c \<Rightarrow> if c = 0 then 5 else c)"

subsection \<open>The orchestrator: runAnomalyDetection\<close>

text \<open>The body of the loop over the daily buckets.\<close>

definition processBucket ::
  "Env \<Rightarrow> SolarUnit \<Rightarrow> real \<Rightarrow> real list \<Rightarrow> int \<times> DayData \<Rightarrow> Store \<Rightarrow> (Error + unit) \<times> Store" where
  "processBucket env solarUnit historicalAverage recentReadings entry s =
     (case entry of (date, dayData) \<Rightarrow>
        let panelCapacity = capacityOrDefault solarUnit;
            energyGenerated = d_total dayData;
            timestamp = newDate date;
            cloudCoverage = mathRound (d_avgCloud dayData);
            precipitation = d_avgPrecip dayData;
            detections = [];
            s1 = noteCall (u_id solarUnit) date SensorIntegrity s;
            sensorCheck = detectSensorMalfunction (e_tz env) energyGenerated panelCapacity timestamp
                            (Some recentReadings)
        in if anomalyDetected sensorCheck
           then createAnomalyIfNotExists env (u_id solarUnit) sensorCheck date s1
           else
             let s2 = noteCall (u_id solarUnit) date CompleteFailure s1;
                 failureCheck = detectCompleteFailure (e_tz env) energyGenerated panelCapacity
                                  timestamp (Some cloudCoverage);
                 detections = (if anomalyDetected failureCheck
                               then detections @ [failureCheck] else detections);
                 expectedGeneration = panelCapacity * 0.5;
                 s3 = noteCall (u_id solarUnit) date WeatherImpact s2;
                 weatherCheck = classifyWeatherImpact energyGenerated expectedGeneration
                                  cloudCoverage (Some precipitation);
                 detections = (if anomalyDetected weatherCheck
                               then detections @ [weatherCheck] else detections);
                 runDegradation = (\<not> list_ex (\<lambda>d. severity d = Some CRITICAL) detections
                                   \<and> historicalAverage > 0);
                 s4 = (if runDegradation
                       then noteCall (u_id solarUnit) date Degradation s3 else s3);
                 detections =
                   (if runDegradation
                    then let degradationCheck =
                               detectPanelDegradation energyGenerated historicalAverage None
                         in if anomalyDetected degradationCheck
                            then detections @ [degradationCheck] else detections
                    else detections)
             in forEach (\<lambda>detection. createAnomalyIfNotExists env (u_id solarUnit) detection date)
                  detections s4)"

text \<open>The body of the loop over the solar units. \<open>setDate(getDate() - 7)\<close> is seven days
  earlier at the same local time.\<close>

definition processUnit :: "Env \<Rightarrow> SolarUnit \<Rightarrow> Store \<Rightarrow> (Error + unit) \<times> Store" where
  "processUnit env solarUnit s =
     (let sevenDaysAgo = e_now env - 7 * msPerDay
      in case dbOp env (e_records env (u_id solarUnit) sevenDaysAgo) s of
           (Inl e, s1) \<Rightarrow> (Inl e, s1)
         | (Inr records, s1) \<Rightarrow>
             if length records = 0 then (Inr (), s1)
             else
               let thirtyDaysAgo = e_now env - 30 * msPerDay
               in case dbOp env (e_historical env (u_id solarUnit) thirtyDaysAgo sevenDaysAgo) s1 of
                    (Inl e, s2) \<Rightarrow> (Inl e, s2)
                  | (Inr historicalRecords, s2) \<Rightarrow>
                      let historicalAverage =
                            (if length historicalRecords > 0
                             then foldl (\<lambda>sum r. sum + r_energyGenerated r) 0 historicalRecords
                                    / real (length historicalRecords)
                             else 0);
                          recentReadings = map r_energyGenerated (take 10 records);
                          dailyTotals = foldl addRecord [] records;
                          dailyTotalsArray =
                            map (\<lambda>(date, dayData). (date, withAverages dayData)) dailyTotals
                      in forEach (processBucket env solarUnit historicalAverage recentReadings)
                           dailyTotalsArray s2)"

text \<open>The whole run: the only \<open>try\<close> is around the query for the active units and the
  loop over them; its \<open>catch\<close> logs the error and throws it again.\<close>

definition runAnomalyDetection :: "Env \<Rightarrow> Store \<Rightarrow> (Error + unit) \<times> Store" where
  "runAnomalyDetection env s =
     (case (case dbOp env (e_activeUnits env) s of
              (Inl e, s1) \<Rightarrow> (Inl e, s1)
            | (Inr solarUnits, s1) \<Rightarrow> forEach (processUnit env) solarUnits s1) of
        (Inl error, s') \<Rightarrow> (Inl error, s'\<lparr>errorLog := errorLog s' @ [error]\<rparr>)
      | (Inr u, s') \<Rightarrow> (Inr u, s'))"

subsection \<open>Auxiliary definitions of the proofs\<close>

text \<open>The array \<open>issues\<close> of \<open>detectSensorMalfunction\<close> after the five checks, and the
  value of its parameter \<open>recentReadings\<close>.\<close>

definition sensorIssues :: "int \<Rightarrow> real \<Rightarrow> real \<Rightarrow> int \<Rightarrow> real list \<Rightarrow> Issue list" where
  "sensorIssues tz energyGenerated panelCapacity timestamp recentReadings =
     nightIssue (isDaytime tz timestamp) energyGenerated
     @ capacityIssue energyGenerated panelCapacity
     @ stuckIssue recentReadings
     @ erraticIssue recentReadings
     @ negativeIssue energyGenerated"

definition readingsArg :: "real list option \<Rightarrow> real list" where
  "readingsArg a = (case a of None \<Rightarrow> [] | Some rs \<Rightarrow> rs)"

text \<open>The key of the deduplication: solar unit, anomaly type and the local calendar day
  of the start of the affected period.\<close>

definition localDay :: "int \<Rightarrow> int \<Rightarrow> int" where
  "localDay tz d = (d + tz) div msPerDay"

definition dedupKey :: "int \<Rightarrow> Anomaly \<Rightarrow> nat \<times> AnomalyType \<times> int" where
  "dedupKey tz a = (a_solarUnitId a, a_anomalyType a, localDay tz (p_start (a_affectedPeriod a)))"

text \<open>The buckets of a solar unit in a run (\<open>dailyTotalsArray\<close> of \<open>processUnit\<close>), its
  recent readings, the sensor check of a bucket, and the affected period of a day.\<close>

definition unitBuckets :: "Env \<Rightarrow> SolarUnit \<Rightarrow> (int \<times> DayData) list" where
  "unitBuckets env solarUnit =
     map (\<lambda>(date, dayData). (date, withAverages dayData))
       (foldl addRecord [] (e_records env (u_id solarUnit) (e_now env - 7 * msPerDay)))"

definition unitReadings :: "Env \<Rightarrow> SolarUnit \<Rightarrow> real list" where
  "unitReadings env solarUnit =
     map r_energyGenerated (take 10 (e_records env (u_id solarUnit) (e_now env - 7 * msPerDay)))"

definition sensorCheckOf :: "Env \<Rightarrow> SolarUnit \<Rightarrow> int \<times> DayData \<Rightarrow> DetectionResult" where
  "sensorCheckOf env solarUnit entry =
     detectSensorMalfunction (e_tz env) (d_total (snd entry)) (capacityOrDefault solarUnit)
       (newDate (fst entry)) (Some (unitReadings env solarUnit))"

definition dayPeriod :: "int \<Rightarrow> int \<Rightarrow> AffectedPeriod" where
  "dayPeriod tz date =
     \<lparr>p_start = setHours tz (newDate date) 0 0 0 0, p_end = setHours tz (newDate date) 23 59 59 999\<rparr>"

text \<open>What may be added for a bucket: a record for its unit and day, of type
  SENSOR_MALFUNCTION when the sensor check detects an anomaly; a call for its unit and
  date, of the sensor check when that check detects an anomaly.\<close>

definition fromBucket :: "Env \<Rightarrow> SolarUnit \<Rightarrow> real list \<Rightarrow> int \<times> DayData \<Rightarrow> Anomaly \<Rightarrow> bool" where
  "fromBucket env solarUnit recentReadings entry a =
     (a_solarUnitId a = u_id solarUnit
      \<and> a_affectedPeriod a = dayPeriod (e_tz env) (fst entry)
      \<and> (anomalyDetected (detectSensorMalfunction (e_tz env) (d_total (snd entry))
             (capacityOrDefault solarUnit) (newDate (fst entry)) (Some recentReadings))
           \<longrightarrow> a_anomalyType a = SENSOR_MALFUNCTION))"

definition calledFor ::
  "Env \<Rightarrow> SolarUnit \<Rightarrow> real list \<Rightarrow> int \<times> DayData \<Rightarrow> nat \<times> int \<times> Detector \<Rightarrow> bool" where
  "calledFor env solarUnit recentReadings entry c =
     (fst c = u_id solarUnit
      \<and> fst (snd c) = fst entry
      \<and> (anomalyDetected (detectSensorMalfunction (e_tz env) (d_total (snd entry))
             (capacityOrDefault solarUnit) (newDate (fst entry)) (Some recentReadings))
           \<longrightarrow> snd (snd c) = SensorIntegrity))"

text \<open>A list of the store has grown by entries that all satisfy a predicate.\<close>

definition addedBy :: "(Store \<Rightarrow> 'a list) \<Rightarrow> Store \<Rightarrow> Store \<Rightarrow> ('a \<Rightarrow> bool) \<Rightarrow> bool" where
  "addedBy field s s' ok = (\<exists>added. field s' = field s @ added \<and> (\<forall>a \<in> set added. ok a))"

text \<open>The array \<open>issues\<close> of \<open>detectSensorMalfunction\<close> in binary64 arithmetic.\<close>

definition sensorIssues_f64 ::
  "int \<Rightarrow> real \<Rightarrow> real \<Rightarrow> int option \<Rightarrow> real list \<Rightarrow> Issue list" where
  "sensorIssues_f64 tz energyGenerated panelCapacity timestamp recentReadings =
     nightIssue_f64 (isDaytimeDate tz timestamp) energyGenerated
     @ capacityIssue_f64 energyGenerated panelCapacity
     @ stuckIssue_f64 recentReadings
     @ erraticIssue_f64 recentReadings
     @ negativeIssue_f64 energyGenerated"


subsection \<open>An example fleet\<close>

text \<open>Two solar units with one reading each, on the second day after the epoch at noon UTC:
  2 kWh for the first unit, -1 kWh for the second. The clock is the start of the third
  day; the time zone and the failing store operations are parameters.\<close>

definition exUnit1 :: SolarUnit where
  "exUnit1 = \<lparr>u_id = 1, u_capacity = Some 5\<rparr>"

definition exUnit2 :: SolarUnit where
  "exUnit2 = \<lparr>u_id = 2, u_capacity = None\<rparr>"

definition exRecords :: "nat \<Rightarrow> int \<Rightarrow> EnergyGenerationRecord list" where
  "exRecords solarUnitId since =
     (if solarUnitId = 1
      then [\<lparr>r_energyGenerated = 2, r_timestamp = 129600000, r_cloudCoverage = Some 20,
             r_precipitation = Some 0\<rparr>]
      else [\<lparr>r_energyGenerated = - 1, r_timestamp = 129600000, r_cloudCoverage = None,
             r_precipitation = None\<rparr>])"

definition exEnv :: "int \<Rightarrow> (nat \<Rightarrow> bool) \<Rightarrow> Env" where
  "exEnv tz fails =
     \<lparr>e_tz = tz, e_now = 172800000, e_fails = fails, e_activeUnits = [exUnit1, exUnit2],
      e_records = exRecords, e_historical = (\<lambda>solarUnitId since before. [])\<rparr>"

definition exStore :: Store where
  "exStore = \<lparr>anomalies = [], opCount = 0, errorLog = [], calls = []\<rparr>"

definition exAnomaly1 :: Anomaly where
  "exAnomaly1 =
     \<lparr>a_solarUnitId = 1, a_anomalyType = SENSOR_MALFUNCTION, a_severity = CRITICAL,
      a_status = ACTIVE, a_detectedAt = 172800000,
      a_affectedPeriod = \<lparr>p_start = 86400000, p_end = 172799999\<rparr>,
      a_confidence = 0.98,
      a_details = Some (SensorDetails
        [\<lparr>issue = ''Night-time generation detected'', i_severity = CRITICAL, i_confidence = 0.98\<rparr>]
        2 5 True)\<rparr>"

definition exAnomaly2 :: Anomaly where
  "exAnomaly2 =
     \<lparr>a_solarUnitId = 2, a_anomalyType = SENSOR_MALFUNCTION, a_severity = CRITICAL,
      a_status = ACTIVE, a_detectedAt = 172800000,
      a_affectedPeriod = \<lparr>p_start = 86400000, p_end = 172799999\<rparr>,
      a_confidence = 1,
      a_details = Some (SensorDetails
        [\<lparr>issue = ''Negative generation reading'', i_severity = CRITICAL, i_confidence = 1\<rparr>]
        (- 1) 5 True)\<rparr>"

section \<open>Properties\<close>

subsection \<open>The daylight window\<close>

text \<open>Daytime is a local time of day from 06:00 to 18:00, both included.\<close>

lemma isDaytime_window:
  "isDaytime tz t \<longleftrightarrow> 21600000 \<le> (t + tz) mod msPerDay \<and> (t + tz) mod msPerDay \<le> 64800000"
proof -
  have eq: "msPerDay * ((t + tz) div msPerDay) = (t + tz) - (t + tz) mod msPerDay"
    by (simp add: minus_mod_eq_mult_div)
  show ?thesis
    unfolding isDaytime_def getSunTimes_def setHours_def localMidnight_def Let_def
    by (simp add: algebra_simps eq)
qed

subsection \<open>Rounding to binary64\<close>

text \<open>\<open>f64\<close> is monotone, odd and idempotent, and \<open>f64_scaled\<close> evaluates it: a real
  that, scaled by a power of two, lies between \<open>2 ^ 52\<close> and \<open>2 ^ 53\<close> is rounded to the
  nearest integer there, a tie to the even one.\<close>

lemma roundEven_of_int [simp]: "roundEven (of_int m) = m"
  by (simp add: roundEven_def)

lemma roundEven_bounds: "of_int (roundEven y) \<le> y + 1 / 2" "y - 1 / 2 \<le> of_int (roundEven y)"
  unfolding roundEven_def Let_def by (auto split: if_splits) linarith+

lemma roundEven_mono: "a \<le> b \<Longrightarrow> roundEven a \<le> roundEven b"
proof -
  assume ab: "a \<le> b"
  have fl: "\<lfloor>a\<rfloor> \<le> \<lfloor>b\<rfloor>" using ab by (rule floor_mono)
  show ?thesis
  proof (cases "\<lfloor>a\<rfloor> = \<lfloor>b\<rfloor>")
    case True
    then show ?thesis using ab unfolding roundEven_def Let_def by (auto split: if_splits)
  next
    case False
    with fl have "\<lfloor>a\<rfloor> + 1 \<le> \<lfloor>b\<rfloor>" by simp
    moreover have "roundEven a \<le> \<lfloor>a\<rfloor> + 1" unfolding roundEven_def Let_def by auto
    moreover have "\<lfloor>b\<rfloor> \<le> roundEven b" unfolding roundEven_def Let_def by auto
    ultimately show ?thesis by linarith
  qed
qed

lemma roundEven_minus: "roundEven (- y) = - roundEven y"
proof (cases "y \<in> \<int>")
  case True
  then obtain m where "y = of_int m" by (auto elim: Ints_cases)
  then show ?thesis by (simp flip: of_int_minus)
next
  case False
  then have ne: "y \<noteq> of_int \<lfloor>y\<rfloor>" by (metis Ints_of_int)
  then have fm: "\<lfloor>- y\<rfloor> = - \<lfloor>y\<rfloor> - 1"
    by (simp add: floor_minus ceiling_altdef)
  have fr: "of_int \<lfloor>y\<rfloor> < y" using ne of_int_floor_le [of y] by linarith
  show ?thesis
    unfolding roundEven_def Let_def fm using fr
    by (auto split: if_splits)
qed


lemma two_powr_powi: "(2::real) powr of_int k = 2 powi k"
  by (simp add: powr_real_of_int power_int_def power_inverse inverse_eq_divide power_one_over)

lemma two_powi_pos [simp]: "0 < (2::real) powi k"
  by (rule zero_less_power_int) simp

lemma le_log2_iff: "0 < x \<Longrightarrow> of_int k \<le> log 2 x \<longleftrightarrow> 2 powi k \<le> x"
  using powr_le_iff [of 2 x "of_int k"] by (simp add: two_powr_powi)

lemma floor_log2_eq_iff:
  "0 < x \<Longrightarrow> \<lfloor>log 2 x\<rfloor> = k \<longleftrightarrow> 2 powi k \<le> x \<and> x < 2 powi (k + 1)"
  using floor_log_eq_powr_iff [of x 2 k] two_powr_powi [of k] two_powr_powi [of "k + 1"]
  by simp

lemma expo_normal:
  assumes "2 powi k \<le> \<bar>x\<bar>" and "\<bar>x\<bar> < 2 powi (k + 1)" and "minExpo \<le> k"
  shows "expo x = k"
proof -
  have pos: "0 < \<bar>x\<bar>" using assms(1) two_powi_pos [of k] by linarith
  have "\<lfloor>log 2 \<bar>x\<bar>\<rfloor> = k"
    using assms(1,2) pos by (simp only: floor_log2_eq_iff)
  then show ?thesis using assms(3) by (simp add: expo_def)
qed

lemma expo_subnormal:
  assumes "\<bar>x\<bar> < 2 powi minExpo" and "x \<noteq> 0"
  shows "expo x = minExpo"
proof -
  have pos: "0 < \<bar>x\<bar>" using assms(2) by simp
  have "\<lfloor>log 2 \<bar>x\<bar>\<rfloor> < minExpo"
  proof (rule ccontr)
    assume "\<not> \<lfloor>log 2 \<bar>x\<bar>\<rfloor> < minExpo"
    then have "minExpo \<le> \<lfloor>log 2 \<bar>x\<bar>\<rfloor>" by simp
    then have "of_int minExpo \<le> log 2 \<bar>x\<bar>" by (simp only: le_floor_iff)
    then have "2 powi minExpo \<le> \<bar>x\<bar>" using pos by (simp only: le_log2_iff)
    then show False using assms(1) by linarith
  qed
  then show ?thesis by (simp add: expo_def)
qed

lemma expo_cases:
  assumes "x \<noteq> 0"
  obtains (normal) "2 powi expo x \<le> \<bar>x\<bar>" "\<bar>x\<bar> < 2 powi (expo x + 1)" "minExpo \<le> expo x"
  | (subnormal) "\<bar>x\<bar> < 2 powi minExpo" "expo x = minExpo"
proof (cases "\<bar>x\<bar> < 2 powi minExpo")
  case True
  then show ?thesis using expo_subnormal assms subnormal by blast
next
  case False
  then have ge: "2 powi minExpo \<le> \<bar>x\<bar>" by simp
  have pos: "0 < \<bar>x\<bar>" using assms by simp
  define k where "k = \<lfloor>log 2 \<bar>x\<bar>\<rfloor>"
  have kk: "2 powi k \<le> \<bar>x\<bar> \<and> \<bar>x\<bar> < 2 powi (k + 1)"
    using floor_log2_eq_iff [OF pos, of k] by (simp add: k_def)
  have "of_int minExpo \<le> log 2 \<bar>x\<bar>" using ge pos by (simp only: le_log2_iff)
  then have km: "minExpo \<le> k" unfolding k_def by (simp only: le_floor_iff)
  then have "expo x = k" by (simp add: expo_def k_def)
  with kk km show ?thesis using normal by simp
qed


lemma binade_ulp:
  "(2::real) powi k = 4503599627370496 * 2 powi (k - 52)"
  "(2::real) powi (k + 1) = 9007199254740992 * 2 powi (k - 52)"
proof -
  have "(2::real) powi (52 + (k - 52)) = 2 powi 52 * 2 powi (k - 52)"
    by (rule power_int_add) simp
  then show "(2::real) powi k = 4503599627370496 * 2 powi (k - 52)" by simp
  have "(2::real) powi (53 + (k - 52)) = 2 powi 53 * 2 powi (k - 52)"
    by (rule power_int_add) simp
  then show "(2::real) powi (k + 1) = 9007199254740992 * 2 powi (k - 52)"
    by (simp add: add.commute)
qed

lemma binade_le_next: "(2::real) powi k \<le> 2 powi (k + 1)"
  by (intro power_int_increasing) simp_all

lemma abs_less_next_binade:
  assumes "x \<noteq> 0"
  shows "\<bar>x\<bar> < 2 powi (expo x + 1)"
proof (rule expo_cases [OF assms])
  assume "\<bar>x\<bar> < 2 powi (expo x + 1)"
  then show ?thesis .
next
  assume "\<bar>x\<bar> < 2 powi minExpo" "expo x = minExpo"
  then show ?thesis using binade_le_next [of minExpo] by simp
qed

lemma binade_le_abs:
  assumes "x \<noteq> 0" and "minExpo < expo x"
  shows "2 powi expo x \<le> \<bar>x\<bar>"
proof (rule expo_cases [OF assms(1)])
  assume "2 powi expo x \<le> \<bar>x\<bar>"
  then show ?thesis .
next
  assume "expo x = minExpo"
  then show ?thesis using assms(2) by simp
qed

lemma f64_zero [simp]: "f64 0 = 0"
  by (simp add: f64_def)

lemma expo_minus [simp]: "expo (- x) = expo x"
  by (simp add: expo_def)

lemma f64_minus: "f64 (- x) = - f64 x"
  by (simp add: f64_def roundEven_minus)

lemma expo_ge: "minExpo \<le> expo x"
  by (simp add: expo_def)

lemma expo_mono: "0 < x \<Longrightarrow> x \<le> y \<Longrightarrow> expo x \<le> expo y"
proof -
  assume "0 < x" "x \<le> y"
  then have "log 2 \<bar>x\<bar> \<le> log 2 \<bar>y\<bar>" by simp
  then have "\<lfloor>log 2 \<bar>x\<bar>\<rfloor> \<le> \<lfloor>log 2 \<bar>y\<bar>\<rfloor>" by (rule floor_mono)
  then show ?thesis by (simp add: expo_def)
qed

lemma f64_pos:
  assumes "0 < x"
  shows "0 \<le> f64 x"
    and "f64 x \<le> 2 powi (expo x + 1)"
    and "minExpo < expo x \<Longrightarrow> 2 powi expo x \<le> f64 x"
proof -
  define u :: real where "u = 2 powi (expo x - 52)"
  have u: "0 < u" by (simp add: u_def)
  have fx: "f64 x = of_int (roundEven (x / u)) * u"
    using assms by (simp add: f64_def u_def)
  have "roundEven 0 \<le> roundEven (x / u)"
    using assms u by (intro roundEven_mono) simp
  then have "0 \<le> roundEven (x / u)" using roundEven_of_int [of 0] by simp
  then show "0 \<le> f64 x" using u by (simp add: fx)
  have lt: "x < 2 powi (expo x + 1)"
    using abs_less_next_binade [of x] assms by simp
  then have "x < 9007199254740992 * u"
    unfolding binade_ulp(2) u_def .
  then have "x / u \<le> 9007199254740992"
    using u by (simp add: field_simps)
  then have "roundEven (x / u) \<le> roundEven (of_int 9007199254740992)"
    by (intro roundEven_mono) simp
  then have "roundEven (x / u) \<le> 9007199254740992" by (simp only: roundEven_of_int)
  then have "real_of_int (roundEven (x / u)) \<le> 9007199254740992" by simp
  then have "of_int (roundEven (x / u)) * u \<le> 9007199254740992 * u"
    using u by (intro mult_right_mono) simp_all
  then show "f64 x \<le> 2 powi (expo x + 1)"
    unfolding fx binade_ulp(2) u_def .
  show "2 powi expo x \<le> f64 x" if "minExpo < expo x"
  proof -
    have "2 powi expo x \<le> x"
      using binade_le_abs [of x] assms that by simp
    then have "4503599627370496 * u \<le> x"
      unfolding binade_ulp(1) [of "expo x"] u_def .
    then have "4503599627370496 \<le> x / u"
      using u by (simp add: field_simps)
    then have "roundEven (of_int 4503599627370496) \<le> roundEven (x / u)"
      by (intro roundEven_mono) simp
    then have "4503599627370496 \<le> roundEven (x / u)" by (simp only: roundEven_of_int)
    then have "4503599627370496 \<le> real_of_int (roundEven (x / u))" by simp
    then have "4503599627370496 * u \<le> of_int (roundEven (x / u)) * u"
      using u by (intro mult_right_mono) simp_all
    then show ?thesis unfolding fx binade_ulp(1) [of "expo x"] u_def .
  qed
qed

lemma f64_mono_pos:
  assumes "0 < x" and "x \<le> y"
  shows "f64 x \<le> f64 y"
proof -
  have y: "0 < y" using assms by simp
  have le: "expo x \<le> expo y" using assms by (rule expo_mono)
  show ?thesis
  proof (cases "expo x = expo y")
    case True
    define u :: real where "u = 2 powi (expo x - 52)"
    have u: "0 < u" by (simp add: u_def)
    have "roundEven (x / u) \<le> roundEven (y / u)"
      using assms u by (intro roundEven_mono) (simp add: divide_right_mono)
    then have "of_int (roundEven (x / u)) * u \<le> of_int (roundEven (y / u)) * u"
      using u by simp
    then show ?thesis using assms y True by (simp add: f64_def u_def)
  next
    case False
    with le have lt: "expo x + 1 \<le> expo y" by simp
    then have "minExpo < expo y" using expo_ge [of x] by simp
    then have "2 powi expo y \<le> f64 y" using f64_pos(3) [OF y] by simp
    moreover have "f64 x \<le> 2 powi (expo x + 1)" using f64_pos(2) [OF assms(1)] .
    moreover have "(2::real) powi (expo x + 1) \<le> 2 powi expo y"
      using lt by (intro power_int_increasing) simp_all
    ultimately show ?thesis by linarith
  qed
qed

lemma f64_mono: "x \<le> y \<Longrightarrow> f64 x \<le> f64 y"
proof -
  assume xy: "x \<le> y"
  consider "0 < x" | "x \<le> 0" "0 \<le> y" | "y < 0" by linarith
  then show ?thesis
  proof cases
    case 1
    then show ?thesis using xy by (rule f64_mono_pos)
  next
    case 2
    have "f64 x \<le> 0"
    proof (cases "x = 0")
      case True then show ?thesis by simp
    next
      case False
      with 2 have "0 < - x" by simp
      then have "0 \<le> f64 (- x)" by (rule f64_pos(1))
      then show ?thesis by (simp add: f64_minus)
    qed
    moreover have "0 \<le> f64 y"
    proof (cases "y = 0")
      case True then show ?thesis by simp
    next
      case False
      with 2 have "0 < y" by simp
      then show ?thesis by (rule f64_pos(1))
    qed
    ultimately show ?thesis by linarith
  next
    case 3
    then have "0 < - y" "- y \<le> - x" using xy by simp_all
    then have "f64 (- y) \<le> f64 (- x)" by (rule f64_mono_pos)
    then show ?thesis by (simp add: f64_minus)
  qed
qed


lemma f64_normal:
  assumes "2 powi k \<le> \<bar>x\<bar>" and "\<bar>x\<bar> < 2 powi (k + 1)" and "minExpo \<le> k"
  shows "f64 x = of_int (roundEven (x / 2 powi (k - 52))) * 2 powi (k - 52)"
proof -
  have "expo x = k" using assms by (rule expo_normal)
  moreover have "0 < \<bar>x\<bar>" by (rule less_le_trans [OF two_powi_pos assms(1)])
  ultimately show ?thesis by (simp add: f64_def)
qed

lemma f64_subnormal:
  assumes "\<bar>x\<bar> < 2 powi minExpo"
  shows "f64 x = of_int (roundEven (x / 2 powi (minExpo - 52))) * 2 powi (minExpo - 52)"
proof (cases "x = 0")
  case True
  then show ?thesis using roundEven_of_int [of 0] by simp
next
  case False
  with assms have "expo x = minExpo" by (rule expo_subnormal)
  then show ?thesis using False by (simp add: f64_def)
qed

lemma f64_repr_pos:
  assumes "minExpo \<le> k" and "0 < r" and "r < 9007199254740992"
    and "4503599627370496 \<le> r \<or> k = minExpo"
  shows "f64 (of_int r * 2 powi (k - 52)) = of_int r * 2 powi (k - 52)"
proof -
  define u :: real where "u = 2 powi (k - 52)"
  have u: "0 < u" by (simp add: u_def)
  have v: "\<bar>of_int r * u\<bar> = of_int r * u" using assms(2) u by simp
  have up: "of_int r * u < 2 powi (k + 1)"
  proof -
    have "real_of_int r < 9007199254740992" using assms(3) by simp
    then have "of_int r * u < 9007199254740992 * u" using u by simp
    then show ?thesis unfolding binade_ulp(2) u_def .
  qed
  have quot: "of_int r * u / u = of_int r" using u by simp
  show ?thesis
  proof (cases "4503599627370496 \<le> r")
    case True
    then have "4503599627370496 \<le> real_of_int r" by simp
    then have "4503599627370496 * u \<le> of_int r * u" using u by (intro mult_right_mono) simp_all
    then have "2 powi k \<le> of_int r * u" unfolding binade_ulp(1) [of k] u_def .
    with up have "f64 (of_int r * u) = of_int (roundEven (of_int r * u / u)) * u"
      unfolding u_def using assms(1) by (intro f64_normal) (simp_all only: v [unfolded u_def])
    then show ?thesis unfolding quot by (simp add: u_def)
  next
    case False
    with assms(4) have k: "k = minExpo" by simp
    from False have "real_of_int r < 4503599627370496" by simp
    then have "of_int r * u < 4503599627370496 * u" using u by simp
    then have "of_int r * u < 2 powi k" unfolding binade_ulp(1) [of k] u_def .
    then have "f64 (of_int r * u) = of_int (roundEven (of_int r * u / u)) * u"
      unfolding u_def k by (intro f64_subnormal) (simp only: v [unfolded u_def k])
    then show ?thesis unfolding quot by (simp add: u_def)
  qed
qed

lemma f64_binade [simp]:
  assumes "minExpo \<le> k"
  shows "f64 (2 powi k) = 2 powi k"
proof -
  have "f64 (of_int 4503599627370496 * 2 powi (k - 52)) = of_int 4503599627370496 * 2 powi (k - 52)"
    using assms by (intro f64_repr_pos) simp_all
  then show ?thesis using binade_ulp(1) [of k] by simp
qed

lemma f64_idem_pos:
  assumes "0 < x"
  shows "f64 (f64 x) = f64 x"
proof -
  define k where "k = expo x"
  define u :: real where "u = 2 powi (k - 52)"
  define r where "r = roundEven (x / u)"
  have u: "0 < u" by (simp add: u_def)
  have fx: "f64 x = of_int r * u" using assms by (simp add: f64_def r_def u_def k_def)
  have km: "minExpo \<le> k" by (simp add: k_def expo_ge)
  have r0: "0 \<le> r"
    using f64_pos(1) [OF assms] u unfolding fx by (simp add: zero_le_mult_iff)
  have rle: "r \<le> 9007199254740992"
  proof -
    have "of_int r * u \<le> 9007199254740992 * u"
      using f64_pos(2) [OF assms] unfolding fx k_def [symmetric] binade_ulp(2) u_def .
    then have "real_of_int r \<le> 9007199254740992" using u by simp
    then show ?thesis by simp
  qed
  have rge: "4503599627370496 \<le> r" if "minExpo < k"
  proof -
    have "4503599627370496 * u \<le> of_int r * u"
      using f64_pos(3) [OF assms] that
      unfolding fx k_def [symmetric] binade_ulp(1) [of k] u_def by simp
    then have "4503599627370496 \<le> real_of_int r" using u by simp
    then show ?thesis by simp
  qed
  consider "r = 0" | "0 < r" "r < 9007199254740992" | "r = 9007199254740992"
    using r0 rle by linarith
  then show ?thesis
  proof cases
    case 1
    then show ?thesis by (simp add: fx)
  next
    case 2
    have "4503599627370496 \<le> r \<or> k = minExpo" using rge km by force
    with 2 km show ?thesis unfolding fx u_def by (intro f64_repr_pos)
  next
    case 3
    have "f64 x = 2 powi (k + 1)" unfolding fx 3 binade_ulp(2) u_def by simp
    moreover have "minExpo \<le> k + 1" using km by simp
    ultimately show ?thesis by simp
  qed
qed

lemma f64_idem [simp]: "f64 (f64 x) = f64 x"
proof -
  consider "0 < x" | "x = 0" | "0 < - x" by linarith
  then show ?thesis
  proof cases
    case 1 then show ?thesis by (rule f64_idem_pos)
  next
    case 2 then show ?thesis by simp
  next
    case 3
    then have "f64 (f64 (- x)) = f64 (- x)" by (rule f64_idem_pos)
    then show ?thesis by (simp add: f64_minus)
  qed
qed

lemma f64_scaled:
  assumes "4503599627370496 \<le> \<bar>x\<bar> * 2 ^ n" and "\<bar>x\<bar> * 2 ^ n < 9007199254740992"
    and "n \<le> 1074" and "y * 2 ^ n = of_int (roundEven (x * 2 ^ n))"
  shows "f64 x = y"
proof -
  define k where "k = 52 - int n"
  have ulp: "(2::real) powi (k - 52) = 1 / 2 ^ n"
    by (simp add: k_def power_int_minus inverse_eq_divide)
  have km: "minExpo \<le> k" using assms(3) by (simp add: k_def minExpo_def)
  have lo: "2 powi k \<le> \<bar>x\<bar>"
    unfolding binade_ulp(1) [of k] ulp using assms(1) by (simp add: field_simps)
  have hi: "\<bar>x\<bar> < 2 powi (k + 1)"
    unfolding binade_ulp(2) [of k] ulp using assms(2) by (simp add: field_simps)
  have "f64 x = of_int (roundEven (x / 2 powi (k - 52))) * 2 powi (k - 52)"
    using lo hi km by (rule f64_normal)
  then have "f64 x = of_int (roundEven (x * 2 ^ n)) / 2 ^ n" unfolding ulp by simp
  also have "\<dots> = y" using assms(4) by (simp add: field_simps)
  finally show ?thesis .
qed

subsection \<open>Dates that may be invalid\<close>

lemma isDaytimeDate_None: "\<not> isDaytimeDate tz None"
  by (simp add: isDaytimeDate_def getSunTimesDate_def setHoursDate_def dateGe_def Let_def)

lemma isDaytimeDate_Some:
  "isDaytimeDate tz (Some t) \<longleftrightarrow>
     \<bar>setHours tz t 6 0 0 0\<bar> \<le> 8640000000000000 \<and> \<bar>setHours tz t 18 0 0 0\<bar> \<le> 8640000000000000
     \<and> isDaytime tz t"
  by (auto simp add: isDaytimeDate_def getSunTimesDate_def setHoursDate_def dateGe_def dateLe_def
      timeClip_def isDaytime_def getSunTimes_def Let_def)

lemma setHours_same_day:
  "setHours tz (setHours tz t 14 0 0 0) h m s ms = setHours tz t h m s ms"
proof -
  have "(localMidnight tz t + 50400000 + tz) div msPerDay = (t + tz) div msPerDay"
    unfolding localMidnight_def msPerDay_def by simp
  then show ?thesis
    unfolding setHours_def by (simp add: localMidnight_def)
qed

lemma afternoon_daytime:
  assumes "\<bar>setHours tz t 6 0 0 0\<bar> \<le> 8640000000000000"
      and "\<bar>setHours tz t 18 0 0 0\<bar> \<le> 8640000000000000"
  shows "isDaytimeDate tz (Some (setHours tz t 14 0 0 0))"
proof -
  have "(setHours tz t 14 0 0 0 + tz) mod msPerDay = 50400000"
    unfolding setHours_def localMidnight_def msPerDay_def by simp
  then have "isDaytime tz (setHours tz t 14 0 0 0)" by (simp add: isDaytime_window)
  then show ?thesis using assms by (simp add: isDaytimeDate_Some setHours_same_day)
qed

subsection \<open>Complete failure, in binary64\<close>

lemma scenarioA_percent:
  "f64 (f64 (f64 0.02 / 5) * 100) = f64 0.4 \<and> f64 0.4 < 0.5"
proof -
  have e1: "f64 0.02 = (5764607523034235 / 2 ^ 58)"
    by (rule f64_scaled [where n = 58]) (simp_all add: roundEven_def)
  have e2: "f64 ((5764607523034235 / 2 ^ 58) / 5) = (4611686018427388 / 2 ^ 60)"
    by (rule f64_scaled [where n = 60]) (simp_all add: roundEven_def)
  have e3: "f64 ((4611686018427388 / 2 ^ 60) * 100) = (7205759403792794 / 2 ^ 54)"
    by (rule f64_scaled [where n = 54]) (simp_all add: roundEven_def)
  have e4: "f64 0.4 = (7205759403792794 / 2 ^ 54)"
    by (rule f64_scaled [where n = 54]) (simp_all add: roundEven_def)
  show ?thesis
    by (simp only: e1 e2 e3 e4) (simp?)
qed

lemma percent_rounded_below:
  "0 < f64 0.9 \<and> f64 (f64 (f64 0.0045 / f64 0.9) * 100) < 0.5"
proof -
  have e1: "f64 0.0045 = (5188146770730811 / 2 ^ 60)"
    by (rule f64_scaled [where n = 60]) (simp_all add: roundEven_def)
  have e2: "f64 0.9 = (8106479329266893 / 2 ^ 53)"
    by (rule f64_scaled [where n = 53]) (simp_all add: roundEven_def)
  have e3: "f64 ((5188146770730811 / 2 ^ 60) / (8106479329266893 / 2 ^ 53)) = (5764607523034234 / 2 ^ 60)"
    by (rule f64_scaled [where n = 60]) (simp_all add: roundEven_def)
  have e4: "f64 ((5764607523034234 / 2 ^ 60) * 100) = (9007199254740991 / 2 ^ 54)"
    by (rule f64_scaled [where n = 54]) (simp_all add: roundEven_def)
  show ?thesis
    by (simp only: e1 e2 e3 e4) (simp?)
qed

lemma percent_rounded_up:
  "0 < f64 3.120102760191824 \<and> f64 (f64 (f64 0.015600513800959118 / f64 3.120102760191824) * 100) = 0.5 \<and> f64 0.015600513800959118 / f64 3.120102760191824 * 100 < (0.5 :: real)"
proof -
  have e1: "f64 0.015600513800959118 = (8993083922020834 / 2 ^ 59)"
    by (rule f64_scaled [where n = 59]) (simp_all add: roundEven_def)
  have e2: "f64 3.120102760191824 = (7025846814078777 / 2 ^ 51)"
    by (rule f64_scaled [where n = 51]) (simp_all add: roundEven_def)
  have e3: "f64 ((8993083922020834 / 2 ^ 59) / (7025846814078777 / 2 ^ 51)) = (5764607523034235 / 2 ^ 60)"
    by (rule f64_scaled [where n = 60]) (simp_all add: roundEven_def)
  have e4: "f64 ((5764607523034235 / 2 ^ 60) * 100) = (4503599627370496 / 2 ^ 53)"
    by (rule f64_scaled [where n = 53]) (simp_all add: roundEven_def)
  show ?thesis
    by (simp only: e1 e2 e3 e4) (simp?)
qed

text \<open>Claim C5. For every call with \<open>panelCapacity > 0\<close> (and the cloud coverage given),
  \<open>detectCompleteFailure\<close> returns the detection COMPLETE_FAILURE, CRITICAL with confidence
  0.95 exactly when the timestamp is daytime, \<open>(energyGenerated / panelCapacity) * 100 < 0.5\<close>
  as the program computes it, the quotient and the product each rounded, and
  \<open>cloudCoverage < 90\<close>; it returns no detection otherwise, also for an Invalid Date. In
  particular 0.02 kWh on a 5 kW panel at 14:00 local time (of any day whose 06:00 and
  18:00 are valid dates, in any time zone) under 25% clouds gives that detection, with a
  generation of 0.4 percent.\<close>

theorem detectCompleteFailure_iff:
  assumes "panelCapacity > 0"
  shows "detectCompleteFailure_f64 tz energyGenerated panelCapacity timestamp (Some cloudCoverage) =
           (if isDaytimeDate tz timestamp
               \<and> f64 (f64 (energyGenerated / panelCapacity) * 100) < 0.5 \<and> cloudCoverage < 90
            then \<lparr>anomalyDetected = True, anomalyType = Some COMPLETE_FAILURE,
                  severity = Some CRITICAL, confidence = Some (f64 0.95),
                  details = Some (FailureDetails
                                    (Some (f64 (f64 (energyGenerated / panelCapacity) * 100)))
                                    cloudCoverage True)\<rparr>
            else noDetection)
         \<and> (anomalyDetected (detectCompleteFailure_f64 tz energyGenerated panelCapacity timestamp
                               (Some cloudCoverage))
              \<longleftrightarrow> isDaytimeDate tz timestamp
                  \<and> f64 (f64 (energyGenerated / panelCapacity) * 100) < 0.5 \<and> cloudCoverage < 90)
         \<and> (\<bar>setHours tz t 6 0 0 0\<bar> \<le> 8640000000000000
              \<and> \<bar>setHours tz t 18 0 0 0\<bar> \<le> 8640000000000000 \<longrightarrow>
            detectCompleteFailure_f64 tz (f64 0.02) 5 (Some (setHours tz t 14 0 0 0)) (Some 25) =
              \<lparr>anomalyDetected = True, anomalyType = Some COMPLETE_FAILURE,
               severity = Some CRITICAL, confidence = Some (f64 0.95),
               details = Some (FailureDetails (Some (f64 0.4)) 25 True)\<rparr>)"
proof -
  have table: "detectCompleteFailure_f64 tz e pc ts (Some cc) =
           (if isDaytimeDate tz ts \<and> f64 (f64 (e / pc) * 100) < 0.5 \<and> cc < 90
            then \<lparr>anomalyDetected = True, anomalyType = Some COMPLETE_FAILURE,
                  severity = Some CRITICAL, confidence = Some (f64 0.95),
                  details = Some (FailureDetails (Some (f64 (f64 (e / pc) * 100))) cc True)\<rparr>
            else noDetection)" if "pc > 0" for e pc ts cc
    using that unfolding detectCompleteFailure_f64_def Let_def by simp
  have fired: "anomalyDetected (detectCompleteFailure_f64 tz energyGenerated panelCapacity timestamp
                               (Some cloudCoverage))
              \<longleftrightarrow> isDaytimeDate tz timestamp
                  \<and> f64 (f64 (energyGenerated / panelCapacity) * 100) < 0.5 \<and> cloudCoverage < 90"
    unfolding table [OF assms] by (simp add: noDetection_def)
  have scenario: "detectCompleteFailure_f64 tz (f64 0.02) 5 (Some (setHours tz t 14 0 0 0)) (Some 25) =
              \<lparr>anomalyDetected = True, anomalyType = Some COMPLETE_FAILURE,
               severity = Some CRITICAL, confidence = Some (f64 0.95),
               details = Some (FailureDetails (Some (f64 0.4)) 25 True)\<rparr>"
    if "\<bar>setHours tz t 6 0 0 0\<bar> \<le> 8640000000000000"
      and "\<bar>setHours tz t 18 0 0 0\<bar> \<le> 8640000000000000"
  proof -
    have pos: "(0::real) < 5" by simp
    show ?thesis
      unfolding table [OF pos]
      using afternoon_daytime [OF that] scenarioA_percent by simp
  qed
  from table [OF assms] fired scenario show ?thesis by blast
qed

theorem detectCompleteFailure_witness:
  "(0::real) < 5
   \<and> \<bar>setHours 0 50400000 6 0 0 0\<bar> \<le> 8640000000000000
   \<and> \<bar>setHours 0 50400000 18 0 0 0\<bar> \<le> 8640000000000000
   \<and> setHours 0 50400000 14 0 0 0 = 50400000
   \<and> detectCompleteFailure_f64 0 (f64 0.02) 5 (Some 50400000) (Some 25) =
     \<lparr>anomalyDetected = True, anomalyType = Some COMPLETE_FAILURE,
      severity = Some CRITICAL, confidence = Some (f64 0.95),
      details = Some (FailureDetails (Some (f64 0.4)) 25 True)\<rparr>
   \<and> \<not> isDaytimeDate 0 (Some 7200000)
   \<and> detectCompleteFailure_f64 0 (f64 0.02) 5 (Some 7200000) (Some 25) = noDetection
   \<and> detectCompleteFailure_f64 0 (f64 0.02) 5 None (Some 25) = noDetection"
proof -
  have t: "setHours 0 50400000 6 0 0 0 = 21600000" "setHours 0 50400000 18 0 0 0 = 64800000"
    "setHours 0 50400000 14 0 0 0 = 50400000"
    by (simp_all add: setHours_def localMidnight_def msPerDay_def)
  have n: "\<not> isDaytimeDate 0 (Some 7200000)"
    by (simp add: isDaytimeDate_Some isDaytime_window msPerDay_def)
  show ?thesis
    using detectCompleteFailure_iff [where panelCapacity = 5 and tz = 0 and t = 50400000
        and energyGenerated = "f64 0.02" and timestamp = "Some 7200000" and cloudCoverage = 25]
      detectCompleteFailure_iff [where panelCapacity = 5 and tz = 0 and t = 50400000
        and energyGenerated = "f64 0.02" and timestamp = None and cloudCoverage = 25]
    by (simp add: t n isDaytimeDate_None)
qed

text \<open>Rounding decides at the threshold. For the readings 0.0045 and 0.9 the quotient
  times 100 is 0.5 in exact arithmetic and 0.49999999999999994 in the program, which
  detects; for 0.015600513800959118 and 3.120102760191824 the exact value is below 0.5
  and the program computes 0.5, and does not detect.\<close>

lemma detectCompleteFailure_rounding:
  "anomalyDetected (detectCompleteFailure_f64 0 (f64 0.0045) (f64 0.9) (Some 43200000) (Some 25))
   \<and> \<not> (0.0045 / 0.9 * 100 < (0.5 :: real))
   \<and> \<not> anomalyDetected (detectCompleteFailure_f64 0 (f64 0.015600513800959118)
                            (f64 3.120102760191824) (Some 43200000) (Some 25))
   \<and> f64 0.015600513800959118 / f64 3.120102760191824 * 100 < (0.5 :: real)"
proof -
  have day: "isDaytimeDate 0 (Some 43200000)"
    by (simp add: isDaytimeDate_Some isDaytime_window msPerDay_def setHours_def localMidnight_def)
  have p1: "(0::real) < f64 0.9" using percent_rounded_below by simp
  have p2: "(0::real) < f64 3.120102760191824" using percent_rounded_up by simp
  have a: "anomalyDetected (detectCompleteFailure_f64 0 (f64 0.0045) (f64 0.9) (Some 43200000) (Some 25))"
    using p1 day percent_rounded_below
    unfolding detectCompleteFailure_f64_def Let_def by simp
  have b: "\<not> anomalyDetected (detectCompleteFailure_f64 0 (f64 0.015600513800959118)
                            (f64 3.120102760191824) (Some 43200000) (Some 25))"
    using p2 day percent_rounded_up
    unfolding detectCompleteFailure_f64_def Let_def by (simp add: noDetection_def)
  from a b percent_rounded_up show ?thesis by simp
qed

subsection \<open>The sensor checks\<close>

lemma reportedIssues_sensor:
  "reportedIssues (detectSensorMalfunction tz e pc t (Some rr)) = sensorIssues tz e pc t rr"
  by (simp add: detectSensorMalfunction_def Let_def reportedIssues_def sensorIssues_def
      noDetection_def)


text \<open>Claim C9. The weather severity that \<open>classifyWeatherImpact\<close> computes is at most 0.9
  and its precipitation term at most 0.8, for every cloud coverage and precipitation (the
  ranges 0 to 100 and non-negative are not needed); at cloud coverage 100 and
  precipitation 100 the severity is 0.9, also as the result of the function reports it.\<close>

theorem weatherSeverity_bound:
  "weatherSeverity cloudCoverage precipitation \<le> 0.9
   \<and> rainImpact precipitation \<le> 0.8
   \<and> weatherSeverity 100 100 = 0.9
   \<and> details (classifyWeatherImpact 0.45 4 100 (Some 100)) =
       Some (WeatherDetails 0.9 90 88.75 100 100 False)"
proof -
  have a: "weatherSeverity cloudCoverage precipitation \<le> 0.9"
    unfolding weatherSeverity_def by (rule min.cobounded1)
  have b: "rainImpact precipitation \<le> 0.8"
    unfolding rainImpact_def by (rule min.cobounded1)
  have c: "weatherSeverity 100 100 = 0.9"
    by (simp add: weatherSeverity_def rainImpact_def cloudImpact_def)
  have d: "details (classifyWeatherImpact 0.45 4 100 (Some 100)) =
       Some (WeatherDetails 0.9 90 88.75 100 100 False)"
    by (simp add: classifyWeatherImpact_def expectedReduction_def actualReduction_def Let_def c)
  from a b c d show ?thesis by blast
qed

lemma capacity_bound_rounded_below:
  "f64 0.5985 > f64 (f64 0.57 * f64 1.05)"
proof -
  have e1: "f64 0.57 = (5134103575202365 / 2 ^ 53)"
    by (rule f64_scaled [where n = 53]) (simp_all add: roundEven_def)
  have e2: "f64 1.05 = (4728779608739021 / 2 ^ 52)"
    by (rule f64_scaled [where n = 52]) (simp_all add: roundEven_def)
  have e3: "f64 ((5134103575202365 / 2 ^ 53) * (4728779608739021 / 2 ^ 52)) = (5390808753962483 / 2 ^ 53)"
    by (rule f64_scaled [where n = 53]) (simp_all add: roundEven_def)
  have e4: "f64 0.5985 = (5390808753962484 / 2 ^ 53)"
    by (rule f64_scaled [where n = 53]) (simp_all add: roundEven_def)
  show ?thesis
    by (simp only: e1 e2 e3 e4) (simp?)
qed

lemma capacity_bound_rounded_up:
  "f64 (3 * f64 1.05) > 3 * 1.05"
proof -
  have e1: "f64 1.05 = (4728779608739021 / 2 ^ 52)"
    by (rule f64_scaled [where n = 52]) (simp_all add: roundEven_def)
  have e2: "f64 (3 * (4728779608739021 / 2 ^ 52)) = (7093169413108532 / 2 ^ 51)"
    by (rule f64_scaled [where n = 51]) (simp_all add: roundEven_def)
  show ?thesis
    by (simp only: e1 e2) (simp?)
qed

lemma reportedIssues_sensor_f64:
  "reportedIssues (detectSensorMalfunction_f64 tz e pc t (Some rr)) = sensorIssues_f64 tz e pc t rr"
  by (simp add: detectSensorMalfunction_f64_def Let_def reportedIssues_def sensorIssues_f64_def
      noDetection_def)

lemma capacityIssue_f64_reported:
  "\<lparr>issue = ''Generation exceeds panel capacity'', i_severity = CRITICAL, i_confidence = f64 0.99\<rparr>
      \<in> set (sensorIssues_f64 tz e pc timestamp recentReadings) \<longleftrightarrow> e > f64 (pc * f64 1.05)"
  "''Generation exceeds panel capacity''
      \<in> issue ` set (sensorIssues_f64 tz e pc timestamp recentReadings) \<longleftrightarrow> e > f64 (pc * f64 1.05)"
proof -
  show "\<lparr>issue = ''Generation exceeds panel capacity'', i_severity = CRITICAL, i_confidence = f64 0.99\<rparr>
      \<in> set (sensorIssues_f64 tz e pc timestamp recentReadings) \<longleftrightarrow> e > f64 (pc * f64 1.05)"
    by (simp add: sensorIssues_f64_def nightIssue_f64_def capacityIssue_f64_def stuckIssue_f64_def
        erraticIssue_f64_def negativeIssue_f64_def Let_def)
  show "''Generation exceeds panel capacity''
      \<in> issue ` set (sensorIssues_f64 tz e pc timestamp recentReadings) \<longleftrightarrow> e > f64 (pc * f64 1.05)"
    unfolding sensorIssues_f64_def nightIssue_f64_def capacityIssue_f64_def stuckIssue_f64_def
      erraticIssue_f64_def negativeIssue_f64_def Let_def
    by (auto split: if_splits)
qed


text \<open>Rounding decides at the bound. The product of the doubles 0.57 and 1.05 is
  0.5984999999999999 in the program, and a reading of 0.5985, the bound in exact
  arithmetic, is reported; the product of 3 and 1.05 is 3.1500000000000004, above 3.15,
  and a reading of that value is not reported.\<close>

lemma capacity_violation_rounding:
  "''Generation exceeds panel capacity''
      \<in> issue ` set (reportedIssues (detectSensorMalfunction_f64 tz (f64 0.5985) (f64 0.57)
                         timestamp (Some recentReadings)))
   \<and> ''Generation exceeds panel capacity''
      \<notin> issue ` set (reportedIssues (detectSensorMalfunction_f64 tz (f64 (3 * f64 1.05)) 3
                         timestamp (Some recentReadings)))
   \<and> (0.5985 :: real) = 0.57 * 1.05
   \<and> f64 (3 * f64 1.05) > 3 * 1.05"
  unfolding reportedIssues_sensor_f64 capacityIssue_f64_reported
  using capacity_bound_rounded_below capacity_bound_rounded_up by simp

subsection \<open>Weather impact, in binary64\<close>

lemma scenarioB_values:
  shows "weatherSeverity_f64 85 8 = f64 0.9"
    and "expectedReduction_f64 85 8 = 90"
    and "actualReduction_f64 (f64 0.45) 4 = 88.75"
    and "f64 (actualReduction_f64 (f64 0.45) 4 - expectedReduction_f64 85 8) = - 1.25"
    and "f64 (expectedReduction_f64 85 8 + 20) = 110"
    and "weatherSeverity_f64 85 8 > f64 0.4"
proof -
  have e1: "f64 0.45 = (8106479329266893 / 2 ^ 54)"
    by (rule f64_scaled [where n = 54]) (simp_all add: roundEven_def)
  have e2: "f64 (85 / 100) = (7656119366529843 / 2 ^ 53)"
    by (rule f64_scaled [where n = 53]) (simp_all add: roundEven_def)
  have e3: "f64 0.7 = (6305039478318694 / 2 ^ 53)"
    by (rule f64_scaled [where n = 53]) (simp_all add: roundEven_def)
  have e4: "f64 ((7656119366529843 / 2 ^ 53) * (6305039478318694 / 2 ^ 53)) = (5359283556570890 / 2 ^ 53)"
    by (rule f64_scaled [where n = 53]) (simp_all add: roundEven_def)
  have e5: "f64 0.8 = (7205759403792794 / 2 ^ 53)"
    by (rule f64_scaled [where n = 53]) (simp_all add: roundEven_def)
  have e6: "f64 0.2 = (7205759403792794 / 2 ^ 55)"
    by (rule f64_scaled [where n = 55]) (simp_all add: roundEven_def)
  have e7: "f64 (8 * (7205759403792794 / 2 ^ 55)) = (7205759403792794 / 2 ^ 52)"
    by (rule f64_scaled [where n = 52]) (simp_all add: roundEven_def)
  have e8: "f64 0.9 = (8106479329266893 / 2 ^ 53)"
    by (rule f64_scaled [where n = 53]) (simp_all add: roundEven_def)
  have e9: "f64 ((5359283556570890 / 2 ^ 53) + (min (7205759403792794 / 2 ^ 53) (7205759403792794 / 2 ^ 52))) = (6282521480181842 / 2 ^ 52)"
    by (rule f64_scaled [where n = 52]) (simp_all add: roundEven_def)
  have e10: "f64 ((min (8106479329266893 / 2 ^ 53) (6282521480181842 / 2 ^ 52)) * 100) = (6333186975989760 / 2 ^ 46)"
    by (rule f64_scaled [where n = 46]) (simp_all add: roundEven_def)
  have e11: "f64 (4 - (8106479329266893 / 2 ^ 54)) = (7993889338582630 / 2 ^ 51)"
    by (rule f64_scaled [where n = 51]) (simp_all add: roundEven_def)
  have e12: "f64 ((7993889338582630 / 2 ^ 51) / 4) = (7993889338582630 / 2 ^ 53)"
    by (rule f64_scaled [where n = 53]) (simp_all add: roundEven_def)
  have e13: "f64 ((7993889338582630 / 2 ^ 53) * 100) = (6245226045767680 / 2 ^ 46)"
    by (rule f64_scaled [where n = 46]) (simp_all add: roundEven_def)
  have e14: "f64 ((6245226045767680 / 2 ^ 46) - (6333186975989760 / 2 ^ 46)) = (- 5629499534213120 / 2 ^ 52)"
    by (rule f64_scaled [where n = 52]) (simp_all add: roundEven_def)
  have e15: "f64 ((6333186975989760 / 2 ^ 46) + 20) = (7740561859543040 / 2 ^ 46)"
    by (rule f64_scaled [where n = 46]) (simp_all add: roundEven_def)
  have e16: "f64 0.4 = (7205759403792794 / 2 ^ 54)"
    by (rule f64_scaled [where n = 54]) (simp_all add: roundEven_def)
  have ar: "actualReduction_f64 (f64 0.45) 4 = f64 (f64 (f64 (4 - (f64 0.45)) / 4) * 100)"
    unfolding actualReduction_f64_def by (rule if_P) simp
  show "weatherSeverity_f64 85 8 = f64 0.9"
    unfolding ar expectedReduction_f64_def weatherSeverity_f64_def cloudImpact_f64_def rainImpact_f64_def
    by (simp only: e1 e2 e3 e4 e5 e6 e7 e8 e9 e10 e11 e12 e13 e14 e15 e16) (simp?)
  show "expectedReduction_f64 85 8 = 90"
    unfolding ar expectedReduction_f64_def weatherSeverity_f64_def cloudImpact_f64_def rainImpact_f64_def
    by (simp only: e1 e2 e3 e4 e5 e6 e7 e8 e9 e10 e11 e12 e13 e14 e15 e16) (simp?)
  show "actualReduction_f64 (f64 0.45) 4 = 88.75"
    unfolding ar expectedReduction_f64_def weatherSeverity_f64_def cloudImpact_f64_def rainImpact_f64_def
    by (simp only: e1 e2 e3 e4 e5 e6 e7 e8 e9 e10 e11 e12 e13 e14 e15 e16) (simp?)
  show "f64 (actualReduction_f64 (f64 0.45) 4 - expectedReduction_f64 85 8) = - 1.25"
    unfolding ar expectedReduction_f64_def weatherSeverity_f64_def cloudImpact_f64_def rainImpact_f64_def
    by (simp only: e1 e2 e3 e4 e5 e6 e7 e8 e9 e10 e11 e12 e13 e14 e15 e16) (simp?)
  show "f64 (expectedReduction_f64 85 8 + 20) = 110"
    unfolding ar expectedReduction_f64_def weatherSeverity_f64_def cloudImpact_f64_def rainImpact_f64_def
    by (simp only: e1 e2 e3 e4 e5 e6 e7 e8 e9 e10 e11 e12 e13 e14 e15 e16) (simp?)
  show "weatherSeverity_f64 85 8 > f64 0.4"
    unfolding ar expectedReduction_f64_def weatherSeverity_f64_def cloudImpact_f64_def rainImpact_f64_def
    by (simp only: e1 e2 e3 e4 e5 e6 e7 e8 e9 e10 e11 e12 e13 e14 e15 e16) (simp?)
qed

lemma panel_issue_values:
  shows "weatherSeverity_f64 100 0 = f64 0.7"
    and "expectedReduction_f64 100 0 = 70"
    and "actualReduction_f64 (f64 0.2) 4 = 95"
    and "f64 (actualReduction_f64 (f64 0.2) 4 - expectedReduction_f64 100 0) = 25"
    and "f64 (expectedReduction_f64 100 0 + 20) = 90"
    and "weatherSeverity_f64 100 0 > f64 0.4"
proof -
  have e1: "f64 0.2 = (7205759403792794 / 2 ^ 55)"
    by (rule f64_scaled [where n = 55]) (simp_all add: roundEven_def)
  have e2: "f64 (100 / 100) = (4503599627370496 / 2 ^ 52)"
    by (rule f64_scaled [where n = 52]) (simp_all add: roundEven_def)
  have e3: "f64 0.7 = (6305039478318694 / 2 ^ 53)"
    by (rule f64_scaled [where n = 53]) (simp_all add: roundEven_def)
  have e4: "f64 ((4503599627370496 / 2 ^ 52) * (6305039478318694 / 2 ^ 53)) = (6305039478318694 / 2 ^ 53)"
    by (rule f64_scaled [where n = 53]) (simp_all add: roundEven_def)
  have e5: "f64 0.8 = (7205759403792794 / 2 ^ 53)"
    by (rule f64_scaled [where n = 53]) (simp_all add: roundEven_def)
  have e6: "f64 (0 * (7205759403792794 / 2 ^ 55)) = 0"
    by simp
  have e7: "f64 0.9 = (8106479329266893 / 2 ^ 53)"
    by (rule f64_scaled [where n = 53]) (simp_all add: roundEven_def)
  have e8: "f64 ((6305039478318694 / 2 ^ 53) + (min (7205759403792794 / 2 ^ 53) 0)) = (6305039478318694 / 2 ^ 53)"
    by (rule f64_scaled [where n = 53]) (simp_all add: roundEven_def)
  have e9: "f64 ((min (8106479329266893 / 2 ^ 53) (6305039478318694 / 2 ^ 53)) * 100) = (4925812092436480 / 2 ^ 46)"
    by (rule f64_scaled [where n = 46]) (simp_all add: roundEven_def)
  have e10: "f64 (4 - (7205759403792794 / 2 ^ 55)) = (8556839292003942 / 2 ^ 51)"
    by (rule f64_scaled [where n = 51]) (simp_all add: roundEven_def)
  have e11: "f64 ((8556839292003942 / 2 ^ 51) / 4) = (8556839292003942 / 2 ^ 53)"
    by (rule f64_scaled [where n = 53]) (simp_all add: roundEven_def)
  have e12: "f64 ((8556839292003942 / 2 ^ 53) * 100) = (6685030696878080 / 2 ^ 46)"
    by (rule f64_scaled [where n = 46]) (simp_all add: roundEven_def)
  have e13: "f64 ((6685030696878080 / 2 ^ 46) - (4925812092436480 / 2 ^ 46)) = (7036874417766400 / 2 ^ 48)"
    by (rule f64_scaled [where n = 48]) (simp_all add: roundEven_def)
  have e14: "f64 ((4925812092436480 / 2 ^ 46) + 20) = (6333186975989760 / 2 ^ 46)"
    by (rule f64_scaled [where n = 46]) (simp_all add: roundEven_def)
  have e15: "f64 0.4 = (7205759403792794 / 2 ^ 54)"
    by (rule f64_scaled [where n = 54]) (simp_all add: roundEven_def)
  have ar: "actualReduction_f64 (f64 0.2) 4 = f64 (f64 (f64 (4 - (f64 0.2)) / 4) * 100)"
    unfolding actualReduction_f64_def by (rule if_P) simp
  show "weatherSeverity_f64 100 0 = f64 0.7"
    unfolding ar expectedReduction_f64_def weatherSeverity_f64_def cloudImpact_f64_def rainImpact_f64_def
    by (simp only: e1 e2 e3 e4 e5 e6 e7 e8 e9 e10 e11 e12 e13 e14 e15) (simp?)
  show "expectedReduction_f64 100 0 = 70"
    unfolding ar expectedReduction_f64_def weatherSeverity_f64_def cloudImpact_f64_def rainImpact_f64_def
    by (simp only: e1 e2 e3 e4 e5 e6 e7 e8 e9 e10 e11 e12 e13 e14 e15) (simp?)
  show "actualReduction_f64 (f64 0.2) 4 = 95"
    unfolding ar expectedReduction_f64_def weatherSeverity_f64_def cloudImpact_f64_def rainImpact_f64_def
    by (simp only: e1 e2 e3 e4 e5 e6 e7 e8 e9 e10 e11 e12 e13 e14 e15) (simp?)
  show "f64 (actualReduction_f64 (f64 0.2) 4 - expectedReduction_f64 100 0) = 25"
    unfolding ar expectedReduction_f64_def weatherSeverity_f64_def cloudImpact_f64_def rainImpact_f64_def
    by (simp only: e1 e2 e3 e4 e5 e6 e7 e8 e9 e10 e11 e12 e13 e14 e15) (simp?)
  show "f64 (expectedReduction_f64 100 0 + 20) = 90"
    unfolding ar expectedReduction_f64_def weatherSeverity_f64_def cloudImpact_f64_def rainImpact_f64_def
    by (simp only: e1 e2 e3 e4 e5 e6 e7 e8 e9 e10 e11 e12 e13 e14 e15) (simp?)
  show "weatherSeverity_f64 100 0 > f64 0.4"
    unfolding ar expectedReduction_f64_def weatherSeverity_f64_def cloudImpact_f64_def rainImpact_f64_def
    by (simp only: e1 e2 e3 e4 e5 e6 e7 e8 e9 e10 e11 e12 e13 e14 e15) (simp?)
qed

lemma scenarioC_values:
  shows "weatherSeverity_f64 45 0 = f64 0.315"
    and "expectedReduction_f64 45 0 = 31.5"
    and "actualReduction_f64 (f64 0.9) (f64 3.8) = f64 76.31578947368422"
    and "f64 (actualReduction_f64 (f64 0.9) (f64 3.8) - expectedReduction_f64 45 0) = f64 44.81578947368422"
    and "f64 (expectedReduction_f64 45 0 + 20) = 51.5"
    and "weatherSeverity_f64 45 0 \<le> f64 0.4"
proof -
  have e1: "f64 0.9 = (8106479329266893 / 2 ^ 53)"
    by (rule f64_scaled [where n = 53]) (simp_all add: roundEven_def)
  have e2: "f64 3.8 = (8556839292003942 / 2 ^ 51)"
    by (rule f64_scaled [where n = 51]) (simp_all add: roundEven_def)
  have e3: "f64 (45 / 100) = (8106479329266893 / 2 ^ 54)"
    by (rule f64_scaled [where n = 54]) (simp_all add: roundEven_def)
  have e4: "f64 0.7 = (6305039478318694 / 2 ^ 53)"
    by (rule f64_scaled [where n = 53]) (simp_all add: roundEven_def)
  have e5: "f64 ((8106479329266893 / 2 ^ 54) * (6305039478318694 / 2 ^ 53)) = (5674535530486825 / 2 ^ 54)"
    by (rule f64_scaled [where n = 54]) (simp_all add: roundEven_def)
  have e6: "f64 0.8 = (7205759403792794 / 2 ^ 53)"
    by (rule f64_scaled [where n = 53]) (simp_all add: roundEven_def)
  have e7: "f64 0.2 = (7205759403792794 / 2 ^ 55)"
    by (rule f64_scaled [where n = 55]) (simp_all add: roundEven_def)
  have e8: "f64 (0 * (7205759403792794 / 2 ^ 55)) = 0"
    by simp
  have e9: "f64 ((5674535530486825 / 2 ^ 54) + (min (7205759403792794 / 2 ^ 53) 0)) = (5674535530486825 / 2 ^ 54)"
    by (rule f64_scaled [where n = 54]) (simp_all add: roundEven_def)
  have e10: "f64 ((min (8106479329266893 / 2 ^ 53) (5674535530486825 / 2 ^ 54)) * 100) = (8866461766385664 / 2 ^ 48)"
    by (rule f64_scaled [where n = 48]) (simp_all add: roundEven_def)
  have e11: "f64 ((8556839292003942 / 2 ^ 51) - (8106479329266893 / 2 ^ 53)) = (6530219459687219 / 2 ^ 51)"
    by (rule f64_scaled [where n = 51]) (simp_all add: roundEven_def)
  have e12: "f64 ((6530219459687219 / 2 ^ 51) / (8556839292003942 / 2 ^ 51)) = (6873915220723389 / 2 ^ 53)"
    by (rule f64_scaled [where n = 53]) (simp_all add: roundEven_def)
  have e13: "f64 ((6873915220723389 / 2 ^ 53) * 100) = (5370246266190148 / 2 ^ 46)"
    by (rule f64_scaled [where n = 46]) (simp_all add: roundEven_def)
  have e14: "f64 ((5370246266190148 / 2 ^ 46) - (8866461766385664 / 2 ^ 48)) = (6307261649187464 / 2 ^ 47)"
    by (rule f64_scaled [where n = 47]) (simp_all add: roundEven_def)
  have e15: "f64 ((8866461766385664 / 2 ^ 48) + 20) = (7247980650299392 / 2 ^ 47)"
    by (rule f64_scaled [where n = 47]) (simp_all add: roundEven_def)
  have e16: "f64 0.315 = (5674535530486825 / 2 ^ 54)"
    by (rule f64_scaled [where n = 54]) (simp_all add: roundEven_def)
  have e17: "f64 76.31578947368422 = (5370246266190148 / 2 ^ 46)"
    by (rule f64_scaled [where n = 46]) (simp_all add: roundEven_def)
  have e18: "f64 44.81578947368422 = (6307261649187464 / 2 ^ 47)"
    by (rule f64_scaled [where n = 47]) (simp_all add: roundEven_def)
  have e19: "f64 0.4 = (7205759403792794 / 2 ^ 54)"
    by (rule f64_scaled [where n = 54]) (simp_all add: roundEven_def)
  have ar: "actualReduction_f64 (f64 0.9) (f64 3.8) = f64 (f64 (f64 ((f64 3.8) - (f64 0.9)) / (f64 3.8)) * 100)"
    unfolding actualReduction_f64_def by (rule if_P) (simp only: e1 e2 e3 e4 e5 e6 e7 e8 e9 e10 e11 e12 e13 e14 e15 e16 e17 e18 e19, simp)
  show "weatherSeverity_f64 45 0 = f64 0.315"
    unfolding ar expectedReduction_f64_def weatherSeverity_f64_def cloudImpact_f64_def rainImpact_f64_def
    by (simp only: e1 e2 e3 e4 e5 e6 e7 e8 e9 e10 e11 e12 e13 e14 e15 e16 e17 e18 e19) (simp?)
  show "expectedReduction_f64 45 0 = 31.5"
    unfolding ar expectedReduction_f64_def weatherSeverity_f64_def cloudImpact_f64_def rainImpact_f64_def
    by (simp only: e1 e2 e3 e4 e5 e6 e7 e8 e9 e10 e11 e12 e13 e14 e15 e16 e17 e18 e19) (simp?)
  show "actualReduction_f64 (f64 0.9) (f64 3.8) = f64 76.31578947368422"
    unfolding ar expectedReduction_f64_def weatherSeverity_f64_def cloudImpact_f64_def rainImpact_f64_def
    by (simp only: e1 e2 e3 e4 e5 e6 e7 e8 e9 e10 e11 e12 e13 e14 e15 e16 e17 e18 e19) (simp?)
  show "f64 (actualReduction_f64 (f64 0.9) (f64 3.8) - expectedReduction_f64 45 0) = f64 44.81578947368422"
    unfolding ar expectedReduction_f64_def weatherSeverity_f64_def cloudImpact_f64_def rainImpact_f64_def
    by (simp only: e1 e2 e3 e4 e5 e6 e7 e8 e9 e10 e11 e12 e13 e14 e15 e16 e17 e18 e19) (simp?)
  show "f64 (expectedReduction_f64 45 0 + 20) = 51.5"
    unfolding ar expectedReduction_f64_def weatherSeverity_f64_def cloudImpact_f64_def rainImpact_f64_def
    by (simp only: e1 e2 e3 e4 e5 e6 e7 e8 e9 e10 e11 e12 e13 e14 e15 e16 e17 e18 e19) (simp?)
  show "weatherSeverity_f64 45 0 \<le> f64 0.4"
    unfolding ar expectedReduction_f64_def weatherSeverity_f64_def cloudImpact_f64_def rainImpact_f64_def
    by (simp only: e1 e2 e3 e4 e5 e6 e7 e8 e9 e10 e11 e12 e13 e14 e15 e16 e17 e18 e19) (simp?)
qed

lemma below_values:
  shows "weatherSeverity_f64 100 100 = f64 0.9"
    and "expectedReduction_f64 100 100 = 90"
    and "actualReduction_f64 2 4 = 50"
    and "f64 (actualReduction_f64 2 4 - expectedReduction_f64 100 100) = - 40"
    and "f64 (expectedReduction_f64 100 100 + 20) = 110"
    and "weatherSeverity_f64 100 100 > f64 0.4"
proof -
  have e1: "f64 (100 / 100) = (4503599627370496 / 2 ^ 52)"
    by (rule f64_scaled [where n = 52]) (simp_all add: roundEven_def)
  have e2: "f64 0.7 = (6305039478318694 / 2 ^ 53)"
    by (rule f64_scaled [where n = 53]) (simp_all add: roundEven_def)
  have e3: "f64 ((4503599627370496 / 2 ^ 52) * (6305039478318694 / 2 ^ 53)) = (6305039478318694 / 2 ^ 53)"
    by (rule f64_scaled [where n = 53]) (simp_all add: roundEven_def)
  have e4: "f64 0.8 = (7205759403792794 / 2 ^ 53)"
    by (rule f64_scaled [where n = 53]) (simp_all add: roundEven_def)
  have e5: "f64 0.2 = (7205759403792794 / 2 ^ 55)"
    by (rule f64_scaled [where n = 55]) (simp_all add: roundEven_def)
  have e6: "f64 (100 * (7205759403792794 / 2 ^ 55)) = (5629499534213120 / 2 ^ 48)"
    by (rule f64_scaled [where n = 48]) (simp_all add: roundEven_def)
  have e7: "f64 0.9 = (8106479329266893 / 2 ^ 53)"
    by (rule f64_scaled [where n = 53]) (simp_all add: roundEven_def)
  have e8: "f64 ((6305039478318694 / 2 ^ 53) + (min (7205759403792794 / 2 ^ 53) (5629499534213120 / 2 ^ 48))) = (6755399441055744 / 2 ^ 52)"
    by (rule f64_scaled [where n = 52]) (simp_all add: roundEven_def)
  have e9: "f64 ((min (8106479329266893 / 2 ^ 53) (6755399441055744 / 2 ^ 52)) * 100) = (6333186975989760 / 2 ^ 46)"
    by (rule f64_scaled [where n = 46]) (simp_all add: roundEven_def)
  have e10: "f64 (4 - 2) = (4503599627370496 / 2 ^ 51)"
    by (rule f64_scaled [where n = 51]) (simp_all add: roundEven_def)
  have e11: "f64 ((4503599627370496 / 2 ^ 51) / 4) = (4503599627370496 / 2 ^ 53)"
    by (rule f64_scaled [where n = 53]) (simp_all add: roundEven_def)
  have e12: "f64 ((4503599627370496 / 2 ^ 53) * 100) = (7036874417766400 / 2 ^ 47)"
    by (rule f64_scaled [where n = 47]) (simp_all add: roundEven_def)
  have e13: "f64 ((7036874417766400 / 2 ^ 47) - (6333186975989760 / 2 ^ 46)) = (- 5629499534213120 / 2 ^ 47)"
    by (rule f64_scaled [where n = 47]) (simp_all add: roundEven_def)
  have e14: "f64 ((6333186975989760 / 2 ^ 46) + 20) = (7740561859543040 / 2 ^ 46)"
    by (rule f64_scaled [where n = 46]) (simp_all add: roundEven_def)
  have e15: "f64 0.4 = (7205759403792794 / 2 ^ 54)"
    by (rule f64_scaled [where n = 54]) (simp_all add: roundEven_def)
  have ar: "actualReduction_f64 2 4 = f64 (f64 (f64 (4 - 2) / 4) * 100)"
    unfolding actualReduction_f64_def by (rule if_P) simp
  show "weatherSeverity_f64 100 100 = f64 0.9"
    unfolding ar expectedReduction_f64_def weatherSeverity_f64_def cloudImpact_f64_def rainImpact_f64_def
    by (simp only: e1 e2 e3 e4 e5 e6 e7 e8 e9 e10 e11 e12 e13 e14 e15) (simp?)
  show "expectedReduction_f64 100 100 = 90"
    unfolding ar expectedReduction_f64_def weatherSeverity_f64_def cloudImpact_f64_def rainImpact_f64_def
    by (simp only: e1 e2 e3 e4 e5 e6 e7 e8 e9 e10 e11 e12 e13 e14 e15) (simp?)
  show "actualReduction_f64 2 4 = 50"
    unfolding ar expectedReduction_f64_def weatherSeverity_f64_def cloudImpact_f64_def rainImpact_f64_def
    by (simp only: e1 e2 e3 e4 e5 e6 e7 e8 e9 e10 e11 e12 e13 e14 e15) (simp?)
  show "f64 (actualReduction_f64 2 4 - expectedReduction_f64 100 100) = - 40"
    unfolding ar expectedReduction_f64_def weatherSeverity_f64_def cloudImpact_f64_def rainImpact_f64_def
    by (simp only: e1 e2 e3 e4 e5 e6 e7 e8 e9 e10 e11 e12 e13 e14 e15) (simp?)
  show "f64 (expectedReduction_f64 100 100 + 20) = 110"
    unfolding ar expectedReduction_f64_def weatherSeverity_f64_def cloudImpact_f64_def rainImpact_f64_def
    by (simp only: e1 e2 e3 e4 e5 e6 e7 e8 e9 e10 e11 e12 e13 e14 e15) (simp?)
  show "weatherSeverity_f64 100 100 > f64 0.4"
    unfolding ar expectedReduction_f64_def weatherSeverity_f64_def cloudImpact_f64_def rainImpact_f64_def
    by (simp only: e1 e2 e3 e4 e5 e6 e7 e8 e9 e10 e11 e12 e13 e14 e15) (simp?)
qed

lemma rounded_match_values:
  shows "weatherSeverity_f64 58 0 = f64 0.40599999999999997"
    and "expectedReduction_f64 58 0 = f64 40.599999999999994"
    and "actualReduction_f64 794 1000 = f64 20.599999999999998"
    and "f64 (actualReduction_f64 794 1000 - expectedReduction_f64 58 0) = - f64 19.999999999999996"
    and "f64 (expectedReduction_f64 58 0 + 20) = f64 60.599999999999994"
    and "weatherSeverity_f64 58 0 > f64 0.4"
proof -
  have e1: "f64 (58 / 100) = (5224175567749775 / 2 ^ 53)"
    by (rule f64_scaled [where n = 53]) (simp_all add: roundEven_def)
  have e2: "f64 0.7 = (6305039478318694 / 2 ^ 53)"
    by (rule f64_scaled [where n = 53]) (simp_all add: roundEven_def)
  have e3: "f64 ((5224175567749775 / 2 ^ 53) * (6305039478318694 / 2 ^ 53)) = (7313845794849685 / 2 ^ 54)"
    by (rule f64_scaled [where n = 54]) (simp_all add: roundEven_def)
  have e4: "f64 0.8 = (7205759403792794 / 2 ^ 53)"
    by (rule f64_scaled [where n = 53]) (simp_all add: roundEven_def)
  have e5: "f64 0.2 = (7205759403792794 / 2 ^ 55)"
    by (rule f64_scaled [where n = 55]) (simp_all add: roundEven_def)
  have e6: "f64 (0 * (7205759403792794 / 2 ^ 55)) = 0"
    by simp
  have e7: "f64 0.9 = (8106479329266893 / 2 ^ 53)"
    by (rule f64_scaled [where n = 53]) (simp_all add: roundEven_def)
  have e8: "f64 ((7313845794849685 / 2 ^ 54) + (min (7205759403792794 / 2 ^ 53) 0)) = (7313845794849685 / 2 ^ 54)"
    by (rule f64_scaled [where n = 54]) (simp_all add: roundEven_def)
  have e9: "f64 ((min (8106479329266893 / 2 ^ 53) (7313845794849685 / 2 ^ 54)) * 100) = (5713942027226316 / 2 ^ 47)"
    by (rule f64_scaled [where n = 47]) (simp_all add: roundEven_def)
  have e10: "f64 (1000 - 794) = (7247980650299392 / 2 ^ 45)"
    by (rule f64_scaled [where n = 45]) (simp_all add: roundEven_def)
  have e11: "f64 ((7247980650299392 / 2 ^ 45) / 1000) = (7421932185906577 / 2 ^ 55)"
    by (rule f64_scaled [where n = 55]) (simp_all add: roundEven_def)
  have e12: "f64 ((7421932185906577 / 2 ^ 55) * 100) = (5798384520239513 / 2 ^ 48)"
    by (rule f64_scaled [where n = 48]) (simp_all add: roundEven_def)
  have e13: "f64 ((5798384520239513 / 2 ^ 48) - (5713942027226316 / 2 ^ 47)) = (- 5629499534213119 / 2 ^ 48)"
    by (rule f64_scaled [where n = 48]) (simp_all add: roundEven_def)
  have e14: "f64 ((5713942027226316 / 2 ^ 47) + 20) = (8528691794332876 / 2 ^ 47)"
    by (rule f64_scaled [where n = 47]) (simp_all add: roundEven_def)
  have e15: "f64 0.40599999999999997 = (7313845794849685 / 2 ^ 54)"
    by (rule f64_scaled [where n = 54]) (simp_all add: roundEven_def)
  have e16: "f64 40.599999999999994 = (5713942027226316 / 2 ^ 47)"
    by (rule f64_scaled [where n = 47]) (simp_all add: roundEven_def)
  have e17: "f64 20.599999999999998 = (5798384520239513 / 2 ^ 48)"
    by (rule f64_scaled [where n = 48]) (simp_all add: roundEven_def)
  have e18: "f64 19.999999999999996 = (5629499534213119 / 2 ^ 48)"
    by (rule f64_scaled [where n = 48]) (simp_all add: roundEven_def)
  have e19: "f64 60.599999999999994 = (8528691794332876 / 2 ^ 47)"
    by (rule f64_scaled [where n = 47]) (simp_all add: roundEven_def)
  have e20: "f64 0.4 = (7205759403792794 / 2 ^ 54)"
    by (rule f64_scaled [where n = 54]) (simp_all add: roundEven_def)
  have ar: "actualReduction_f64 794 1000 = f64 (f64 (f64 (1000 - 794) / 1000) * 100)"
    unfolding actualReduction_f64_def by (rule if_P) simp
  show "weatherSeverity_f64 58 0 = f64 0.40599999999999997"
    unfolding ar expectedReduction_f64_def weatherSeverity_f64_def cloudImpact_f64_def rainImpact_f64_def
    by (simp only: e1 e2 e3 e4 e5 e6 e7 e8 e9 e10 e11 e12 e13 e14 e15 e16 e17 e18 e19 e20) (simp?)
  show "expectedReduction_f64 58 0 = f64 40.599999999999994"
    unfolding ar expectedReduction_f64_def weatherSeverity_f64_def cloudImpact_f64_def rainImpact_f64_def
    by (simp only: e1 e2 e3 e4 e5 e6 e7 e8 e9 e10 e11 e12 e13 e14 e15 e16 e17 e18 e19 e20) (simp?)
  show "actualReduction_f64 794 1000 = f64 20.599999999999998"
    unfolding ar expectedReduction_f64_def weatherSeverity_f64_def cloudImpact_f64_def rainImpact_f64_def
    by (simp only: e1 e2 e3 e4 e5 e6 e7 e8 e9 e10 e11 e12 e13 e14 e15 e16 e17 e18 e19 e20) (simp?)
  show "f64 (actualReduction_f64 794 1000 - expectedReduction_f64 58 0) = - f64 19.999999999999996"
    unfolding ar expectedReduction_f64_def weatherSeverity_f64_def cloudImpact_f64_def rainImpact_f64_def
    by (simp only: e1 e2 e3 e4 e5 e6 e7 e8 e9 e10 e11 e12 e13 e14 e15 e16 e17 e18 e19 e20) (simp?)
  show "f64 (expectedReduction_f64 58 0 + 20) = f64 60.599999999999994"
    unfolding ar expectedReduction_f64_def weatherSeverity_f64_def cloudImpact_f64_def rainImpact_f64_def
    by (simp only: e1 e2 e3 e4 e5 e6 e7 e8 e9 e10 e11 e12 e13 e14 e15 e16 e17 e18 e19 e20) (simp?)
  show "weatherSeverity_f64 58 0 > f64 0.4"
    unfolding ar expectedReduction_f64_def weatherSeverity_f64_def cloudImpact_f64_def rainImpact_f64_def
    by (simp only: e1 e2 e3 e4 e5 e6 e7 e8 e9 e10 e11 e12 e13 e14 e15 e16 e17 e18 e19 e20) (simp?)
qed

text \<open>The cap of the weather severity holds in binary64 as it does in exact arithmetic.\<close>

lemma weatherSeverity_f64_bound:
  "weatherSeverity_f64 cloudCoverage precipitation \<le> f64 0.9
   \<and> rainImpact_f64 precipitation \<le> f64 0.8
   \<and> weatherSeverity_f64 100 100 = f64 0.9"
proof -
  have a: "weatherSeverity_f64 cloudCoverage precipitation \<le> f64 0.9"
    unfolding weatherSeverity_f64_def by (rule min.cobounded1)
  have b: "rainImpact_f64 precipitation \<le> f64 0.8"
    unfolding rainImpact_f64_def by (rule min.cobounded1)
  from a b below_values(1) show ?thesis by (intro conjI)
qed

lemma f64_20: "f64 20 = 20" "f64 (- 20) = - 20"
proof -
  show a: "f64 20 = 20"
    by (rule f64_scaled [where n = 48]) (simp_all add: roundEven_def)
  show "f64 (- 20) = - 20"
    using f64_minus [of 20] a by simp
qed

lemma actualReduction_f64_double: "f64 (actualReduction_f64 e x) = actualReduction_f64 e x"
  by (simp add: actualReduction_f64_def)

lemma classifyWeatherImpact_f64_cases:
  "weatherSeverity_f64 cc p \<le> f64 0.4 \<Longrightarrow> classifyWeatherImpact_f64 e x cc (Some p) = noDetection"
  "weatherSeverity_f64 cc p > f64 0.4 \<Longrightarrow>
   \<bar>f64 (actualReduction_f64 e x - expectedReduction_f64 cc p)\<bar> < 20 \<Longrightarrow>
   classifyWeatherImpact_f64 e x cc (Some p) =
     \<lparr>anomalyDetected = True, anomalyType = Some WEATHER_RELATED, severity = Some LOW,
      confidence = Some (f64 0.8),
      details = Some (WeatherDetails (weatherSeverity_f64 cc p) (expectedReduction_f64 cc p)
                        (actualReduction_f64 e x) cc p False)\<rparr>"
  "weatherSeverity_f64 cc p > f64 0.4 \<Longrightarrow>
   \<not> \<bar>f64 (actualReduction_f64 e x - expectedReduction_f64 cc p)\<bar> < 20 \<Longrightarrow>
   actualReduction_f64 e x > f64 (expectedReduction_f64 cc p + 20) \<Longrightarrow>
   classifyWeatherImpact_f64 e x cc (Some p) =
     \<lparr>anomalyDetected = True, anomalyType = Some WEATHER_RELATED, severity = Some MEDIUM,
      confidence = Some (f64 0.7),
      details = Some (WeatherDetails (weatherSeverity_f64 cc p) (expectedReduction_f64 cc p)
                        (actualReduction_f64 e x) cc p True)\<rparr>"
  "\<not> \<bar>f64 (actualReduction_f64 e x - expectedReduction_f64 cc p)\<bar> < 20 \<Longrightarrow>
   \<not> actualReduction_f64 e x > f64 (expectedReduction_f64 cc p + 20) \<Longrightarrow>
   classifyWeatherImpact_f64 e x cc (Some p) = noDetection"
  unfolding classifyWeatherImpact_f64_def Let_def by simp_all

text \<open>Claim C6. \<open>classifyWeatherImpact\<close> is the decision table of the specification, with
  the weather severity, the expected and the actual reduction written out and every
  operation rounded as the program rounds it: severity above 0.4 and reductions less than
  20 apart give WEATHER_RELATED, LOW, 0.8, no panel issue; otherwise severity above 0.4
  and an actual reduction more than 20 above the expected one give WEATHER_RELATED,
  MEDIUM, 0.7, panel issue; otherwise nothing. So nothing fires when the severity is at
  most 0.4, or when the actual reduction is more than 20 below the expected one.\<close>

theorem classifyWeatherImpact_table:
  "classifyWeatherImpact_f64 energyGenerated expectedGeneration cloudCoverage (Some precipitation) =
     (let ws = min (f64 0.9) (f64 (f64 (f64 (cloudCoverage / 100) * f64 0.7)
                                    + min (f64 0.8) (f64 (precipitation * f64 0.2))));
          er = f64 (ws * 100);
          ar = (if expectedGeneration > 0
                then f64 (f64 (f64 (expectedGeneration - energyGenerated) / expectedGeneration) * 100)
                else 0)
      in if ws > f64 0.4 \<and> \<bar>f64 (ar - er)\<bar> < 20
         then \<lparr>anomalyDetected = True, anomalyType = Some WEATHER_RELATED, severity = Some LOW,
               confidence = Some (f64 0.8),
               details = Some (WeatherDetails ws er ar cloudCoverage precipitation False)\<rparr>
         else if ws > f64 0.4 \<and> ar > f64 (er + 20)
         then \<lparr>anomalyDetected = True, anomalyType = Some WEATHER_RELATED, severity = Some MEDIUM,
               confidence = Some (f64 0.7),
               details = Some (WeatherDetails ws er ar cloudCoverage precipitation True)\<rparr>
         else noDetection)
   \<and> (weatherSeverity_f64 cloudCoverage precipitation \<le> f64 0.4 \<longrightarrow>
        classifyWeatherImpact_f64 energyGenerated expectedGeneration cloudCoverage (Some precipitation)
          = noDetection)
   \<and> (actualReduction_f64 energyGenerated expectedGeneration
          < expectedReduction_f64 cloudCoverage precipitation - 20 \<longrightarrow>
        classifyWeatherImpact_f64 energyGenerated expectedGeneration cloudCoverage (Some precipitation)
          = noDetection)"
proof -
  have table: "classifyWeatherImpact_f64 energyGenerated expectedGeneration cloudCoverage (Some precipitation) =
     (let ws = min (f64 0.9) (f64 (f64 (f64 (cloudCoverage / 100) * f64 0.7)
                                    + min (f64 0.8) (f64 (precipitation * f64 0.2))));
          er = f64 (ws * 100);
          ar = (if expectedGeneration > 0
                then f64 (f64 (f64 (expectedGeneration - energyGenerated) / expectedGeneration) * 100)
                else 0)
      in if ws > f64 0.4 \<and> \<bar>f64 (ar - er)\<bar> < 20
         then \<lparr>anomalyDetected = True, anomalyType = Some WEATHER_RELATED, severity = Some LOW,
               confidence = Some (f64 0.8),
               details = Some (WeatherDetails ws er ar cloudCoverage precipitation False)\<rparr>
         else if ws > f64 0.4 \<and> ar > f64 (er + 20)
         then \<lparr>anomalyDetected = True, anomalyType = Some WEATHER_RELATED, severity = Some MEDIUM,
               confidence = Some (f64 0.7),
               details = Some (WeatherDetails ws er ar cloudCoverage precipitation True)\<rparr>
         else noDetection)"
    unfolding classifyWeatherImpact_f64_def weatherSeverity_f64_def expectedReduction_f64_def
      actualReduction_f64_def cloudImpact_f64_def rainImpact_f64_def Let_def
    by simp
  have low: "weatherSeverity_f64 cloudCoverage precipitation \<le> f64 0.4 \<longrightarrow>
        classifyWeatherImpact_f64 energyGenerated expectedGeneration cloudCoverage (Some precipitation)
          = noDetection"
    by (simp add: classifyWeatherImpact_f64_cases(1))
  have below: "classifyWeatherImpact_f64 energyGenerated expectedGeneration cloudCoverage (Some precipitation)
          = noDetection"
    if lt: "actualReduction_f64 energyGenerated expectedGeneration
              < expectedReduction_f64 cloudCoverage precipitation - 20"
  proof (rule classifyWeatherImpact_f64_cases(4))
    let ?ar = "actualReduction_f64 energyGenerated expectedGeneration"
    let ?er = "expectedReduction_f64 cloudCoverage precipitation"
    have "f64 (?ar - ?er) \<le> f64 (- 20)"
      by (rule f64_mono) (use lt in simp)
    then have "f64 (?ar - ?er) \<le> - 20" by (simp add: f64_20)
    then show "\<not> \<bar>f64 (?ar - ?er)\<bar> < 20" by simp
    have "f64 ?ar \<le> f64 (?er + 20)"
      by (rule f64_mono) (use lt in simp)
    then show "\<not> ?ar > f64 (?er + 20)"
      by (simp add: actualReduction_f64_double)
  qed
  from table low below show ?thesis by blast
qed

theorem classifyWeatherImpact_table_witness:
  "classifyWeatherImpact_f64 (f64 0.45) 4 85 (Some 8) =
     \<lparr>anomalyDetected = True, anomalyType = Some WEATHER_RELATED, severity = Some LOW,
      confidence = Some (f64 0.8), details = Some (WeatherDetails (f64 0.9) 90 88.75 85 8 False)\<rparr>
   \<and> classifyWeatherImpact_f64 (f64 0.2) 4 100 (Some 0) =
     \<lparr>anomalyDetected = True, anomalyType = Some WEATHER_RELATED, severity = Some MEDIUM,
      confidence = Some (f64 0.7), details = Some (WeatherDetails (f64 0.7) 70 95 100 0 True)\<rparr>
   \<and> weatherSeverity_f64 45 0 \<le> f64 0.4
   \<and> classifyWeatherImpact_f64 (f64 0.9) (f64 3.8) 45 (Some 0) = noDetection
   \<and> actualReduction_f64 2 4 < expectedReduction_f64 100 100 - 20
   \<and> classifyWeatherImpact_f64 2 4 100 (Some 100) = noDetection"
proof -
  have a: "weatherSeverity_f64 45 0 \<le> f64 0.4"
    by (rule scenarioC_values(6))
  have b: "actualReduction_f64 2 4 < expectedReduction_f64 100 100 - 20"
    unfolding below_values(2,3) by simp
  have c: "classifyWeatherImpact_f64 (f64 0.9) (f64 3.8) 45 (Some 0) = noDetection"
    using a classifyWeatherImpact_table [where energyGenerated = "f64 0.9"
        and expectedGeneration = "f64 3.8" and cloudCoverage = 45 and precipitation = 0]
    by blast
  have d: "classifyWeatherImpact_f64 2 4 100 (Some 100) = noDetection"
    using b classifyWeatherImpact_table [where energyGenerated = 2 and expectedGeneration = 4
        and cloudCoverage = 100 and precipitation = 100]
    by blast
  have e: "classifyWeatherImpact_f64 (f64 0.45) 4 85 (Some 8) =
     \<lparr>anomalyDetected = True, anomalyType = Some WEATHER_RELATED, severity = Some LOW,
      confidence = Some (f64 0.8), details = Some (WeatherDetails (f64 0.9) 90 88.75 85 8 False)\<rparr>"
  proof -
    have m: "\<bar>f64 (actualReduction_f64 (f64 0.45) 4 - expectedReduction_f64 85 8)\<bar> < 20"
      unfolding scenarioB_values(4) by simp
    show ?thesis
      unfolding classifyWeatherImpact_f64_cases(2) [OF scenarioB_values(6) m]
        scenarioB_values(1,2,3)
      by (rule refl)
  qed
  have f: "classifyWeatherImpact_f64 (f64 0.2) 4 100 (Some 0) =
     \<lparr>anomalyDetected = True, anomalyType = Some WEATHER_RELATED, severity = Some MEDIUM,
      confidence = Some (f64 0.7), details = Some (WeatherDetails (f64 0.7) 70 95 100 0 True)\<rparr>"
  proof -
    have m: "\<not> \<bar>f64 (actualReduction_f64 (f64 0.2) 4 - expectedReduction_f64 100 0)\<bar> < 20"
      unfolding panel_issue_values(4) by simp
    have g: "actualReduction_f64 (f64 0.2) 4 > f64 (expectedReduction_f64 100 0 + 20)"
      unfolding panel_issue_values(5) panel_issue_values(3) by simp
    show ?thesis
      unfolding classifyWeatherImpact_f64_cases(3) [OF panel_issue_values(6) m g]
        panel_issue_values(1,2,3)
      by (rule refl)
  qed
  from a b c d e f show ?thesis by blast
qed

text \<open>Rounding decides at the tolerance. With an energy of 794 against an expected 1000
  under 58% clouds the two reductions are 20.6 and 40.6 in exact arithmetic, 20 apart, and
  nothing is detected there; the program computes 20.599999999999998 and
  40.599999999999994, less than 20 apart, and classifies the day as weather-related.\<close>

lemma classifyWeatherImpact_rounding:
  "classifyWeatherImpact_f64 794 1000 58 (Some 0) =
     \<lparr>anomalyDetected = True, anomalyType = Some WEATHER_RELATED, severity = Some LOW,
      confidence = Some (f64 0.8),
      details = Some (WeatherDetails (f64 0.40599999999999997) (f64 40.599999999999994)
                        (f64 20.599999999999998) 58 0 False)\<rparr>
   \<and> classifyWeatherImpact 794 1000 58 (Some 0) = noDetection"
proof -
  have v: "f64 19.999999999999996 = 5629499534213119 / 2 ^ 48"
    by (rule f64_scaled [where n = 48]) (simp_all add: roundEven_def)
  have m: "\<bar>f64 (actualReduction_f64 794 1000 - expectedReduction_f64 58 0)\<bar> < 20"
    unfolding rounded_match_values(4) v by simp
  have a: "classifyWeatherImpact_f64 794 1000 58 (Some 0) =
     \<lparr>anomalyDetected = True, anomalyType = Some WEATHER_RELATED, severity = Some LOW,
      confidence = Some (f64 0.8),
      details = Some (WeatherDetails (f64 0.40599999999999997) (f64 40.599999999999994)
                        (f64 20.599999999999998) 58 0 False)\<rparr>"
    unfolding classifyWeatherImpact_f64_cases(2) [OF rounded_match_values(6) m]
      rounded_match_values(1,2,3)
    by (rule refl)
  have b: "classifyWeatherImpact 794 1000 58 (Some 0) = noDetection"
    by (simp add: classifyWeatherImpact_def weatherSeverity_def expectedReduction_def
        actualReduction_def cloudImpact_def rainImpact_def Let_def)
  from a b show ?thesis by simp
qed

subsection \<open>Severity and confidence of a sensor detection\<close>

lemma foldl_max_Max:
  fixes x :: "'a::linorder"
  shows "foldl max x xs = Max (set (x # xs))"
proof -
  have "(\<lambda>a s. max s a) = (max :: 'a \<Rightarrow> 'a \<Rightarrow> 'a)"
    by (intro ext) (rule max.commute)
  then have "foldl max x xs = fold max xs x"
    by (simp add: foldl_conv_fold)
  also have "\<dots> = Max (set (x # xs))"
    by (rule Max.set_eq_fold [symmetric])
  finally show ?thesis .
qed

lemma foldl_highest_rank:
  fixes rank :: "'a \<Rightarrow> int"
  shows "rank (foldl (\<lambda>highest current. if rank current > rank highest then current else highest) x xs)
         = Max (rank ` set (x # xs))"
proof (induction xs arbitrary: x)
  case Nil
  then show ?case by simp
next
  case (Cons y ys)
  have "Max (insert (rank x) (insert (rank y) (rank ` set ys)))
        = Max (insert (max (rank x) (rank y)) (rank ` set ys))"
    by (cases "set ys = {}") (auto simp: max.assoc)
  with Cons show ?case by (auto simp: max_def)
qed

lemma reportedIssues_sensor_arg:
  "reportedIssues (detectSensorMalfunction tz e pc t a) = sensorIssues tz e pc t (readingsArg a)"
  by (simp add: detectSensorMalfunction_def Let_def reportedIssues_def sensorIssues_def
      noDetection_def readingsArg_def)

lemma detectSensorMalfunction_fired:
  assumes "sensorIssues tz e pc t (readingsArg a) \<noteq> []"
  shows "anomalyDetected (detectSensorMalfunction tz e pc t a)"
    and "anomalyType (detectSensorMalfunction tz e pc t a) = Some SENSOR_MALFUNCTION"
    and "\<exists>s. severity (detectSensorMalfunction tz e pc t a) = Some s
           \<and> indexOf severityOrder s
               = Max ((\<lambda>i. indexOf severityOrder (i_severity i)) ` set (sensorIssues tz e pc t (readingsArg a)))"
    and "confidence (detectSensorMalfunction tz e pc t a)
           = Some (Max (i_confidence ` set (sensorIssues tz e pc t (readingsArg a))))"
proof -
  define issues where "issues = sensorIssues tz e pc t (readingsArg a)"
  have ne: "issues \<noteq> []" using assms by (simp add: issues_def)
  then have split: "hd issues # tl issues = issues" by simp
  have unf: "detectSensorMalfunction tz e pc t a =
      \<lparr>anomalyDetected = True,
       anomalyType = Some SENSOR_MALFUNCTION,
       severity = Some (i_severity (foldl (\<lambda>highest current.
                          if indexOf severityOrder (i_severity current)
                               > indexOf severityOrder (i_severity highest)
                          then current else highest) (hd issues) (tl issues))),
       confidence = Some (foldl max (hd (map i_confidence issues)) (tl (map i_confidence issues))),
       details = Some (SensorDetails issues e pc (\<not> isDaytime tz t))\<rparr>"
    using ne unfolding issues_def
    by (simp add: detectSensorMalfunction_def Let_def sensorIssues_def readingsArg_def)
  show "anomalyDetected (detectSensorMalfunction tz e pc t a)" by (simp add: unf)
  show "anomalyType (detectSensorMalfunction tz e pc t a) = Some SENSOR_MALFUNCTION"
    by (simp add: unf)
  have "indexOf severityOrder (i_severity (foldl (\<lambda>highest current.
                          if indexOf severityOrder (i_severity current)
                               > indexOf severityOrder (i_severity highest)
                          then current else highest) (hd issues) (tl issues)))
        = Max ((\<lambda>i. indexOf severityOrder (i_severity i)) ` set (hd issues # tl issues))"
    by (rule foldl_highest_rank [where rank = "\<lambda>i. indexOf severityOrder (i_severity i)"])
  then show "\<exists>s. severity (detectSensorMalfunction tz e pc t a) = Some s
           \<and> indexOf severityOrder s
               = Max ((\<lambda>i. indexOf severityOrder (i_severity i)) ` set (sensorIssues tz e pc t (readingsArg a)))"
    unfolding split by (simp add: unf issues_def)
  have "foldl max (hd (map i_confidence issues)) (tl (map i_confidence issues))
        = Max (set (hd (map i_confidence issues) # tl (map i_confidence issues)))"
    by (rule foldl_max_Max)
  also have "hd (map i_confidence issues) # tl (map i_confidence issues) = map i_confidence issues"
    using ne by simp
  finally show "confidence (detectSensorMalfunction tz e pc t a)
           = Some (Max (i_confidence ` set (sensorIssues tz e pc t (readingsArg a))))"
    by (simp add: unf issues_def)
qed

lemma sensorIssues_confidence_le:
  "i \<in> set (sensorIssues tz e pc t rr) \<Longrightarrow> i_confidence i \<le> 1"
  by (auto simp: sensorIssues_def nightIssue_def capacityIssue_def stuckIssue_def
      erraticIssue_def negativeIssue_def Let_def split: if_splits)

lemma indexOf_severityOrder:
  "indexOf severityOrder LOW = 0" "indexOf severityOrder MEDIUM = 1"
  "indexOf severityOrder HIGH = 2" "indexOf severityOrder CRITICAL = 3"
  by (simp_all add: indexOf_def severityOrder_def)

lemma indexOf_severityOrder_le: "indexOf severityOrder s \<le> 3"
  by (cases s) (simp_all add: indexOf_severityOrder)

lemma indexOf_severityOrder_CRITICAL: "indexOf severityOrder s = 3 \<Longrightarrow> s = CRITICAL"
  by (cases s) (simp_all add: indexOf_severityOrder)

text \<open>Claim C7. With \<open>energyGenerated < 0\<close>, whatever the capacity, the timestamp and the
  recent readings, \<open>detectSensorMalfunction\<close> detects SENSOR_MALFUNCTION with severity
  CRITICAL and confidence 1: the negative-reading issue (CRITICAL, 1.0) is among the
  issues, the confidence of the result is the largest confidence of the issues and its
  severity has the largest index in LOW, MEDIUM, HIGH, CRITICAL among the issues.\<close>

theorem negative_reading_fires:
  assumes "energyGenerated < 0"
  shows "anomalyDetected (detectSensorMalfunction tz energyGenerated panelCapacity timestamp recentReadingsArg)
    \<and> anomalyType (detectSensorMalfunction tz energyGenerated panelCapacity timestamp recentReadingsArg)
        = Some SENSOR_MALFUNCTION
    \<and> severity (detectSensorMalfunction tz energyGenerated panelCapacity timestamp recentReadingsArg)
        = Some CRITICAL
    \<and> confidence (detectSensorMalfunction tz energyGenerated panelCapacity timestamp recentReadingsArg)
        = Some 1
    \<and> \<lparr>issue = ''Negative generation reading'', i_severity = CRITICAL, i_confidence = 1\<rparr>
        \<in> set (reportedIssues (detectSensorMalfunction tz energyGenerated panelCapacity timestamp recentReadingsArg))
    \<and> confidence (detectSensorMalfunction tz energyGenerated panelCapacity timestamp recentReadingsArg)
        = Some (Max (i_confidence `
             set (reportedIssues (detectSensorMalfunction tz energyGenerated panelCapacity timestamp recentReadingsArg))))
    \<and> (\<exists>s. severity (detectSensorMalfunction tz energyGenerated panelCapacity timestamp recentReadingsArg) = Some s
          \<and> indexOf severityOrder s = Max ((\<lambda>i. indexOf severityOrder (i_severity i)) `
             set (reportedIssues (detectSensorMalfunction tz energyGenerated panelCapacity timestamp recentReadingsArg))))"
proof -
  define r where "r = detectSensorMalfunction tz energyGenerated panelCapacity timestamp recentReadingsArg"
  define issues where "issues = sensorIssues tz energyGenerated panelCapacity timestamp (readingsArg recentReadingsArg)"
  define neg where "neg = \<lparr>issue = ''Negative generation reading'', i_severity = CRITICAL, i_confidence = 1\<rparr>"
  have rep: "reportedIssues r = issues"
    by (simp add: r_def issues_def reportedIssues_sensor_arg)
  have mem: "neg \<in> set issues"
    using assms by (simp add: issues_def neg_def sensorIssues_def negativeIssue_def)
  then have ne: "issues \<noteq> []" by auto
  note fired = detectSensorMalfunction_fired [OF ne [unfolded issues_def], folded issues_def r_def]
  have conf: "Max (i_confidence ` set issues) = 1"
  proof (rule Max_eqI)
    show "finite (i_confidence ` set issues)" by simp
    show "y \<le> 1" if "y \<in> i_confidence ` set issues" for y
      using that sensorIssues_confidence_le unfolding issues_def by auto
    show "1 \<in> i_confidence ` set issues"
      using mem by (force simp: neg_def)
  qed
  have rank: "Max ((\<lambda>i. indexOf severityOrder (i_severity i)) ` set issues) = 3"
  proof (rule Max_eqI)
    show "finite ((\<lambda>i. indexOf severityOrder (i_severity i)) ` set issues)" by simp
    show "y \<le> 3" if "y \<in> (\<lambda>i. indexOf severityOrder (i_severity i)) ` set issues" for y
      using that indexOf_severityOrder_le by auto
    show "3 \<in> (\<lambda>i. indexOf severityOrder (i_severity i)) ` set issues"
      using mem by (force simp: neg_def indexOf_severityOrder)
  qed
  from fired(3) rank have sev: "severity r = Some CRITICAL"
    using indexOf_severityOrder_CRITICAL by auto
  have "anomalyDetected r" by (rule fired(1))
  moreover have "anomalyType r = Some SENSOR_MALFUNCTION" by (rule fired(2))
  moreover note sev
  moreover have "confidence r = Some 1" using fired(4) conf by simp
  moreover have "neg \<in> set (reportedIssues r)" using mem rep by simp
  moreover have "confidence r = Some (Max (i_confidence ` set (reportedIssues r)))"
    using fired(4) rep by simp
  moreover have "\<exists>s. severity r = Some s \<and> indexOf severityOrder s
      = Max ((\<lambda>i. indexOf severityOrder (i_severity i)) ` set (reportedIssues r))"
    using fired(3) rep by simp
  ultimately show ?thesis unfolding r_def neg_def by blast
qed

theorem negative_reading_fires_witness:
  "(- 1 :: real) < 0
   \<and> anomalyDetected (detectSensorMalfunction 0 (- 1) 5 50400000 (Some []))
   \<and> severity (detectSensorMalfunction 0 (- 1) 5 50400000 (Some [])) = Some CRITICAL
   \<and> confidence (detectSensorMalfunction 0 (- 1) 5 50400000 (Some [])) = Some 1"
  using negative_reading_fires [where energyGenerated = "- 1" and tz = 0 and panelCapacity = 5
      and timestamp = 50400000 and recentReadingsArg = "Some []"]
  by simp

text \<open>With exactly six readings the first entry is one of the last six, and the check is
  the one of claim C4.\<close>

lemma stuckIssue_six:
  assumes "length recentReadings = 6"
  shows "stuckIssue recentReadings \<noteq> [] \<longleftrightarrow>
           (\<exists>v. v \<noteq> 0 \<and> set (sliceLast 6 recentReadings) = {v})"
proof -
  have sl: "sliceLast 6 recentReadings = recentReadings"
    using assms by (simp add: sliceLast_def)
  have ne: "recentReadings \<noteq> []" using assms by auto
  then have hd_in: "recentReadings ! 0 \<in> set recentReadings"
    by (simp add: hd_conv_nth [symmetric])
  have uniq: "length (remdups recentReadings) = 1 \<longleftrightarrow> (\<exists>v. set recentReadings = {v})"
    by (simp add: length_remdups_card_conv card_1_singleton_iff)
  have key: "stuckIssue recentReadings \<noteq> [] \<longleftrightarrow>
      length (remdups recentReadings) = 1 \<and> recentReadings ! 0 \<noteq> 0"
    using assms by (simp add: stuckIssue_def sl Let_def)
  have "(length (remdups recentReadings) = 1 \<and> recentReadings ! 0 \<noteq> 0) \<longleftrightarrow>
      (\<exists>v. v \<noteq> 0 \<and> set recentReadings = {v})"
    unfolding uniq using hd_in by (metis singletonD)
  with key show ?thesis by (simp add: sl)
qed

text \<open>Claim C4 fails on the code for more than six readings. The value compared with zero
  is the first entry of the whole array, not the common value of the last six: with the
  readings 0, 5, 5, 5, 5, 5, 5 the last six are all 5 and no stuck-sensor issue is
  reported (at noon, with a reading of 1 kWh on a 5 kW panel, nothing is detected at all);
  with 3, 0, 0, 0, 0, 0, 0 the last six are all zero and the issue is reported.\<close>

theorem stuck_sensor_first_entry:
  "length [0, 5, 5, 5, 5, 5, 5 :: real] \<ge> 6
   \<and> set (sliceLast 6 [0, 5, 5, 5, 5, 5, 5 :: real]) = {5}
   \<and> \<lparr>issue = ''Sensor reading stuck at same value'', i_severity = HIGH, i_confidence = 0.9\<rparr>
        \<notin> set (reportedIssues (detectSensorMalfunction tz energyGenerated panelCapacity timestamp
                   (Some [0, 5, 5, 5, 5, 5, 5])))
   \<and> detectSensorMalfunction 0 1 5 50400000 (Some [0, 5, 5, 5, 5, 5, 5]) = noDetection
   \<and> length [3, 0, 0, 0, 0, 0, 0 :: real] \<ge> 6
   \<and> set (sliceLast 6 [3, 0, 0, 0, 0, 0, 0 :: real]) = {0}
   \<and> \<lparr>issue = ''Sensor reading stuck at same value'', i_severity = HIGH, i_confidence = 0.9\<rparr>
        \<in> set (reportedIssues (detectSensorMalfunction tz energyGenerated panelCapacity timestamp
                   (Some [3, 0, 0, 0, 0, 0, 0])))"
proof -
  have s1: "stuckIssue [0, 5, 5, 5, 5, 5, 5] = []"
    by (simp add: stuckIssue_def)
  have e1: "erraticIssue [0, 5, 5, 5, 5, 5, 5] = []"
    by (simp add: erraticIssue_def sliceLast_def Let_def)
  have s2: "stuckIssue [3, 0, 0, 0, 0, 0, 0] =
      [\<lparr>issue = ''Sensor reading stuck at same value'', i_severity = HIGH, i_confidence = 0.9\<rparr>]"
    by (simp add: stuckIssue_def sliceLast_def Let_def)
  have a: "set (sliceLast 6 [0, 5, 5, 5, 5, 5, 5 :: real]) = {5}"
    by (simp add: sliceLast_def)
  have b: "set (sliceLast 6 [3, 0, 0, 0, 0, 0, 0 :: real]) = {0}"
    by (simp add: sliceLast_def)
  have c: "\<lparr>issue = ''Sensor reading stuck at same value'', i_severity = HIGH, i_confidence = 0.9\<rparr>
        \<notin> set (reportedIssues (detectSensorMalfunction tz energyGenerated panelCapacity timestamp
                   (Some [0, 5, 5, 5, 5, 5, 5])))"
    by (simp add: reportedIssues_sensor sensorIssues_def s1 e1 nightIssue_def capacityIssue_def
        negativeIssue_def)
  have d: "detectSensorMalfunction 0 1 5 50400000 (Some [0, 5, 5, 5, 5, 5, 5]) = noDetection"
    by (simp add: detectSensorMalfunction_def s1 e1 nightIssue_def capacityIssue_def
        negativeIssue_def isDaytime_window msPerDay_def)
  have e: "\<lparr>issue = ''Sensor reading stuck at same value'', i_severity = HIGH, i_confidence = 0.9\<rparr>
        \<in> set (reportedIssues (detectSensorMalfunction tz energyGenerated panelCapacity timestamp
                   (Some [3, 0, 0, 0, 0, 0, 0])))"
    by (simp add: reportedIssues_sensor sensorIssues_def s2)
  from a b c d e show ?thesis by simp
qed

subsection \<open>The calendar day of the deduplication\<close>

lemma div_eq_iff_bounds:
  fixes y q D :: int
  assumes "0 < D"
  shows "y div D = q \<longleftrightarrow> q * D \<le> y \<and> y < (q + 1) * D"
proof
  assume "y div D = q"
  then have "y = D * q + y mod D" by (metis mult_div_mod_eq)
  moreover have "0 \<le> y mod D" "y mod D < D" using assms by simp_all
  ultimately show "q * D \<le> y \<and> y < (q + 1) * D" by (simp add: algebra_simps)
next
  assume b: "q * D \<le> y \<and> y < (q + 1) * D"
  have "y = D * q + (y - D * q)" by simp
  moreover have "0 \<le> y - D * q" "y - D * q < D" using b by (simp_all add: algebra_simps)
  ultimately show "y div D = q" by (rule int_div_pos_eq)
qed

text \<open>The window \<open>startOfDay\<close> to \<open>endOfDay\<close> of \<open>createAnomalyIfNotExists\<close> holds exactly
  the instants of one local calendar day, the one of midnight UTC of the bucket's date.\<close>

lemma day_window:
  "setHours tz (newDate date) 0 0 0 0 \<le> x \<and> x \<le> setHours tz (newDate date) 23 59 59 999
   \<longleftrightarrow> localDay tz x = localDay tz (newDate date)"
proof -
  define q where "q = (newDate date + tz) div msPerDay"
  have pos: "0 < msPerDay" by (simp add: msPerDay_def)
  have a: "localDay tz x = q \<longleftrightarrow> q * msPerDay \<le> x + tz \<and> x + tz < (q + 1) * msPerDay"
    unfolding localDay_def by (rule div_eq_iff_bounds [OF pos])
  have b: "setHours tz (newDate date) 0 0 0 0 = q * msPerDay - tz"
    by (simp add: setHours_def localMidnight_def q_def)
  have c: "setHours tz (newDate date) 23 59 59 999 = q * msPerDay - tz + (msPerDay - 1)"
    by (simp add: setHours_def localMidnight_def q_def msPerDay_def)
  have d: "localDay tz (newDate date) = q"
    by (simp add: localDay_def q_def)
  show ?thesis unfolding a b c d by (auto simp: algebra_simps)
qed

lemma localDay_startOfDay:
  "localDay tz (setHours tz (newDate date) 0 0 0 0) = localDay tz (newDate date)"
proof -
  have "setHours tz (newDate date) 0 0 0 0 \<le> setHours tz (newDate date) 23 59 59 999"
    by (simp add: setHours_def)
  then show ?thesis using day_window [of tz date "setHours tz (newDate date) 0 0 0 0"] by simp
qed

subsection \<open>Effect of the persistence step and of the loops\<close>

lemma dbOp_snd [simp]: "snd (dbOp env r s) = s\<lparr>opCount := opCount s + 1\<rparr>"
  by (simp add: dbOp_def)

lemma createAnomalyIfNotExists_effect:
  fixes env solarUnitId detection date s
  defines "s' \<equiv> snd (createAnomalyIfNotExists env solarUnitId detection date s)"
  shows "calls s' = calls s"
    and "errorLog s' = errorLog s"
    and "anomalies s' = anomalies s
         \<or> (\<exists>a. anomalies s' = anomalies s @ [a]
                \<and> a_solarUnitId a = solarUnitId
                \<and> Some (a_anomalyType a) = anomalyType detection
                \<and> Some (a_severity a) = severity detection
                \<and> Some (a_confidence a) = confidence detection
                \<and> a_status a = ACTIVE
                \<and> a_affectedPeriod a =
                     \<lparr>p_start = setHours (e_tz env) (newDate date) 0 0 0 0,
                      p_end = setHours (e_tz env) (newDate date) 23 59 59 999\<rparr>
                \<and> dedupKey (e_tz env) a \<notin> dedupKey (e_tz env) ` set (anomalies s))"
proof -
  show "calls s' = calls s"
    unfolding s'_def createAnomalyIfNotExists_def anomalyFindOne_def anomalySave_def dbOp_def Let_def
    by (simp split: option.splits)
  show "errorLog s' = errorLog s"
    unfolding s'_def createAnomalyIfNotExists_def anomalyFindOne_def anomalySave_def dbOp_def Let_def
    by (simp split: option.splits)
  show "anomalies s' = anomalies s
         \<or> (\<exists>a. anomalies s' = anomalies s @ [a]
                \<and> a_solarUnitId a = solarUnitId
                \<and> Some (a_anomalyType a) = anomalyType detection
                \<and> Some (a_severity a) = severity detection
                \<and> Some (a_confidence a) = confidence detection
                \<and> a_status a = ACTIVE
                \<and> a_affectedPeriod a =
                     \<lparr>p_start = setHours (e_tz env) (newDate date) 0 0 0 0,
                      p_end = setHours (e_tz env) (newDate date) 23 59 59 999\<rparr>
                \<and> dedupKey (e_tz env) a \<notin> dedupKey (e_tz env) ` set (anomalies s))"
    unfolding s'_def createAnomalyIfNotExists_def anomalyFindOne_def anomalySave_def dbOp_def Let_def
    by (auto split: option.splits simp: find_None_iff dedupKey_def day_window localDay_startOfDay)
qed

lemma forEach_preserves:
  assumes "\<And>x s. x \<in> set xs \<Longrightarrow> P s \<Longrightarrow> P (snd (body x s))" and "P s"
  shows "P (snd (forEach body xs s))"
  using assms
proof (induction xs arbitrary: s)
  case Nil
  then show ?case by simp
next
  case (Cons x xs)
  have step: "P (snd (body x s))" using Cons.prems by simp
  show ?case
  proof (cases "body x s")
    case (Pair r s')
    with step have P': "P s'" by simp
    show ?thesis
    proof (cases r)
      case (Inl e)
      with Pair P' show ?thesis by simp
    next
      case (Inr u)
      have "P (snd (forEach body xs s'))"
        using Cons.IH [of s'] Cons.prems(1) P' by simp
      with Pair Inr show ?thesis by simp
    qed
  qed
qed

lemma forEach_append:
  "forEach body (xs @ ys) s =
     (case forEach body xs s of (Inl e, s') \<Rightarrow> (Inl e, s') | (Inr u, s') \<Rightarrow> forEach body ys s')"
  by (induction xs arbitrary: s) (auto split: prod.splits sum.splits)

lemma noteCall_fields [simp]:
  "anomalies (noteCall u d det s) = anomalies s"
  "errorLog (noteCall u d det s) = errorLog s"
  "opCount (noteCall u d det s) = opCount s"
  "calls (noteCall u d det s) = calls s @ [(u, d, det)]"
  by (simp_all add: noteCall_def)

lemma processBucket_sensor:
  assumes "anomalyDetected (detectSensorMalfunction (e_tz env) (d_total dayData)
             (capacityOrDefault solarUnit) (newDate date) (Some recentReadings))"
  shows "processBucket env solarUnit historicalAverage recentReadings (date, dayData) s =
           createAnomalyIfNotExists env (u_id solarUnit)
             (detectSensorMalfunction (e_tz env) (d_total dayData)
                (capacityOrDefault solarUnit) (newDate date) (Some recentReadings))
             date (noteCall (u_id solarUnit) date SensorIntegrity s)"
  using assms by (simp add: processBucket_def Let_def)

lemma processBucket_anomalies:
  assumes step: "\<And>detection s. Q (anomalies s) \<Longrightarrow>
            Q (anomalies (snd (createAnomalyIfNotExists env (u_id solarUnit) detection (fst entry) s)))"
    and "Q (anomalies s)"
  shows "Q (anomalies (snd (processBucket env solarUnit historicalAverage recentReadings entry s)))"
proof -
  obtain date dayData where entry: "entry = (date, dayData)" by (cases entry)
  have loop: "Q (anomalies (snd (forEach
        (\<lambda>detection. createAnomalyIfNotExists env (u_id solarUnit) detection date) ds s0)))"
    if "Q (anomalies s0)" for ds s0
    by (rule forEach_preserves [where P = "\<lambda>s. Q (anomalies s)"])
       (use step that entry in auto)
  show ?thesis
    unfolding entry processBucket_def Let_def prod.case
    using step [unfolded entry] assms(2) by (auto intro!: loop simp del: forEach.simps)
qed

lemma processUnit_anomalies:
  assumes step: "\<And>detection date s. Q (anomalies s) \<Longrightarrow>
            Q (anomalies (snd (createAnomalyIfNotExists env (u_id solarUnit) detection date s)))"
    and "Q (anomalies s)"
  shows "Q (anomalies (snd (processUnit env solarUnit s)))"
proof -
  have loop: "Q (anomalies (snd (forEach (processBucket env solarUnit h rr) bs s0)))"
    if "Q (anomalies s0)" for h rr bs s0
    by (rule forEach_preserves [where P = "\<lambda>s. Q (anomalies s)"])
       (use step that in \<open>auto intro: processBucket_anomalies\<close>)
  show ?thesis
    unfolding processUnit_def Let_def dbOp_def
    using assms(2) by (auto intro!: loop simp del: forEach.simps)
qed

lemma runAnomalyDetection_anomalies:
  assumes step: "\<And>solarUnitId detection date s. Q (anomalies s) \<Longrightarrow>
            Q (anomalies (snd (createAnomalyIfNotExists env solarUnitId detection date s)))"
    and "Q (anomalies s)"
  shows "Q (anomalies (snd (runAnomalyDetection env s)))"
proof -
  have loop: "Q (anomalies (snd (forEach (processUnit env) us s0)))"
    if "Q (anomalies s0)" for us s0
    by (rule forEach_preserves [where P = "\<lambda>s. Q (anomalies s)"])
       (use step that in \<open>auto intro: processUnit_anomalies\<close>)
  have inner: "Q (anomalies (snd (case dbOp env (e_activeUnits env) s of
              (Inl e, s1) \<Rightarrow> (Inl e, s1)
            | (Inr solarUnits, s1) \<Rightarrow> forEach (processUnit env) solarUnits s1)))"
    unfolding dbOp_def using assms(2) by (auto intro!: loop simp del: forEach.simps)
  then show ?thesis
    unfolding runAnomalyDetection_def by (auto split: prod.splits sum.splits)
qed

subsection \<open>The example fleet, run\<close>

lemmas example_defs =
  exUnit1_def exUnit2_def exRecords_def exEnv_def exStore_def exAnomaly1_def exAnomaly2_def

lemmas run_defs =
  runAnomalyDetection_def processUnit_def processBucket_def createAnomalyIfNotExists_def
  anomalyFindOne_def anomalySave_def dbOp_def noteCall_def addRecord_def withAverages_def
  cloudOrDefault_def precipOrDefault_def capacityOrDefault_def mathRound_def isoDate_def
  newDate_def msPerDay_def setHours_def localMidnight_def isDaytime_def getSunTimes_def
  detectSensorMalfunction_def nightIssue_def capacityIssue_def stuckIssue_def erraticIssue_def
  negativeIssue_def indexOf_def severityOrder_def detectCompleteFailure_def
  classifyWeatherImpact_def detectPanelDegradation_def weatherSeverity_def cloudImpact_def
  rainImpact_def expectedReduction_def actualReduction_def noDetection_def Let_def

lemma exEnv_tz: "e_tz (exEnv tz fails) = tz"
  by (simp add: exEnv_def)

lemma example_run:
  "runAnomalyDetection (exEnv 0 (\<lambda>n. False)) exStore =
     (Inr (), \<lparr>anomalies = [exAnomaly1, exAnomaly2], opCount = 9, errorLog = [],
               calls = [(1, 1, SensorIntegrity), (2, 1, SensorIntegrity)]\<rparr>)"
  by (simp add: example_defs run_defs)

lemma example_rerun:
  "runAnomalyDetection (exEnv 0 (\<lambda>n. False))
     \<lparr>anomalies = [exAnomaly1, exAnomaly2], opCount = 9, errorLog = [],
      calls = [(1, 1, SensorIntegrity), (2, 1, SensorIntegrity)]\<rparr> =
     (Inr (), \<lparr>anomalies = [exAnomaly1, exAnomaly2], opCount = 16, errorLog = [],
               calls = [(1, 1, SensorIntegrity), (2, 1, SensorIntegrity),
                        (1, 1, SensorIntegrity), (2, 1, SensorIntegrity)]\<rparr>)"
  by (simp add: example_defs run_defs)

lemma example_run_failing:
  "runAnomalyDetection (exEnv 0 (\<lambda>n. n = 1)) exStore =
     (Inl DbError, \<lparr>anomalies = [], opCount = 2, errorLog = [DbError], calls = []\<rparr>)"
  by (simp add: example_defs run_defs)

lemma example_run_daytime:
  "runAnomalyDetection (exEnv 43200000 (\<lambda>n. False)) exStore =
     (Inr (), \<lparr>anomalies = [exAnomaly2\<lparr>a_affectedPeriod := \<lparr>p_start = 43200000, p_end = 129599999\<rparr>,
                     a_details := Some (SensorDetails
        [\<lparr>issue = ''Negative generation reading'', i_severity = CRITICAL, i_confidence = 1\<rparr>]
        (- 1) 5 False)\<rparr>], opCount = 7, errorLog = [],
               calls = [(1, 1, SensorIntegrity), (1, 1, CompleteFailure), (1, 1, WeatherImpact),
                        (2, 1, SensorIntegrity)]\<rparr>)"
  by (simp add: example_defs run_defs)

subsection \<open>Precedence of the sensor check\<close>

text \<open>Without a sensor detection the orchestrator goes on to the complete-failure and the
  weather detector.\<close>

lemma processBucket_no_sensor_calls:
  assumes "\<not> anomalyDetected (detectSensorMalfunction (e_tz env) (d_total dayData)
             (capacityOrDefault solarUnit) (newDate date) (Some recentReadings))"
  shows "take (length (calls s) + 3)
           (calls (snd (processBucket env solarUnit historicalAverage recentReadings (date, dayData) s)))
         = calls s @ [(u_id solarUnit, date, SensorIntegrity), (u_id solarUnit, date, CompleteFailure),
                      (u_id solarUnit, date, WeatherImpact)]"
proof -
  have loop: "calls (snd (forEach
        (\<lambda>detection. createAnomalyIfNotExists env (u_id solarUnit) detection date) ds s0)) = calls s0"
    for ds s0
    by (rule forEach_preserves [where P = "\<lambda>s. calls s = calls s0"])
       (simp_all add: createAnomalyIfNotExists_effect(1))
  show ?thesis
    unfolding processBucket_def Let_def prod.case
    using assms by (simp add: loop del: forEach.simps)
qed

lemma processBucket_sensor_effect:
  assumes "anomalyDetected (detectSensorMalfunction (e_tz env) (d_total dayData)
             (capacityOrDefault solarUnit) (newDate date) (Some recentReadings))"
  shows "processBucket env solarUnit historicalAverage recentReadings (date, dayData) s =
           createAnomalyIfNotExists env (u_id solarUnit)
             (detectSensorMalfunction (e_tz env) (d_total dayData)
                (capacityOrDefault solarUnit) (newDate date) (Some recentReadings))
             date (noteCall (u_id solarUnit) date SensorIntegrity s)
    \<and> calls (snd (processBucket env solarUnit historicalAverage recentReadings (date, dayData) s))
        = calls s @ [(u_id solarUnit, date, SensorIntegrity)]
    \<and> (anomalies (snd (processBucket env solarUnit historicalAverage recentReadings (date, dayData) s))
          = anomalies s
        \<or> (\<exists>a. anomalies (snd (processBucket env solarUnit historicalAverage recentReadings
                                (date, dayData) s)) = anomalies s @ [a]
               \<and> a_solarUnitId a = u_id solarUnit
               \<and> a_anomalyType a = SENSOR_MALFUNCTION
               \<and> a_affectedPeriod a =
                     \<lparr>p_start = setHours (e_tz env) (newDate date) 0 0 0 0,
                      p_end = setHours (e_tz env) (newDate date) 23 59 59 999\<rparr>))"
proof -
  define sensorCheck where "sensorCheck = detectSensorMalfunction (e_tz env) (d_total dayData)
                (capacityOrDefault solarUnit) (newDate date) (Some recentReadings)"
  define s1 where "s1 = noteCall (u_id solarUnit) date SensorIntegrity s"
  have ty: "anomalyType sensorCheck = Some SENSOR_MALFUNCTION"
    using assms unfolding sensorCheck_def
    by (simp add: detectSensorMalfunction_def Let_def noDetection_def split: if_splits)
  have eq: "processBucket env solarUnit historicalAverage recentReadings (date, dayData) s =
           createAnomalyIfNotExists env (u_id solarUnit) sensorCheck date s1"
    unfolding sensorCheck_def s1_def by (rule processBucket_sensor [OF assms])
  have c: "calls (snd (createAnomalyIfNotExists env (u_id solarUnit) sensorCheck date s1))
        = calls s @ [(u_id solarUnit, date, SensorIntegrity)]"
    by (simp add: createAnomalyIfNotExists_effect(1) s1_def)
  have a: "anomalies (snd (createAnomalyIfNotExists env (u_id solarUnit) sensorCheck date s1))
          = anomalies s
        \<or> (\<exists>a. anomalies (snd (createAnomalyIfNotExists env (u_id solarUnit) sensorCheck date s1))
                 = anomalies s @ [a]
               \<and> a_solarUnitId a = u_id solarUnit
               \<and> a_anomalyType a = SENSOR_MALFUNCTION
               \<and> a_affectedPeriod a =
                     \<lparr>p_start = setHours (e_tz env) (newDate date) 0 0 0 0,
                      p_end = setHours (e_tz env) (newDate date) 23 59 59 999\<rparr>)"
    using createAnomalyIfNotExists_effect(3) [of env "u_id solarUnit" sensorCheck date s1] ty
    by (auto simp: s1_def)
  from eq c a show ?thesis unfolding sensorCheck_def s1_def by simp
qed

subsection \<open>What a run adds to the store and to the trace\<close>

text \<open>Every record a run adds, and every detector call it makes, comes from one bucket of
  one active unit.\<close>

lemma addedBy_same: "field s' = field s \<Longrightarrow> addedBy field s s' ok"
  by (simp add: addedBy_def)

lemma addedBy_trans:
  "addedBy field s s1 ok \<Longrightarrow> addedBy field s1 s2 ok \<Longrightarrow> addedBy field s s2 ok"
  by (auto simp: addedBy_def)

lemma addedBy_mono:
  "addedBy field s s' ok \<Longrightarrow> (\<And>a. ok a \<Longrightarrow> ok' a) \<Longrightarrow> addedBy field s s' ok'"
  by (auto simp: addedBy_def)

lemma addedBy_start:
  "field s1 = field s \<Longrightarrow> addedBy field s1 s' ok \<Longrightarrow> addedBy field s s' ok"
  by (simp add: addedBy_def)

lemma forEach_addedBy:
  assumes "\<And>x s. x \<in> set xs \<Longrightarrow> addedBy field s (snd (body x s)) ok"
  shows "addedBy field s (snd (forEach body xs s)) ok"
  by (rule forEach_preserves [where P = "\<lambda>s'. addedBy field s s' ok"])
     (use assms addedBy_trans in \<open>blast, simp add: addedBy_def\<close>)

lemma createAnomalyIfNotExists_addedBy:
  "addedBy anomalies s (snd (createAnomalyIfNotExists env solarUnitId detection date s))
     (\<lambda>a. a_solarUnitId a = solarUnitId \<and> a_affectedPeriod a = dayPeriod (e_tz env) date
          \<and> Some (a_anomalyType a) = anomalyType detection)"
  using createAnomalyIfNotExists_effect(3) [of env solarUnitId detection date s]
  by (auto simp: addedBy_def dayPeriod_def)

lemma createAnomalyIfNotExists_calls:
  "addedBy calls s (snd (createAnomalyIfNotExists env solarUnitId detection date s)) ok"
  by (rule addedBy_same) (rule createAnomalyIfNotExists_effect(1))

lemma persist_addedBy:
  assumes "anomalies s4 = anomalies s"
    and "\<And>a. a_solarUnitId a = solarUnitId \<Longrightarrow> a_affectedPeriod a = dayPeriod (e_tz env) date \<Longrightarrow> ok a"
  shows "addedBy anomalies s
           (snd (forEach (\<lambda>detection. createAnomalyIfNotExists env solarUnitId detection date) ds s4)) ok"
proof -
  have "addedBy anomalies s4
           (snd (forEach (\<lambda>detection. createAnomalyIfNotExists env solarUnitId detection date) ds s4)) ok"
    by (rule forEach_addedBy, rule addedBy_mono [OF createAnomalyIfNotExists_addedBy])
       (use assms(2) in auto)
  then show ?thesis by (rule addedBy_start [OF assms(1)])
qed

lemma persist_calls:
  "calls (snd (forEach (\<lambda>detection. createAnomalyIfNotExists env solarUnitId detection date) ds s4))
     = calls s4"
  by (rule forEach_preserves [where P = "\<lambda>s. calls s = calls s4"])
     (simp_all add: createAnomalyIfNotExists_effect(1))

lemma processBucket_addedBy:
  "addedBy anomalies s
     (snd (processBucket env solarUnit historicalAverage recentReadings (date, dayData) s))
     (\<lambda>a. a_solarUnitId a = u_id solarUnit \<and> a_affectedPeriod a = dayPeriod (e_tz env) date
          \<and> (anomalyDetected (detectSensorMalfunction (e_tz env) (d_total dayData)
                (capacityOrDefault solarUnit) (newDate date) (Some recentReadings))
               \<longrightarrow> a_anomalyType a = SENSOR_MALFUNCTION))"
    (is "addedBy anomalies s ?s' ?ok")
proof (cases "anomalyDetected (detectSensorMalfunction (e_tz env) (d_total dayData)
                (capacityOrDefault solarUnit) (newDate date) (Some recentReadings))")
  case True
  define sensorCheck where "sensorCheck = detectSensorMalfunction (e_tz env) (d_total dayData)
                (capacityOrDefault solarUnit) (newDate date) (Some recentReadings)"
  have ty: "anomalyType sensorCheck = Some SENSOR_MALFUNCTION"
    using True unfolding sensorCheck_def
    by (simp add: detectSensorMalfunction_def Let_def noDetection_def split: if_splits)
  have eq: "?s' = snd (createAnomalyIfNotExists env (u_id solarUnit) sensorCheck date
                    (noteCall (u_id solarUnit) date SensorIntegrity s))"
    using processBucket_sensor [OF True] by (simp add: sensorCheck_def)
  have "addedBy anomalies (noteCall (u_id solarUnit) date SensorIntegrity s) ?s' ?ok"
    unfolding eq
    by (rule addedBy_mono [OF createAnomalyIfNotExists_addedBy]) (use ty in auto)
  then show ?thesis
    by (rule addedBy_start [rotated]) simp
next
  case False
  then show ?thesis
    unfolding processBucket_def Let_def prod.case
    by (auto simp del: forEach.simps intro!: persist_addedBy)
qed

lemma processBucket_calls_addedBy:
  "addedBy calls s
     (snd (processBucket env solarUnit historicalAverage recentReadings (date, dayData) s))
     (\<lambda>c. fst c = u_id solarUnit \<and> fst (snd c) = date
          \<and> (anomalyDetected (detectSensorMalfunction (e_tz env) (d_total dayData)
                (capacityOrDefault solarUnit) (newDate date) (Some recentReadings))
               \<longrightarrow> snd (snd c) = SensorIntegrity))"
proof (cases "anomalyDetected (detectSensorMalfunction (e_tz env) (d_total dayData)
                (capacityOrDefault solarUnit) (newDate date) (Some recentReadings))")
  case True
  show ?thesis
    unfolding processBucket_sensor [OF True]
    by (simp add: addedBy_def createAnomalyIfNotExists_effect(1))
next
  case False
  then show ?thesis
    unfolding processBucket_def Let_def prod.case
    by (auto simp del: forEach.simps simp add: persist_calls addedBy_def)
qed

lemma processBucket_fromBucket:
  "addedBy anomalies s (snd (processBucket env solarUnit historicalAverage recentReadings entry s))
     (fromBucket env solarUnit recentReadings entry)"
  using processBucket_addedBy [of s env solarUnit historicalAverage recentReadings "fst entry" "snd entry"]
  by (simp add: fromBucket_def [abs_def])

lemma processBucket_calledFor:
  "addedBy calls s (snd (processBucket env solarUnit historicalAverage recentReadings entry s))
     (calledFor env solarUnit recentReadings entry)"
  using processBucket_calls_addedBy [of s env solarUnit historicalAverage recentReadings "fst entry" "snd entry"]
  by (simp add: calledFor_def [abs_def])

lemma buckets_addedBy:
  assumes "field s2 = field s"
    and "\<And>entry s. addedBy field s (snd (processBucket env solarUnit h rr entry s)) (ok entry)"
  shows "addedBy field s (snd (forEach (processBucket env solarUnit h rr) bs s2))
           (\<lambda>a. \<exists>entry \<in> set bs. ok entry a)"
proof -
  have "addedBy field s2 (snd (forEach (processBucket env solarUnit h rr) bs s2))
           (\<lambda>a. \<exists>entry \<in> set bs. ok entry a)"
  proof (rule forEach_addedBy)
    fix x s0
    assume "x \<in> set bs"
    then show "addedBy field s0 (snd (processBucket env solarUnit h rr x s0))
           (\<lambda>a. \<exists>entry \<in> set bs. ok entry a)"
      by (intro addedBy_mono [OF assms(2) [of s0 x]]) auto
  qed
  then show ?thesis by (rule addedBy_start [OF assms(1)])
qed

text \<open>A unit is left after a failed query or without readings, or its buckets
  \<open>unitBuckets\<close> are processed in order with its readings \<open>unitReadings\<close>.\<close>

lemma processUnit_shape:
  "snd (processUnit env solarUnit s) = s\<lparr>opCount := opCount s + 1\<rparr>
   \<or> snd (processUnit env solarUnit s) = s\<lparr>opCount := opCount s + 2\<rparr>
   \<or> (\<exists>h. processUnit env solarUnit s =
            forEach (processBucket env solarUnit h (unitReadings env solarUnit))
              (unitBuckets env solarUnit) (s\<lparr>opCount := opCount s + 2\<rparr>))"
  unfolding processUnit_def Let_def dbOp_def unitBuckets_def unitReadings_def
  by (auto simp del: forEach.simps)

lemma processUnit_addedBy:
  assumes f1: "\<And>s0 n. field (s0\<lparr>opCount := n\<rparr>) = field s0"
    and "\<And>entry s h. addedBy field s
            (snd (processBucket env solarUnit h (unitReadings env solarUnit) entry s)) (ok entry)"
  shows "addedBy field s (snd (processUnit env solarUnit s))
           (\<lambda>a. \<exists>entry \<in> set (unitBuckets env solarUnit). ok entry a)"
  using processUnit_shape [of env solarUnit s]
proof (elim disjE exE)
  assume "snd (processUnit env solarUnit s) = s\<lparr>opCount := opCount s + 1\<rparr>"
  then show ?thesis by (intro addedBy_same) (simp add: f1)
next
  assume "snd (processUnit env solarUnit s) = s\<lparr>opCount := opCount s + 2\<rparr>"
  then show ?thesis by (intro addedBy_same) (simp add: f1)
next
  fix h
  assume eq: "processUnit env solarUnit s =
            forEach (processBucket env solarUnit h (unitReadings env solarUnit))
              (unitBuckets env solarUnit) (s\<lparr>opCount := opCount s + 2\<rparr>)"
  show ?thesis
    unfolding eq by (rule buckets_addedBy [OF f1 assms(2)])
qed

lemma runAnomalyDetection_addedBy:
  assumes f1: "\<And>s0 n. field (s0\<lparr>opCount := n\<rparr>) = field s0"
    and f2: "\<And>s0 l. field (s0\<lparr>errorLog := l\<rparr>) = field s0"
    and step: "\<And>solarUnit entry s h. addedBy field s
            (snd (processBucket env solarUnit h (unitReadings env solarUnit) entry s))
            (ok solarUnit entry)"
  shows "addedBy field s (snd (runAnomalyDetection env s))
           (\<lambda>a. \<exists>solarUnit \<in> set (e_activeUnits env).
                  \<exists>entry \<in> set (unitBuckets env solarUnit). ok solarUnit entry a)"
proof -
  have loop: "addedBy field s0 (snd (forEach (processUnit env) us s0))
           (\<lambda>a. \<exists>solarUnit \<in> set us.
                  \<exists>entry \<in> set (unitBuckets env solarUnit). ok solarUnit entry a)" for us s0
  proof (rule forEach_addedBy)
    fix x s1
    assume "x \<in> set us"
    then show "addedBy field s1 (snd (processUnit env x s1))
           (\<lambda>a. \<exists>solarUnit \<in> set us.
                  \<exists>entry \<in> set (unitBuckets env solarUnit). ok solarUnit entry a)"
      by (intro addedBy_mono [OF processUnit_addedBy [where field = field and ok = "ok x", OF f1 step]])
         auto
  qed
  have inner: "addedBy field s (snd (case dbOp env (e_activeUnits env) s of
              (Inl e, s1) \<Rightarrow> (Inl e, s1)
            | (Inr solarUnits, s1) \<Rightarrow> forEach (processUnit env) solarUnits s1))
          (\<lambda>a. \<exists>solarUnit \<in> set (e_activeUnits env).
                  \<exists>entry \<in> set (unitBuckets env solarUnit). ok solarUnit entry a)"
    unfolding dbOp_def
    by (auto simp del: forEach.simps simp add: f1 intro!: addedBy_same addedBy_start [OF _ loop])
  have "field (snd (runAnomalyDetection env s)) = field (snd (case dbOp env (e_activeUnits env) s of
              (Inl e, s1) \<Rightarrow> (Inl e, s1)
            | (Inr solarUnits, s1) \<Rightarrow> forEach (processUnit env) solarUnits s1))"
    unfolding runAnomalyDetection_def by (auto split: prod.splits sum.splits simp: f2)
  with inner show ?thesis by (simp add: addedBy_def)
qed

text \<open>The dates of the buckets of a unit are distinct, and so are their affected periods.\<close>

lemma mapSet_keys:
  "map fst (mapSet m k v) = (if k \<in> fst ` set m then map fst m else map fst m @ [k])"
  by (induction m k v rule: mapSet.induct) auto

lemma addRecord_distinct:
  "distinct (map fst m) \<Longrightarrow> distinct (map fst (addRecord m r))"
  by (simp add: addRecord_def Let_def mapSet_keys)

lemma foldl_addRecord_distinct:
  "distinct (map fst m) \<Longrightarrow> distinct (map fst (foldl addRecord m rs))"
  by (induction rs arbitrary: m) (simp_all add: addRecord_distinct)

lemma unitBuckets_distinct: "distinct (map fst (unitBuckets env solarUnit))"
proof -
  have "map fst (unitBuckets env solarUnit)
      = map fst (foldl addRecord [] (e_records env (u_id solarUnit) (e_now env - 7 * msPerDay)))"
    by (simp add: unitBuckets_def case_prod_beta comp_def)
  then show ?thesis by (simp add: foldl_addRecord_distinct)
qed

lemma dayPeriod_inj: "dayPeriod tz date = dayPeriod tz date' \<Longrightarrow> date = date'"
proof -
  assume "dayPeriod tz date = dayPeriod tz date'"
  then have "setHours tz (newDate date) 0 0 0 0 = setHours tz (newDate date') 0 0 0 0"
    by (simp add: dayPeriod_def)
  then have "(date * msPerDay + tz) div msPerDay = (date' * msPerDay + tz) div msPerDay"
    by (simp add: setHours_def localMidnight_def newDate_def msPerDay_def)
  then show ?thesis by (simp add: msPerDay_def)
qed

lemma fromBucket_unique:
  assumes "distinct (map u_id units)" and "solarUnit \<in> set units"
    and "(date, dayData) \<in> set (unitBuckets env solarUnit)"
    and "solarUnit' \<in> set units" and "entry \<in> set (unitBuckets env solarUnit')"
    and "u_id solarUnit' = u_id solarUnit" and "fst entry = date"
  shows "solarUnit' = solarUnit \<and> entry = (date, dayData)"
proof -
  have "inj_on u_id (set units)" using assms(1) by (simp add: distinct_map)
  with assms(2,4,6) have u: "solarUnit' = solarUnit" by (auto dest: inj_onD)
  have "(date, snd entry) \<in> set (unitBuckets env solarUnit)"
    using assms(5,7) u by (cases entry) auto
  with assms(3) unitBuckets_distinct [of env solarUnit] have "snd entry = dayData"
    by (metis eq_key_imp_eq_value)
  with assms(7) u show ?thesis by (cases entry) auto
qed

text \<open>Claim C1. When \<open>detectSensorMalfunction\<close> detects an anomaly for a bucket, the body of
  the bucket loop of \<open>runAnomalyDetection\<close> is the persistence of that one result: the only
  detector called for the bucket is the sensor check (the trace \<open>calls\<close> gains this one
  entry), and the store is unchanged or gains one record, of type SENSOR_MALFUNCTION, for
  this unit and this day. For a whole run, over active units with distinct ids: for every
  bucket of a unit for which the sensor check detects an anomaly, every record the run
  adds for that unit and that day is of type SENSOR_MALFUNCTION (none is COMPLETE_FAILURE,
  WEATHER_RELATED or DEGRADATION), and every detector call the run makes for that bucket
  is a call of the sensor check. This holds whichever store operations fail.\<close>

theorem sensor_precedence:
  "(anomalyDetected (detectSensorMalfunction (e_tz env) (d_total dayData)
             (capacityOrDefault solarUnit) (newDate date) (Some recentReadings)) \<longrightarrow>
      processBucket env solarUnit historicalAverage recentReadings (date, dayData) s =
           createAnomalyIfNotExists env (u_id solarUnit)
             (detectSensorMalfunction (e_tz env) (d_total dayData)
                (capacityOrDefault solarUnit) (newDate date) (Some recentReadings))
             date (noteCall (u_id solarUnit) date SensorIntegrity s)
    \<and> calls (snd (processBucket env solarUnit historicalAverage recentReadings (date, dayData) s))
        = calls s @ [(u_id solarUnit, date, SensorIntegrity)]
    \<and> (anomalies (snd (processBucket env solarUnit historicalAverage recentReadings (date, dayData) s))
          = anomalies s
        \<or> (\<exists>a. anomalies (snd (processBucket env solarUnit historicalAverage recentReadings
                                (date, dayData) s)) = anomalies s @ [a]
               \<and> a_solarUnitId a = u_id solarUnit
               \<and> a_anomalyType a = SENSOR_MALFUNCTION
               \<and> a_affectedPeriod a = dayPeriod (e_tz env) date)))
   \<and> (distinct (map u_id (e_activeUnits env))
       \<and> solarUnit \<in> set (e_activeUnits env)
       \<and> (date, dayData) \<in> set (unitBuckets env solarUnit)
       \<and> anomalyDetected (sensorCheckOf env solarUnit (date, dayData)) \<longrightarrow>
      take (length (anomalies s)) (anomalies (snd (runAnomalyDetection env s))) = anomalies s
      \<and> (\<forall>a \<in> set (drop (length (anomalies s)) (anomalies (snd (runAnomalyDetection env s)))).
            a_solarUnitId a = u_id solarUnit \<and> a_affectedPeriod a = dayPeriod (e_tz env) date
            \<longrightarrow> a_anomalyType a = SENSOR_MALFUNCTION)
      \<and> take (length (calls s)) (calls (snd (runAnomalyDetection env s))) = calls s
      \<and> (\<forall>c \<in> set (drop (length (calls s)) (calls (snd (runAnomalyDetection env s)))).
            fst c = u_id solarUnit \<and> fst (snd c) = date \<longrightarrow> snd (snd c) = SensorIntegrity))"
proof (intro conjI impI)
  assume fired: "anomalyDetected (detectSensorMalfunction (e_tz env) (d_total dayData)
             (capacityOrDefault solarUnit) (newDate date) (Some recentReadings))"
  note old = processBucket_sensor_effect [OF fired, of historicalAverage s]
  from old show "processBucket env solarUnit historicalAverage recentReadings (date, dayData) s =
           createAnomalyIfNotExists env (u_id solarUnit)
             (detectSensorMalfunction (e_tz env) (d_total dayData)
                (capacityOrDefault solarUnit) (newDate date) (Some recentReadings))
             date (noteCall (u_id solarUnit) date SensorIntegrity s)" by blast
  from old show "calls (snd (processBucket env solarUnit historicalAverage recentReadings (date, dayData) s))
        = calls s @ [(u_id solarUnit, date, SensorIntegrity)]" by blast
  from old show "anomalies (snd (processBucket env solarUnit historicalAverage recentReadings (date, dayData) s))
          = anomalies s
        \<or> (\<exists>a. anomalies (snd (processBucket env solarUnit historicalAverage recentReadings
                                (date, dayData) s)) = anomalies s @ [a]
               \<and> a_solarUnitId a = u_id solarUnit
               \<and> a_anomalyType a = SENSOR_MALFUNCTION
               \<and> a_affectedPeriod a = dayPeriod (e_tz env) date)"
    unfolding dayPeriod_def by blast
next
  assume h: "distinct (map u_id (e_activeUnits env))
       \<and> solarUnit \<in> set (e_activeUnits env)
       \<and> (date, dayData) \<in> set (unitBuckets env solarUnit)
       \<and> anomalyDetected (sensorCheckOf env solarUnit (date, dayData))"
  have an: "addedBy anomalies s (snd (runAnomalyDetection env s))
           (\<lambda>a. \<exists>u \<in> set (e_activeUnits env). \<exists>entry \<in> set (unitBuckets env u).
                   fromBucket env u (unitReadings env u) entry a)"
    by (rule runAnomalyDetection_addedBy) (simp_all add: processBucket_fromBucket)
  have cl: "addedBy calls s (snd (runAnomalyDetection env s))
           (\<lambda>c. \<exists>u \<in> set (e_activeUnits env). \<exists>entry \<in> set (unitBuckets env u).
                   calledFor env u (unitReadings env u) entry c)"
    by (rule runAnomalyDetection_addedBy) (simp_all add: processBucket_calledFor)
  from an obtain added where
    added: "anomalies (snd (runAnomalyDetection env s)) = anomalies s @ added"
    and prov: "\<forall>a \<in> set added. \<exists>u \<in> set (e_activeUnits env). \<exists>entry \<in> set (unitBuckets env u).
                   fromBucket env u (unitReadings env u) entry a"
    unfolding addedBy_def by blast
  from cl obtain called where
    called: "calls (snd (runAnomalyDetection env s)) = calls s @ called"
    and provc: "\<forall>c \<in> set called. \<exists>u \<in> set (e_activeUnits env). \<exists>entry \<in> set (unitBuckets env u).
                   calledFor env u (unitReadings env u) entry c"
    unfolding addedBy_def by blast
  show "take (length (anomalies s)) (anomalies (snd (runAnomalyDetection env s))) = anomalies s"
    by (simp add: added)
  show "take (length (calls s)) (calls (snd (runAnomalyDetection env s))) = calls s"
    by (simp add: called)
  show "\<forall>a \<in> set (drop (length (anomalies s)) (anomalies (snd (runAnomalyDetection env s)))).
            a_solarUnitId a = u_id solarUnit \<and> a_affectedPeriod a = dayPeriod (e_tz env) date
            \<longrightarrow> a_anomalyType a = SENSOR_MALFUNCTION"
  proof (intro ballI impI)
    fix a
    assume "a \<in> set (drop (length (anomalies s)) (anomalies (snd (runAnomalyDetection env s))))"
      and this_bucket: "a_solarUnitId a = u_id solarUnit \<and> a_affectedPeriod a = dayPeriod (e_tz env) date"
    then have "a \<in> set added" by (simp add: added)
    with prov obtain u entry where u: "u \<in> set (e_activeUnits env)"
      and entry: "entry \<in> set (unitBuckets env u)"
      and fb: "fromBucket env u (unitReadings env u) entry a" by blast
    from fb this_bucket have "u_id u = u_id solarUnit" "fst entry = date"
      by (auto simp: fromBucket_def dest: dayPeriod_inj)
    with fromBucket_unique [of "e_activeUnits env" solarUnit date dayData env u entry] h u entry
    have "u = solarUnit \<and> entry = (date, dayData)" by blast
    with fb h show "a_anomalyType a = SENSOR_MALFUNCTION"
      by (simp add: fromBucket_def sensorCheckOf_def)
  qed
  show "\<forall>c \<in> set (drop (length (calls s)) (calls (snd (runAnomalyDetection env s)))).
            fst c = u_id solarUnit \<and> fst (snd c) = date \<longrightarrow> snd (snd c) = SensorIntegrity"
  proof (intro ballI impI)
    fix c
    assume "c \<in> set (drop (length (calls s)) (calls (snd (runAnomalyDetection env s))))"
      and this_bucket: "fst c = u_id solarUnit \<and> fst (snd c) = date"
    then have "c \<in> set called" by (simp add: called)
    with provc obtain u entry where u: "u \<in> set (e_activeUnits env)"
      and entry: "entry \<in> set (unitBuckets env u)"
      and fb: "calledFor env u (unitReadings env u) entry c" by blast
    from fb this_bucket have "u_id u = u_id solarUnit" "fst entry = date"
      by (auto simp: calledFor_def)
    with fromBucket_unique [of "e_activeUnits env" solarUnit date dayData env u entry] h u entry
    have "u = solarUnit \<and> entry = (date, dayData)" by blast
    with fb h show "snd (snd c) = SensorIntegrity"
      by (simp add: calledFor_def sensorCheckOf_def)
  qed
qed

theorem sensor_precedence_witness:
  "anomalyDetected (detectSensorMalfunction 0 (- 1) 5 (newDate 1) (Some [- 1]))
   \<and> processBucket (exEnv 0 (\<lambda>n. False)) exUnit2 0 [- 1]
        (1, \<lparr>d_total = - 1, d_records = exRecords 2 0, d_avgCloud = 50, d_avgPrecip = 0\<rparr>) exStore
      = (Inr (), \<lparr>anomalies = [exAnomaly2], opCount = 2, errorLog = [],
                  calls = [(2, 1, SensorIntegrity)]\<rparr>)
   \<and> distinct (map u_id (e_activeUnits (exEnv 0 (\<lambda>n. False))))
   \<and> exUnit2 \<in> set (e_activeUnits (exEnv 0 (\<lambda>n. False)))
   \<and> unitBuckets (exEnv 0 (\<lambda>n. False)) exUnit2
       = [(1, \<lparr>d_total = - 1, d_records = exRecords 2 0, d_avgCloud = 50, d_avgPrecip = 0\<rparr>)]
   \<and> anomalyDetected (sensorCheckOf (exEnv 0 (\<lambda>n. False)) exUnit2
        (1, \<lparr>d_total = - 1, d_records = exRecords 2 0, d_avgCloud = 50, d_avgPrecip = 0\<rparr>))
   \<and> anomalies (snd (runAnomalyDetection (exEnv 0 (\<lambda>n. False)) exStore)) = [exAnomaly1, exAnomaly2]
   \<and> a_solarUnitId exAnomaly2 = u_id exUnit2
   \<and> a_affectedPeriod exAnomaly2 = dayPeriod 0 1
   \<and> a_anomalyType exAnomaly2 = SENSOR_MALFUNCTION"
proof -
  define env where "env = exEnv 0 (\<lambda>n. False)"
  define dd where "dd = \<lparr>d_total = - 1, d_records = exRecords 2 0, d_avgCloud = 50, d_avgPrecip = 0\<rparr>"
  have tz: "e_tz env = 0" by (simp add: env_def exEnv_tz)
  have fired: "anomalyDetected (detectSensorMalfunction (e_tz env) (d_total dd)
      (capacityOrDefault exUnit2) (newDate 1) (Some [- 1]))"
    by (simp add: env_def dd_def example_defs run_defs)
  have fired': "anomalyDetected (detectSensorMalfunction 0 (- 1) 5 (newDate 1) (Some [- 1]))"
    using fired by (simp add: tz dd_def capacityOrDefault_def exUnit2_def)
  have h1: "distinct (map u_id (e_activeUnits env))"
    by (simp add: env_def example_defs)
  have h2: "exUnit2 \<in> set (e_activeUnits env)"
    by (simp add: env_def exEnv_def)
  have h3: "unitBuckets env exUnit2 = [(1, dd)]"
    by (simp add: env_def dd_def unitBuckets_def example_defs run_defs)
  have h4: "anomalyDetected (sensorCheckOf env exUnit2 (1, dd))"
    by (simp add: env_def dd_def sensorCheckOf_def unitReadings_def example_defs run_defs)
  have run: "anomalies (snd (runAnomalyDetection env exStore)) = [exAnomaly1, exAnomaly2]"
    by (simp add: env_def example_run)
  have a1: "a_solarUnitId exAnomaly2 = u_id exUnit2"
    by (simp add: example_defs)
  have a2: "a_affectedPeriod exAnomaly2 = dayPeriod 0 1"
    by (simp add: example_defs dayPeriod_def run_defs)
  note inst = sensor_precedence [of env dd exUnit2 1 "[- 1]" 0 exStore]
  from inst fired have bucket: "processBucket env exUnit2 0 [- 1] (1, dd) exStore =
      createAnomalyIfNotExists env (u_id exUnit2)
        (detectSensorMalfunction (e_tz env) (d_total dd) (capacityOrDefault exUnit2) (newDate 1)
           (Some [- 1]))
        1 (noteCall (u_id exUnit2) 1 SensorIntegrity exStore)"
    by blast
  have b: "processBucket env exUnit2 0 [- 1] (1, dd) exStore
      = (Inr (), \<lparr>anomalies = [exAnomaly2], opCount = 2, errorLog = [],
                  calls = [(2, 1, SensorIntegrity)]\<rparr>)"
    unfolding bucket by (simp add: env_def dd_def example_defs run_defs)
  have len: "length (anomalies exStore) = 0"
    by (simp add: exStore_def)
  have "exAnomaly2 \<in> set (drop (length (anomalies exStore)) (anomalies (snd (runAnomalyDetection env exStore))))"
    unfolding run len by simp
  with inst h1 h2 h3 h4 a1 a2 tz have a3: "a_anomalyType exAnomaly2 = SENSOR_MALFUNCTION"
    by auto
  from fired' b h1 h2 h3 h4 run a1 a2 a3 show ?thesis
    unfolding env_def dd_def by (intro conjI)
qed

subsection \<open>Deduplication\<close>

lemma createAnomalyIfNotExists_grows:
  assumes "take n (anomalies s) = old \<and> n \<le> length (anomalies s)
           \<and> distinct (map (dedupKey (e_tz env)) (anomalies s))"
  shows "take n (anomalies (snd (createAnomalyIfNotExists env solarUnitId detection date s))) = old
         \<and> n \<le> length (anomalies (snd (createAnomalyIfNotExists env solarUnitId detection date s)))
         \<and> distinct (map (dedupKey (e_tz env))
              (anomalies (snd (createAnomalyIfNotExists env solarUnitId detection date s))))"
  using createAnomalyIfNotExists_effect(3) [of env solarUnitId detection date s] assms
  by auto

text \<open>A call of \<open>createAnomalyIfNotExists\<close> that no other store operation interrupts is
  the two steps of \<open>createStep\<close> one after the other.\<close>

lemma createStep_uninterrupted:
  "overlapped env (solarUnitId, detection, date) other [FirstCall, FirstCall] (BeforeLookup, p, s) =
     (Finished (fst (createAnomalyIfNotExists env solarUnitId detection date s)), p,
      snd (createAnomalyIfNotExists env solarUnitId detection date s))"
  unfolding createStep_def createAnomalyIfNotExists_def Let_def overlapped.simps prod.case
  by (auto split: prod.splits sum.splits Progress.splits)

text \<open>Claim C2 fails on the code for runs that overlap. Two calls of
  \<open>createAnomalyIfNotExists\<close> for the same unit, type and day, one from each run, on the
  empty store: both lookups come before both inserts, neither finds a record, and each
  call inserts one. The store then holds two records with the same triple. When the first
  call ends before the second begins, the second finds the record of the first and
  inserts nothing.\<close>

theorem dedup_overlapping_calls:
  "distinct (map (dedupKey 0) (anomalies exStore))
   \<and> overlapped (exEnv 0 (\<lambda>n. False))
        (1, detectSensorMalfunction 0 2 5 (newDate 1) (Some [2]), 1)
        (1, detectSensorMalfunction 0 2 5 (newDate 1) (Some [2]), 1)
        [FirstCall, SecondCall, FirstCall, SecondCall] (BeforeLookup, BeforeLookup, exStore)
      = (Finished (Inr ()), Finished (Inr ()),
         \<lparr>anomalies = [exAnomaly1, exAnomaly1], opCount = 4, errorLog = [], calls = []\<rparr>)
   \<and> dedupKey 0 exAnomaly1 = (1, SENSOR_MALFUNCTION, 1)
   \<and> \<not> distinct (map (dedupKey 0) [exAnomaly1, exAnomaly1])
   \<and> overlapped (exEnv 0 (\<lambda>n. False))
        (1, detectSensorMalfunction 0 2 5 (newDate 1) (Some [2]), 1)
        (1, detectSensorMalfunction 0 2 5 (newDate 1) (Some [2]), 1)
        [FirstCall, FirstCall, SecondCall, SecondCall] (BeforeLookup, BeforeLookup, exStore)
      = (Finished (Inr ()), Finished (Inr ()),
         \<lparr>anomalies = [exAnomaly1], opCount = 3, errorLog = [], calls = []\<rparr>)"
proof -
  have a: "distinct (map (dedupKey 0) (anomalies exStore))"
    by (simp add: exStore_def)
  have b: "overlapped (exEnv 0 (\<lambda>n. False))
        (1, detectSensorMalfunction 0 2 5 (newDate 1) (Some [2]), 1)
        (1, detectSensorMalfunction 0 2 5 (newDate 1) (Some [2]), 1)
        [FirstCall, SecondCall, FirstCall, SecondCall] (BeforeLookup, BeforeLookup, exStore)
      = (Finished (Inr ()), Finished (Inr ()),
         \<lparr>anomalies = [exAnomaly1, exAnomaly1], opCount = 4, errorLog = [], calls = []\<rparr>)"
    by (simp add: createStep_def example_defs run_defs)
  have c: "dedupKey 0 exAnomaly1 = (1, SENSOR_MALFUNCTION, 1)"
    by (simp add: dedupKey_def localDay_def msPerDay_def exAnomaly1_def)
  have d: "\<not> distinct (map (dedupKey 0) [exAnomaly1, exAnomaly1])"
    by simp
  have e: "overlapped (exEnv 0 (\<lambda>n. False))
        (1, detectSensorMalfunction 0 2 5 (newDate 1) (Some [2]), 1)
        (1, detectSensorMalfunction 0 2 5 (newDate 1) (Some [2]), 1)
        [FirstCall, FirstCall, SecondCall, SecondCall] (BeforeLookup, BeforeLookup, exStore)
      = (Finished (Inr ()), Finished (Inr ()),
         \<lparr>anomalies = [exAnomaly1], opCount = 3, errorLog = [], calls = []\<rparr>)"
    by (simp add: createStep_def example_defs run_defs)
  from a b c d e show ?thesis by (intro conjI)
qed

text \<open>Claim C2, for runs that do not overlap. In a store that holds no two records with the
  same solar unit, anomaly type and local calendar day of the start of the affected
  period, a call of \<open>createAnomalyIfNotExists\<close> that nothing interrupts leaves the store as
  it is or appends one ACTIVE record whose triple no record had, so that the store still
  holds no two records with the same triple. A run of the orchestrator that no other run
  overlaps keeps the records there were and keeps the triples distinct, and so does a
  second run after it on the same input: it creates no record for a triple already
  present. This holds whichever store operations fail.\<close>

theorem dedup_invariant:
  assumes "distinct (map (dedupKey (e_tz env)) (anomalies s))"
  shows "(anomalies (snd (createAnomalyIfNotExists env solarUnitId detection date s)) = anomalies s
          \<or> (\<exists>a. anomalies (snd (createAnomalyIfNotExists env solarUnitId detection date s))
                    = anomalies s @ [a]
                 \<and> a_status a = ACTIVE
                 \<and> Some (a_anomalyType a) = anomalyType detection
                 \<and> dedupKey (e_tz env) a
                     = (solarUnitId, a_anomalyType a, localDay (e_tz env) (newDate date))
                 \<and> dedupKey (e_tz env) a \<notin> dedupKey (e_tz env) ` set (anomalies s)))
    \<and> distinct (map (dedupKey (e_tz env))
         (anomalies (snd (createAnomalyIfNotExists env solarUnitId detection date s))))
    \<and> distinct (map (dedupKey (e_tz env)) (anomalies (snd (runAnomalyDetection env s))))
    \<and> take (length (anomalies s)) (anomalies (snd (runAnomalyDetection env s))) = anomalies s
    \<and> distinct (map (dedupKey (e_tz env))
         (anomalies (snd (runAnomalyDetection env (snd (runAnomalyDetection env s))))))
    \<and> take (length (anomalies (snd (runAnomalyDetection env s))))
         (anomalies (snd (runAnomalyDetection env (snd (runAnomalyDetection env s)))))
        = anomalies (snd (runAnomalyDetection env s))
    \<and> overlapped env (solarUnitId, detection, date) other [FirstCall, FirstCall]
          (BeforeLookup, p, s)
        = (Finished (fst (createAnomalyIfNotExists env solarUnitId detection date s)), p,
           snd (createAnomalyIfNotExists env solarUnitId detection date s))"
proof -
  have one: "anomalies (snd (createAnomalyIfNotExists env solarUnitId detection date s)) = anomalies s
          \<or> (\<exists>a. anomalies (snd (createAnomalyIfNotExists env solarUnitId detection date s))
                    = anomalies s @ [a]
                 \<and> a_status a = ACTIVE
                 \<and> Some (a_anomalyType a) = anomalyType detection
                 \<and> dedupKey (e_tz env) a
                     = (solarUnitId, a_anomalyType a, localDay (e_tz env) (newDate date))
                 \<and> dedupKey (e_tz env) a \<notin> dedupKey (e_tz env) ` set (anomalies s))"
    using createAnomalyIfNotExists_effect(3) [of env solarUnitId detection date s]
    by (auto simp: dedupKey_def localDay_startOfDay)
  have two: "distinct (map (dedupKey (e_tz env))
         (anomalies (snd (createAnomalyIfNotExists env solarUnitId detection date s))))"
    using createAnomalyIfNotExists_grows [of 0 s "[]" env] assms by simp
  have run: "take (length (anomalies t)) (anomalies (snd (runAnomalyDetection env t))) = anomalies t
        \<and> length (anomalies t) \<le> length (anomalies (snd (runAnomalyDetection env t)))
        \<and> distinct (map (dedupKey (e_tz env)) (anomalies (snd (runAnomalyDetection env t))))"
    if "distinct (map (dedupKey (e_tz env)) (anomalies t))" for t
    by (rule runAnomalyDetection_anomalies
          [where Q = "\<lambda>l. take (length (anomalies t)) l = anomalies t \<and> length (anomalies t) \<le> length l
                        \<and> distinct (map (dedupKey (e_tz env)) l)"])
       (use that createAnomalyIfNotExists_grows in auto)
  from run [OF assms] have d1: "distinct (map (dedupKey (e_tz env)) (anomalies (snd (runAnomalyDetection env s))))"
    by simp
  from one two run [OF assms] run [OF d1] createStep_uninterrupted show ?thesis by simp
qed

theorem dedup_invariant_witness:
  "distinct (map (dedupKey 0) [exAnomaly1])
   \<and> anomalies (snd (createAnomalyIfNotExists (exEnv 0 (\<lambda>n. False)) 1
        \<lparr>anomalyDetected = True, anomalyType = Some SENSOR_MALFUNCTION, severity = Some HIGH,
         confidence = Some 0.9, details = None\<rparr> 1
        \<lparr>anomalies = [exAnomaly1], opCount = 0, errorLog = [], calls = []\<rparr>)) = [exAnomaly1]
   \<and> anomalies (snd (runAnomalyDetection (exEnv 0 (\<lambda>n. False))
        \<lparr>anomalies = [exAnomaly1], opCount = 0, errorLog = [], calls = []\<rparr>))
      = [exAnomaly1, exAnomaly2]
   \<and> distinct (map (dedupKey 0) [exAnomaly1, exAnomaly2])
   \<and> anomalies (snd (runAnomalyDetection (exEnv 0 (\<lambda>n. False))
        (snd (runAnomalyDetection (exEnv 0 (\<lambda>n. False))
           \<lparr>anomalies = [exAnomaly1], opCount = 0, errorLog = [], calls = []\<rparr>))))
      = [exAnomaly1, exAnomaly2]"
proof -
  have d: "distinct (map (dedupKey (e_tz (exEnv 0 (\<lambda>n. False))))
             (anomalies \<lparr>anomalies = [exAnomaly1], opCount = 0, errorLog = [], calls = []\<rparr>))"
    by simp
  have d0: "distinct (map (dedupKey 0) [exAnomaly1])"
    by simp
  have r1: "runAnomalyDetection (exEnv 0 (\<lambda>n. False))
        \<lparr>anomalies = [exAnomaly1], opCount = 0, errorLog = [], calls = []\<rparr>
      = (Inr (), \<lparr>anomalies = [exAnomaly1, exAnomaly2], opCount = 8, errorLog = [],
               calls = [(1, 1, SensorIntegrity), (2, 1, SensorIntegrity)]\<rparr>)"
    by (simp add: example_defs run_defs)
  have c: "anomalies (snd (createAnomalyIfNotExists (exEnv 0 (\<lambda>n. False)) 1
        \<lparr>anomalyDetected = True, anomalyType = Some SENSOR_MALFUNCTION, severity = Some HIGH,
         confidence = Some 0.9, details = None\<rparr> 1
        \<lparr>anomalies = [exAnomaly1], opCount = 0, errorLog = [], calls = []\<rparr>)) = [exAnomaly1]"
    by (simp add: example_defs run_defs)
  have r2: "runAnomalyDetection (exEnv 0 (\<lambda>n. False))
        \<lparr>anomalies = [exAnomaly1, exAnomaly2], opCount = 8, errorLog = [],
               calls = [(1, 1, SensorIntegrity), (2, 1, SensorIntegrity)]\<rparr>
      = (Inr (), \<lparr>anomalies = [exAnomaly1, exAnomaly2], opCount = 15, errorLog = [],
               calls = [(1, 1, SensorIntegrity), (2, 1, SensorIntegrity),
                        (1, 1, SensorIntegrity), (2, 1, SensorIntegrity)]\<rparr>)"
    by (simp add: example_defs run_defs)
  have k: "distinct (map (dedupKey 0) [exAnomaly1, exAnomaly2])"
    using dedup_invariant [OF d, where solarUnitId = 1 and detection = noDetection and date = 1
        and other = "(1, noDetection, 1)" and p = BeforeLookup]
    by (simp add: r1 exEnv_tz)
  have e1: "anomalies (snd (runAnomalyDetection (exEnv 0 (\<lambda>n. False))
        \<lparr>anomalies = [exAnomaly1], opCount = 0, errorLog = [], calls = []\<rparr>))
      = [exAnomaly1, exAnomaly2]"
    unfolding r1 by simp
  have e2: "anomalies (snd (runAnomalyDetection (exEnv 0 (\<lambda>n. False))
        (snd (runAnomalyDetection (exEnv 0 (\<lambda>n. False))
           \<lparr>anomalies = [exAnomaly1], opCount = 0, errorLog = [], calls = []\<rparr>))))
      = [exAnomaly1, exAnomaly2]"
    unfolding r1 snd_conv r2 by simp
  from d0 c e1 k e2 show ?thesis by (intro conjI)
qed

subsection \<open>Errors\<close>

text \<open>Claim C3 does not hold of the code, and the code is at fault: the loop of
  \<open>runAnomalyDetection\<close> over the units has no \<open>try\<close> inside, where the invoice job of the
  same backend (\<open>generateInvoices\<close>) has one around each unit. In the example fleet the
  query for the active units succeeds and the query for the readings of the first unit
  fails; the run ends with that error, thrown to the caller, and the second unit, whose
  processing would create an anomaly, is not processed.\<close>

theorem unit_error_not_isolated:
  "runAnomalyDetection (exEnv 0 (\<lambda>n. n = 1)) exStore =
     (Inl DbError, \<lparr>anomalies = [], opCount = 2, errorLog = [DbError], calls = []\<rparr>)
   \<and> \<not> e_fails (exEnv 0 (\<lambda>n. n = 1)) (opCount exStore)
   \<and> processUnit (exEnv 0 (\<lambda>n. n = 1)) exUnit1 (exStore\<lparr>opCount := 1\<rparr>)
       = (Inl DbError, exStore\<lparr>opCount := 2\<rparr>)
   \<and> processUnit (exEnv 0 (\<lambda>n. n = 1)) exUnit2 (exStore\<lparr>opCount := 2\<rparr>)
       = (Inr (), \<lparr>anomalies = [exAnomaly2], opCount = 6, errorLog = [],
                   calls = [(2, 1, SensorIntegrity)]\<rparr>)
   \<and> (\<exists>env s. \<not> e_fails env (opCount s) \<and> fst (runAnomalyDetection env s) \<noteq> Inr ())"
proof -
  have run: "runAnomalyDetection (exEnv 0 (\<lambda>n. n = 1)) exStore =
     (Inl DbError, \<lparr>anomalies = [], opCount = 2, errorLog = [DbError], calls = []\<rparr>)"
    by (simp add: example_defs run_defs)
  have ok: "\<not> e_fails (exEnv 0 (\<lambda>n. n = 1)) (opCount exStore)"
    by (simp add: example_defs)
  have u1: "processUnit (exEnv 0 (\<lambda>n. n = 1)) exUnit1 (exStore\<lparr>opCount := 1\<rparr>)
       = (Inl DbError, exStore\<lparr>opCount := 2\<rparr>)"
    by (simp add: example_defs run_defs)
  have u2: "processUnit (exEnv 0 (\<lambda>n. n = 1)) exUnit2 (exStore\<lparr>opCount := 2\<rparr>)
       = (Inr (), \<lparr>anomalies = [exAnomaly2], opCount = 6, errorLog = [],
                   calls = [(2, 1, SensorIntegrity)]\<rparr>)"
    by (simp add: example_defs run_defs)
  have no: "\<exists>env s. \<not> e_fails env (opCount s) \<and> fst (runAnomalyDetection env s) \<noteq> Inr ()"
  proof (intro exI conjI)
    show "\<not> e_fails (exEnv 0 (\<lambda>n. n = 1)) (opCount exStore)" by (rule ok)
    show "fst (runAnomalyDetection (exEnv 0 (\<lambda>n. n = 1)) exStore) \<noteq> Inr ()"
      unfolding run by simp
  qed
  from run ok u1 u2 no show ?thesis by (intro conjI)
qed

text \<open>How a run ends on an error. An error raised while a solar unit is processed leaves
  the loop over the units: the units after it are not processed, the one \<open>catch\<close> of
  \<open>runAnomalyDetection\<close> logs the error and throws it to the caller, and the store is as
  the failing unit left it. A failure of the query for the active units ends the run in
  the same way.\<close>

lemma unit_error_aborts_run:
  "(e_fails env (opCount s) \<longrightarrow>
      runAnomalyDetection env s =
        (Inl DbError, s\<lparr>opCount := opCount s + 1, errorLog := errorLog s @ [DbError]\<rparr>))
   \<and> (\<not> e_fails env (opCount s)
       \<and> e_activeUnits env = before @ solarUnit # rest
       \<and> forEach (processUnit env) before (s\<lparr>opCount := opCount s + 1\<rparr>) = (Inr (), s2)
       \<and> processUnit env solarUnit s2 = (Inl e, s3) \<longrightarrow>
      runAnomalyDetection env s = (Inl e, s3\<lparr>errorLog := errorLog s3 @ [e]\<rparr>))"
proof (intro conjI impI)
  assume "e_fails env (opCount s)"
  then show "runAnomalyDetection env s =
        (Inl DbError, s\<lparr>opCount := opCount s + 1, errorLog := errorLog s @ [DbError]\<rparr>)"
    by (simp add: runAnomalyDetection_def dbOp_def)
next
  assume a: "\<not> e_fails env (opCount s)
       \<and> e_activeUnits env = before @ solarUnit # rest
       \<and> forEach (processUnit env) before (s\<lparr>opCount := opCount s + 1\<rparr>) = (Inr (), s2)
       \<and> processUnit env solarUnit s2 = (Inl e, s3)"
  then have "forEach (processUnit env) (before @ solarUnit # rest) (s\<lparr>opCount := opCount s + 1\<rparr>)
      = (Inl e, s3)"
    by (simp add: forEach_append)
  with a show "runAnomalyDetection env s = (Inl e, s3\<lparr>errorLog := errorLog s3 @ [e]\<rparr>)"
    by (simp add: runAnomalyDetection_def dbOp_def)
qed

lemma unit_error_aborts_run_example:
  "e_fails (exEnv 0 (\<lambda>n. n = 0)) (opCount exStore)
   \<and> runAnomalyDetection (exEnv 0 (\<lambda>n. n = 0)) exStore
       = (Inl DbError, exStore\<lparr>opCount := 1, errorLog := [DbError]\<rparr>)
   \<and> \<not> e_fails (exEnv 0 (\<lambda>n. n = 1)) (opCount exStore)
   \<and> e_activeUnits (exEnv 0 (\<lambda>n. n = 1)) = [] @ exUnit1 # [exUnit2]
   \<and> forEach (processUnit (exEnv 0 (\<lambda>n. n = 1))) [] (exStore\<lparr>opCount := opCount exStore + 1\<rparr>)
       = (Inr (), exStore\<lparr>opCount := 1\<rparr>)
   \<and> processUnit (exEnv 0 (\<lambda>n. n = 1)) exUnit1 (exStore\<lparr>opCount := 1\<rparr>)
       = (Inl DbError, exStore\<lparr>opCount := 2\<rparr>)
   \<and> runAnomalyDetection (exEnv 0 (\<lambda>n. n = 1)) exStore
       = (Inl DbError, exStore\<lparr>opCount := 2, errorLog := [DbError]\<rparr>)"
proof -
  have g1: "e_fails (exEnv 0 (\<lambda>n. n = 0)) (opCount exStore)"
    by (simp add: example_defs)
  have "runAnomalyDetection (exEnv 0 (\<lambda>n. n = 0)) exStore
       = (Inl DbError, exStore\<lparr>opCount := opCount exStore + 1, errorLog := errorLog exStore @ [DbError]\<rparr>)"
    using unit_error_aborts_run [of "exEnv 0 (\<lambda>n. n = 0)" exStore] g1 by blast
  then have g2: "runAnomalyDetection (exEnv 0 (\<lambda>n. n = 0)) exStore
       = (Inl DbError, exStore\<lparr>opCount := 1, errorLog := [DbError]\<rparr>)"
    by (simp add: exStore_def)
  have h1: "\<not> e_fails (exEnv 0 (\<lambda>n. n = 1)) (opCount exStore)"
    by (simp add: example_defs)
  have h2: "e_activeUnits (exEnv 0 (\<lambda>n. n = 1)) = [] @ exUnit1 # [exUnit2]"
    by (simp add: exEnv_def)
  have h3: "forEach (processUnit (exEnv 0 (\<lambda>n. n = 1))) [] (exStore\<lparr>opCount := opCount exStore + 1\<rparr>)
       = (Inr (), exStore\<lparr>opCount := 1\<rparr>)"
    by (simp add: exStore_def)
  have h4: "processUnit (exEnv 0 (\<lambda>n. n = 1)) exUnit1 (exStore\<lparr>opCount := 1\<rparr>)
       = (Inl DbError, exStore\<lparr>opCount := 2\<rparr>)"
    by (simp add: example_defs run_defs)
  have "runAnomalyDetection (exEnv 0 (\<lambda>n. n = 1)) exStore
       = (Inl DbError, (exStore\<lparr>opCount := 2\<rparr>)\<lparr>errorLog := errorLog (exStore\<lparr>opCount := 2\<rparr>) @ [DbError]\<rparr>)"
    using unit_error_aborts_run [of "exEnv 0 (\<lambda>n. n = 1)" exStore "[]" exUnit1 "[exUnit2]"
        "exStore\<lparr>opCount := 1\<rparr>" DbError "exStore\<lparr>opCount := 2\<rparr>"] h1 h2 h3 h4
    by blast
  then have h5: "runAnomalyDetection (exEnv 0 (\<lambda>n. n = 1)) exStore
       = (Inl DbError, exStore\<lparr>opCount := 2, errorLog := [DbError]\<rparr>)"
    by (simp add: exStore_def)
  from g1 g2 h1 h2 h3 h4 h5 show ?thesis by (intro conjI)
qed

subsection \<open>The timestamp of a bucket\<close>









text \<open>The contrast: when midnight UTC is noon local time, a bucket without generation is a
  complete failure, whatever the times of its readings.\<close>

lemma bucket_daytime_failure:
  "processBucket (exEnv 43200000 (\<lambda>n. False)) exUnit1 0 []
     (1, \<lparr>d_total = 0, d_records = exRecords 1 0, d_avgCloud = 20, d_avgPrecip = 0\<rparr>) exStore
   = (Inr (), \<lparr>anomalies =
        [\<lparr>a_solarUnitId = 1, a_anomalyType = COMPLETE_FAILURE, a_severity = CRITICAL,
          a_status = ACTIVE, a_detectedAt = 172800000,
          a_affectedPeriod = \<lparr>p_start = 43200000, p_end = 129599999\<rparr>,
          a_confidence = 0.95,
          a_details = Some (FailureDetails (Some 0) 20 True)\<rparr>],
        opCount = 2, errorLog = [],
        calls = [(1, 1, SensorIntegrity), (1, 1, CompleteFailure), (1, 1, WeatherImpact)]\<rparr>)"
  by (simp add: example_defs run_defs)

end
